(* ===== verification/Prelude.thy ===== *)
theory Prelude
  imports Complex_Main "HOL-Library.AList"
begin

text \<open>
  Shared vocabulary of the development. Python exceptions are values of the
  datatype \<open>error\<close>, and a computation that may raise returns
  \<open>'a result = error + 'a\<close> (\<open>Inl\<close> the exception). \<open>bind_result\<close> is Python's
  default propagation: the first exception aborts the rest of the computation.
  The collection \<open>result_simps\<close> gathers the rewrite rules for it, and
  \<open>alist_simps\<close> the facts on association lists (Python dicts and Mongo
  collections in insertion order) that the component proofs share.
\<close>

named_theorems result_simps "rewriting of exception propagation"
named_theorems alist_simps "facts on association lists shared by the components"

section \<open>Exceptions\<close>

text \<open>
  The exception classes raised on the code paths that are modelled: pymodm's
  \<open>ValidationError\<close> and \<open>DoesNotExist\<close>, Python's \<open>ValueError\<close>,
  \<open>AttributeError\<close> and \<open>RecursionError\<close>, the service layer's
  \<open>NotFoundError\<close>, the gate's \<open>AuthError\<close>, and a failed store round trip
  (\<open>PersistenceError\<close>, pymongo's connection failure).
\<close>

datatype error =
    ValidationError string
  | ValueError string
  | AttributeError string
  | RecursionError
  | DoesNotExist
  | NotFoundError
  | AuthError string
  | PersistenceError
  | DuplicateKeyError

type_synonym 'a result = "error + 'a"

definition bind_result :: "'a result \<Rightarrow> ('a \<Rightarrow> 'b result) \<Rightarrow> 'b result" where
  "bind_result r f = (case r of Inl e \<Rightarrow> Inl e | Inr a \<Rightarrow> f a)"

definition map_result :: "('a \<Rightarrow> 'b) \<Rightarrow> 'a result \<Rightarrow> 'b result" where
  "map_result f r = bind_result r (\<lambda>a. Inr (f a))"

lemma bind_result_Inl [simp, result_simps]: "bind_result (Inl e) f = Inl e"
  by (simp add: bind_result_def)

lemma bind_result_Inr [simp, result_simps]: "bind_result (Inr a) f = f a"
  by (simp add: bind_result_def)

lemma map_result_simps [simp, result_simps]:
  "map_result f (Inl e) = Inl e"
  "map_result f (Inr a) = Inr (f a)"
  by (simp_all add: map_result_def)

lemma bind_result_eq_Inr [result_simps]:
  "bind_result r f = Inr b \<longleftrightarrow> (\<exists>a. r = Inr a \<and> f a = Inr b)"
  by (cases r) simp_all

lemma bind_result_eq_Inl [result_simps]:
  "bind_result r f = Inl e \<longleftrightarrow> r = Inl e \<or> (\<exists>a. r = Inr a \<and> f a = Inl e)"
  by (cases r) simp_all

lemma bind_result_assoc [result_simps]:
  "bind_result (bind_result r f) g = bind_result r (\<lambda>a. bind_result (f a) g)"
  by (cases r) simp_all

section \<open>Association lists\<close>

text \<open>
  A Python dict and a Mongo collection are association lists: \<open>map_of\<close> reads
  them, \<open>AList.update\<close> writes a key in place or appends it, \<open>AList.delete\<close>
  removes it. Keys stay distinct under both.
\<close>

abbreviation keys_of :: "('k \<times> 'v) list \<Rightarrow> 'k list" where
  "keys_of al \<equiv> map fst al"

lemma distinct_keys_update [alist_simps]:
  "distinct (keys_of al) \<Longrightarrow> distinct (keys_of (AList.update k v al))"
  by (rule distinct_update)

lemma distinct_keys_delete [alist_simps]:
  "distinct (keys_of al) \<Longrightarrow> distinct (keys_of (AList.delete k al))"
  by (rule distinct_delete)

lemma map_of_update_same [alist_simps]: "map_of (AList.update k v al) k = Some v"
  by (simp add: update_conv')

lemma map_of_update_other [alist_simps]:
  "k' \<noteq> k \<Longrightarrow> map_of (AList.update k v al) k' = map_of al k'"
  by (simp add: update_conv')

lemma map_of_delete_same [alist_simps]: "map_of (AList.delete k al) k = None"
  by (simp add: delete_conv')

lemma set_update_member [alist_simps]:
  "(k', v') \<in> set (AList.update k v al) \<Longrightarrow> (k', v') = (k, v) \<or> (k', v') \<in> set al"
  by (induction al) (auto split: if_splits)

lemma set_delete_member [alist_simps]:
  "x \<in> set (AList.delete k al) \<Longrightarrow> x \<in> set al"
  by (simp add: AList.delete_eq)

lemma filter_key_absent [alist_simps]:
  "k \<notin> set (keys_of al) \<Longrightarrow> [d. (k', d) \<leftarrow> al, k' = k] = []"
  by (induction al) auto

lemma filter_key_distinct [alist_simps]:
  "distinct (keys_of al) \<Longrightarrow>
   [d. (k', d) \<leftarrow> al, k' = k] = (case map_of al k of None \<Rightarrow> [] | Some d \<Rightarrow> [d])"
proof (induction al)
  case Nil
  then show ?case by simp
next
  case (Cons p al)
  then show ?case
    by (cases p) (auto simp: filter_key_absent split: option.splits)
qed

lemma list_all_update [alist_simps]:
  "list_all P al \<Longrightarrow> P (k, v) \<Longrightarrow> list_all P (AList.update k v al)"
  by (induction al) auto

lemma list_all_delete [alist_simps]:
  "list_all P al \<Longrightarrow> list_all P (AList.delete k al)"
  by (induction al) auto

lemma map_of_SomeD_set [alist_simps]: "map_of al k = Some v \<Longrightarrow> (k, v) \<in> set al"
  by (rule map_of_SomeD)

end
