(* ===== verification/Store.thy ===== *)
theory Store
  imports Prelude
begin

text \<open>
  The Entity Store Adapter: the document store that \<open>src/src/models.py\<close> opens at
  import time (\<open>connect(settings.MONGO_DB_URI, ...)\<close>, line 23) and that pymodm
  reaches on every query and save. Python values are the datatype \<open>pyval\<close>; a
  document is an association list from attribute names to values; a collection is an
  association list from primary keys (the Mongo \<open>_id\<close>) to documents, in insertion
  order; the store maps collection names to collections and records whether the
  server is reachable. Queries are the two shapes the repository issues:
  \<open>objects.raw({"_id": k})\<close> and \<open>objects.raw({f1: v1, ...})\<close>, each with
  \<open>count()\<close> and \<open>first()\<close>. pymodm's field declarations are the record
  \<open>fdecl\<close>, so that the classes of \<open>models.py\<close> are data (theory
  \<open>Models\<close>). The unique indexes of \<open>Meta.indexes\<close> are data too (\<open>index_decl\<close>), and
  the server's insert or replace (\<open>insert_indexed\<close>) refuses a document that would
  break one with \<open>DuplicateKeyError\<close>; a write that passes the check keeps the
  collection consistent with its indexes (\<open>indexes_ok\<close>).
\<close>

section \<open>Python values and documents\<close>

text \<open>
  \<open>VTime\<close> is a naive \<open>datetime\<close> as seconds since the epoch; \<open>VObjectId\<close> a
  bson ObjectId, numbered in allocation order.
\<close>

datatype pyval =
    VNone
  | VStr string
  | VBytes string
  | VInt int
  | VFloat real
  | VBool bool
  | VTime int
  | VObjectId nat
  | VList "pyval list"
  | VDict "(string \<times> pyval) list"

type_synonym doc = "(string \<times> pyval) list"
type_synonym collection = "(pyval \<times> doc) list"

text \<open>pymodm's \<open>empty_values\<close>: what counts as blank for a field.\<close>

fun is_blank :: "pyval \<Rightarrow> bool" where
  "is_blank VNone = True"
| "is_blank (VStr s) = (s = [])"
| "is_blank (VList xs) = (xs = [])"
| "is_blank (VDict d) = (d = [])"
| "is_blank _ = False"

section \<open>Field declarations and model classes\<close>

datatype ftype =
    CharField | DateTimeField | FloatField | IntegerField | BooleanField
  | ListField | DictField
  | ReferenceField string \<comment> \<open>the lenient subclass declared in models.py\<close>
  | PymodmReferenceField string \<comment> \<open>pymodm's own \<open>fields.ReferenceField\<close>\<close>
  | EmbeddedDocumentField string | EmbeddedDocumentListField string

datatype fdefault = NoDefault | DefaultValue pyval | DefaultUtcnow

record fdecl =
  fd_name :: string
  fd_type :: ftype
  fd_required :: bool
  fd_blank :: bool
  fd_default :: fdefault
  fd_primary_key :: bool

text \<open>A field with pymodm's keyword defaults (\<open>required=False, blank=False,
  default=None, primary_key=False\<close>); the code's keyword arguments are record updates.\<close>

definition fld :: "string \<Rightarrow> ftype \<Rightarrow> fdecl" where
  "fld n t = \<lparr>fd_name = n, fd_type = t, fd_required = False, fd_blank = False,
              fd_default = NoDefault, fd_primary_key = False\<rparr>"

text \<open>An entry of \<open>Meta.indexes\<close>: \<open>IndexModel(keys, unique=..., partialFilterExpression=
  {f: {"$type": "string"}, ...})\<close>. Only the attributes the index covers matter for
  uniqueness; their sort directions do not.\<close>

record index_decl =
  ix_keys :: "string list"
  ix_unique :: bool
  ix_string_fields :: "string list"

record model_class =
  mc_name :: string
  mc_embedded :: bool
  mc_fields :: "fdecl list"
  mc_ignore_unknown :: bool
  mc_indexes :: "index_decl list"

text \<open>The primary key attribute: the field declared \<open>primary_key=True\<close>, otherwise
  the implicit \<open>_id\<close> ObjectId field pymodm adds to every top-level model.\<close>

definition pk_name :: "model_class \<Rightarrow> string" where
  "pk_name cls = (case find fd_primary_key (mc_fields cls) of
                    Some f \<Rightarrow> fd_name f | None \<Rightarrow> ''_id'')"

definition field_names :: "model_class \<Rightarrow> string list" where
  "field_names cls = map fd_name (mc_fields cls)"

section \<open>The store\<close>

record store =
  collections :: "string \<Rightarrow> collection"
  online :: bool
  next_oid :: nat

definition empty_store :: store where
  "empty_store = \<lparr>collections = (\<lambda>_. []), online = True, next_oid = 0\<rparr>"

text \<open>\<open>objects.raw({"_id": k})\<close>, read when the query set is consumed.\<close>

definition raw_id :: "store \<Rightarrow> string \<Rightarrow> pyval \<Rightarrow> doc list result" where
  "raw_id st c k =
     (if online st then Inr [d. (k', d) \<leftarrow> collections st c, k' = k]
      else Inl PersistenceError)"

text \<open>\<open>objects.raw({f1: v1, ...})\<close>: the documents that match every condition of the
  filter.\<close>

text \<open>One condition \<open>{a: v}\<close> of a MongoDB equality filter: the attribute holds \<open>v\<close>;
  a \<open>None\<close> (null) value also matches a document in which the attribute is missing.
  MongoDB's matching of a scalar against the elements of an array attribute is not
  modelled: the filters of the code compare scalar attributes.\<close>

definition field_matches :: "pyval \<Rightarrow> pyval option \<Rightarrow> bool" where
  "field_matches v u = (case u of None \<Rightarrow> v = VNone | Some x \<Rightarrow> x = v)"

definition matches :: "(string \<times> pyval) list \<Rightarrow> doc \<Rightarrow> bool" where
  "matches flt d = list_all (\<lambda>(a, v). field_matches v (map_of d a)) flt"

definition raw_filter :: "store \<Rightarrow> string \<Rightarrow> (string \<times> pyval) list \<Rightarrow> doc list result" where
  "raw_filter st c flt =
     (if online st then Inr [d. (k, d) \<leftarrow> collections st c, matches flt d]
      else Inl PersistenceError)"

text \<open>\<open>QuerySet.count()\<close> and \<open>QuerySet.first()\<close>: each is one round trip;
  \<open>first()\<close> on an empty result raises \<open>DoesNotExist\<close>.\<close>

definition qs_count :: "doc list result \<Rightarrow> nat result" where
  "qs_count q = map_result length q"

definition qs_first :: "doc list result \<Rightarrow> doc result" where
  "qs_first q = bind_result q (\<lambda>ds. case ds of [] \<Rightarrow> Inl DoesNotExist | d # _ \<Rightarrow> Inr d)"

text \<open>Upsert and delete by primary key (single-document atomic).\<close>

definition upsert :: "string \<Rightarrow> pyval \<Rightarrow> doc \<Rightarrow> store \<Rightarrow> store result" where
  "upsert c k d st =
     (if online st then Inr (st\<lparr>collections := (collections st)(c := AList.update k d (collections st c))\<rparr>)
      else Inl PersistenceError)"

definition remove :: "string \<Rightarrow> pyval \<Rightarrow> store \<Rightarrow> store result" where
  "remove c k st =
     (if online st then Inr (st\<lparr>collections := (collections st)(c := AList.delete k (collections st c))\<rparr>)
      else Inl PersistenceError)"

definition lookup :: "store \<Rightarrow> string \<Rightarrow> pyval \<Rightarrow> doc option" where
  "lookup st c k = map_of (collections st c) k"

definition store_wf :: "store \<Rightarrow> bool" where
  "store_wf st \<longleftrightarrow> (\<forall>c. distinct (keys_of (collections st c)))"

section \<open>Unique indexes\<close>

text \<open>A document is in a partial index when every filtered attribute holds a string;
  its index key is the tuple of the covered attributes, a missing one being
  \<open>null\<close> as in MongoDB.\<close>

definition ix_covers :: "index_decl \<Rightarrow> doc \<Rightarrow> bool" where
  "ix_covers ix d = list_all (\<lambda>f. case map_of d f of Some (VStr _) \<Rightarrow> True | _ \<Rightarrow> False) (ix_string_fields ix)"

definition ix_key :: "index_decl \<Rightarrow> doc \<Rightarrow> pyval list" where
  "ix_key ix d = map (\<lambda>f. case map_of d f of Some v \<Rightarrow> v | None \<Rightarrow> VNone) (ix_keys ix)"

text \<open>Writing \<open>d\<close> under key \<open>k\<close> violates a unique index when another document of
  the collection is in the index with the same index key.\<close>

definition index_conflict :: "index_decl list \<Rightarrow> collection \<Rightarrow> pyval \<Rightarrow> doc \<Rightarrow> bool" where
  "index_conflict ixs coll k d =
     list_ex (\<lambda>ix. ix_unique ix \<and> ix_covers ix d \<and>
                   list_ex (\<lambda>(k', d'). k' \<noteq> k \<and> ix_covers ix d' \<and> ix_key ix d' = ix_key ix d) coll) ixs"

text \<open>The server's insert or replace of one document on a collection with indexes
  \<open>ixs\<close>: \<open>DuplicateKeyError\<close> (E11000) on a unique-index violation.\<close>

definition insert_indexed :: "index_decl list \<Rightarrow> string \<Rightarrow> pyval \<Rightarrow> doc \<Rightarrow> store \<Rightarrow> store result" where
  "insert_indexed ixs c k d st =
     (if online st \<and> index_conflict ixs (collections st c) k d then Inl DuplicateKeyError
      else upsert c k d st)"

text \<open>A collection that satisfies its unique indexes.\<close>

definition indexes_ok :: "index_decl list \<Rightarrow> collection \<Rightarrow> bool" where
  "indexes_ok ixs coll = list_all (\<lambda>(k, d). \<not> index_conflict ixs coll k d) coll"

section \<open>Queries on a well-formed store\<close>

text \<open>On a reachable server with distinct keys, the \<open>_id\<close> query returns the one
  document stored under the key, or nothing.\<close>

lemma raw_id_lookup:
  "online st \<Longrightarrow> store_wf st \<Longrightarrow>
   raw_id st c k = Inr (case lookup st c k of None \<Rightarrow> [] | Some d \<Rightarrow> [d])"
  by (simp add: raw_id_def store_wf_def lookup_def filter_key_distinct)

lemma qs_count_raw_id:
  "online st \<Longrightarrow> store_wf st \<Longrightarrow>
   qs_count (raw_id st c k) = Inr (if lookup st c k = None then 0 else 1)"
  by (simp add: raw_id_lookup qs_count_def split: option.splits)

lemma qs_first_raw_id:
  "online st \<Longrightarrow> store_wf st \<Longrightarrow>
   qs_first (raw_id st c k) = (case lookup st c k of None \<Rightarrow> Inl DoesNotExist | Some d \<Rightarrow> Inr d)"
  by (simp add: raw_id_lookup qs_first_def split: option.splits)

lemma raw_id_offline: "\<not> online st \<Longrightarrow> raw_id st c k = Inl PersistenceError"
  by (simp add: raw_id_def)

lemma upsert_wf:
  "store_wf st \<Longrightarrow> upsert c k d st = Inr st' \<Longrightarrow> store_wf st'"
  by (auto simp: upsert_def store_wf_def distinct_keys_update split: if_splits)

lemma remove_wf:
  "store_wf st \<Longrightarrow> remove c k st = Inr st' \<Longrightarrow> store_wf st'"
  by (auto simp: remove_def store_wf_def distinct_keys_delete split: if_splits)

lemma lookup_upsert:
  "upsert c k d st = Inr st' \<Longrightarrow>
   lookup st' c' k' = (if c' = c \<and> k' = k then Some d else lookup st c' k')"
  by (auto simp: upsert_def lookup_def update_conv' split: if_splits)

lemma lookup_remove:
  "remove c k st = Inr st' \<Longrightarrow>
   lookup st' c' k' = (if c' = c \<and> k' = k then None else lookup st c' k')"
  by (auto simp: remove_def lookup_def delete_conv' split: if_splits)

lemma upsert_online: "upsert c k d st = Inr st' \<Longrightarrow> online st' \<and> online st"
  by (simp add: upsert_def split: if_splits) auto

lemma remove_online: "remove c k st = Inr st' \<Longrightarrow> online st' \<and> online st"
  by (simp add: remove_def split: if_splits) auto

lemma remove_collection:
  "remove c k st = Inr st' \<Longrightarrow> collections st' c = AList.delete k (collections st c)"
  by (auto simp: remove_def split: if_splits)

lemma insert_indexed_plain [simp]:
  "list_all (\<lambda>ix. \<not> ix_unique ix) ixs \<Longrightarrow> insert_indexed ixs c k d st = upsert c k d st"
  by (simp add: insert_indexed_def index_conflict_def list_ex_iff list_all_iff)

lemma insert_indexed_Inr:
  "insert_indexed ixs c k d st = Inr st' \<Longrightarrow> upsert c k d st = Inr st'"
  by (simp add: insert_indexed_def split: if_splits)

lemma index_conflict_iff:
  "index_conflict ixs coll k d \<longleftrightarrow>
     (\<exists>(k', d') \<in> set coll. k' \<noteq> k \<and>
        (\<exists>ix \<in> set ixs. ix_unique ix \<and> ix_covers ix d \<and> ix_covers ix d' \<and> ix_key ix d' = ix_key ix d))"
  by (auto simp: index_conflict_def list_ex_iff)

lemma indexes_ok_iff:
  "indexes_ok ixs coll \<longleftrightarrow> (\<forall>(k, d) \<in> set coll. \<not> index_conflict ixs coll k d)"
  by (simp add: indexes_ok_def list_all_iff)

text \<open>A write that passes the index check keeps the collection within its unique
  indexes; no distinctness of keys is needed, since the clash of two documents is
  symmetric.\<close>

lemma indexes_ok_update:
  assumes "indexes_ok ixs coll" "\<not> index_conflict ixs coll k d"
  shows "indexes_ok ixs (AList.update k d coll)"
  unfolding indexes_ok_iff
proof (intro ballI, clarify)
  fix k1 d1 assume m1: "(k1, d1) \<in> set (AList.update k d coll)"
    and c: "index_conflict ixs (AList.update k d coll) k1 d1"
  then obtain k2 d2 ix where m2: "(k2, d2) \<in> set (AList.update k d coll)" "k2 \<noteq> k1"
    and ix: "ix \<in> set ixs" "ix_unique ix" "ix_covers ix d1" "ix_covers ix d2" "ix_key ix d2 = ix_key ix d1"
    by (auto simp: index_conflict_iff)
  have old: "\<not> index_conflict ixs coll k' d'" if "(k', d') \<in> set coll" for k' d'
    using assms(1) that by (auto simp: indexes_ok_iff)
  from set_update_member [OF m1] set_update_member [OF m2(1)] show False
  proof (elim disjE)
    assume "(k1, d1) = (k, d)" "(k2, d2) = (k, d)" then show False using m2(2) by simp
  next
    assume "(k1, d1) = (k, d)" "(k2, d2) \<in> set coll"
    then show False using assms(2) m2(2) ix by (auto simp: index_conflict_iff)
  next
    assume "(k1, d1) \<in> set coll" "(k2, d2) = (k, d)"
    then show False using assms(2) m2(2) ix by (force simp: index_conflict_iff)
  next
    assume "(k1, d1) \<in> set coll" "(k2, d2) \<in> set coll"
    then show False using old m2(2) ix by (force simp: index_conflict_iff)
  qed
qed

lemma indexes_ok_delete: "indexes_ok ixs coll \<Longrightarrow> indexes_ok ixs (AList.delete k coll)"
  by (fastforce simp: indexes_ok_iff index_conflict_iff dest: set_delete_member)

lemma insert_indexed_ok:
  assumes "indexes_ok ixs (collections st c)" "insert_indexed ixs c k d st = Inr st'"
  shows "indexes_ok ixs (collections st' c)"
proof -
  have "online st" "\<not> index_conflict ixs (collections st c) k d"
    using assms(2) by (auto simp: insert_indexed_def upsert_def split: if_splits)
  moreover have "collections st' c = AList.update k d (collections st c)"
    using assms(2) by (auto simp: insert_indexed_def upsert_def split: if_splits)
  ultimately show ?thesis using assms(1) by (simp add: indexes_ok_update)
qed

lemma empty_store_wf: "store_wf empty_store"
  by (simp add: store_wf_def empty_store_def)

lemma field_matches_value [simp]: "v \<noteq> VNone \<Longrightarrow> field_matches v u \<longleftrightarrow> u = Some v"
  by (cases u) (auto simp: field_matches_def)

text \<open>A value stored in a document is smaller than the document: the measure of the
  recursive validation of embedded documents.\<close>

lemma map_of_size: "map_of d k = Some v \<Longrightarrow> size v + 2 \<le> size (VDict d)"
  by (induction d) (auto split: if_splits)

end
