(* ===== verification/Resolver.thy ===== *)
theory Resolver
  imports Store
begin

text \<open>
  The Reference Resolver: \<open>ReferenceField.dereference_if_needed\<close>
  (\<open>src/src/models.py\<close>, lines 27--55). A reference field's value is either an
  instance of the related model (\<open>Inst\<close>) or a raw value (\<open>Raw\<close>), the
  tagged form of Python's dynamic union. The resolver reaches the store through the
  interface record \<open>ref_env\<close>: the owner's \<open>_auto_dereference\<close> flag, the related
  model's \<open>pk.to_python\<close>, pymodm's \<open>dereference_id\<close>, and the two round trips
  \<open>raw({"_id": k}).count()\<close> and \<open>raw({"_id": k}).first()\<close>. The two round trips
  are separate fields so that they may read different store states (another
  request's write in between). The resolver returns its result together with the
  list of store calls it made, in order. \<open>resolve_spec\<close> is the contract of
  spec section 4.1 over an abstract map from keys to entities; \<open>env_agrees\<close> says
  when an interface implements that map, and \<open>store_env\<close> is the interface that
  pymodm builds over the store of theory \<open>Store\<close>.
\<close>

datatype ('e, 'k) refval = Inst 'e | Raw 'k

datatype 'k store_call = CountCall 'k | FirstCall 'k | DerefCall 'k

record ('e, 'k) ref_env =
  auto_dereference :: bool
  pk_to_python :: "'k \<Rightarrow> ('e, 'k) refval"
  dereference_id :: "'k \<Rightarrow> ('e, 'k) refval result"
  count_id :: "'k \<Rightarrow> nat result"
  first_id :: "'k \<Rightarrow> 'e result"

definition dereference_if_needed ::
  "('e, 'k) ref_env \<Rightarrow> ('e, 'k) refval \<Rightarrow> ('e, 'k) refval result \<times> 'k store_call list" where
  "dereference_if_needed env value =
     (case value of
        Inst e \<Rightarrow> (Inr (Inst e), [])
      | Raw v \<Rightarrow>
          if auto_dereference env then (dereference_id env v, [DerefCall v])
          else (case pk_to_python env v of
                  Inst _ \<Rightarrow> (Inr (pk_to_python env v), [])
                | Raw value_stick \<Rightarrow>
                    (case count_id env value_stick of
                       Inl err \<Rightarrow> (Inl err, [CountCall value_stick])
                     | Inr n \<Rightarrow>
                         if n < 1 then (Inr (pk_to_python env v), [CountCall value_stick])
                         else (map_result Inst (first_id env value_stick),
                               [CountCall value_stick, FirstCall value_stick]))))"

section \<open>The contract and the store-backed interface\<close>

definition resolve_spec :: "('k \<rightharpoonup> 'e) \<Rightarrow> ('e, 'k) refval \<Rightarrow> ('e, 'k) refval" where
  "resolve_spec m v = (case v of
                         Inst e \<Rightarrow> Inst e
                       | Raw k \<Rightarrow> (case m k of Some e \<Rightarrow> Inst e | None \<Rightarrow> Raw k))"

text \<open>An interface implements the map \<open>m\<close> when the count query counts the one
  document of a key and the first query returns it.\<close>

definition env_agrees :: "('e, 'k) ref_env \<Rightarrow> ('k \<rightharpoonup> 'e) \<Rightarrow> bool" where
  "env_agrees env m \<longleftrightarrow>
     (\<forall>k. count_id env k = Inr (if m k = None then 0 else 1) \<and>
          (case m k of Some e \<Rightarrow> first_id env k = Inr e | None \<Rightarrow> True))"

text \<open>pymodm's \<open>dereference_id\<close> (the auto-dereference path): one
  \<open>find_one\<close> by the raw id, \<open>DoesNotExist\<close> when nothing matches.\<close>

definition find_one_id :: "store \<Rightarrow> string \<Rightarrow> pyval \<Rightarrow> (doc, pyval) refval result" where
  "find_one_id st c k = map_result Inst (qs_first (raw_id st c k))"

text \<open>The interface of a field whose related model lives in collection \<open>c\<close>:
  the count round trip reads \<open>st0\<close>, the first round trip \<open>st1\<close>.\<close>

definition store_env ::
  "bool \<Rightarrow> (pyval \<Rightarrow> (doc, pyval) refval) \<Rightarrow> string \<Rightarrow> store \<Rightarrow> store \<Rightarrow> (doc, pyval) ref_env" where
  "store_env auto to_py c st0 st1 =
     \<lparr>auto_dereference = auto, pk_to_python = to_py,
      dereference_id = find_one_id st0 c,
      count_id = \<lambda>k. qs_count (raw_id st0 c k),
      first_id = \<lambda>k. qs_first (raw_id st1 c k)\<rparr>"

text \<open>What the resolver looks up: the instance itself, or the coerced raw value.\<close>

definition coerce_value :: "('e, 'k) ref_env \<Rightarrow> ('e, 'k) refval \<Rightarrow> ('e, 'k) refval" where
  "coerce_value env value = (case value of Inst e \<Rightarrow> Inst e | Raw v \<Rightarrow> pk_to_python env v)"

text \<open>\<open>pk.to_python\<close> leaves its own results unchanged (true of \<open>str\<close> and of
  \<open>ObjectId\<close>).\<close>

definition coerce_idem :: "('e, 'k) ref_env \<Rightarrow> bool" where
  "coerce_idem env \<longleftrightarrow> (\<forall>v k. pk_to_python env v = Raw k \<longrightarrow> pk_to_python env k = Raw k)"

text \<open>\<open>CharField.to_python\<close> for the string primary keys of \<open>Currency\<close> and
  \<open>Country\<close>: a string is kept as it is.\<close>

definition char_pk_to_python :: "pyval \<Rightarrow> (doc, pyval) refval" where
  "char_pk_to_python v = Raw v"

text \<open>A store whose \<open>currency\<close> collection holds the Currency \<open>"USD"\<close>, for
  the witnesses.\<close>

abbreviation usd_doc :: doc where
  "usd_doc \<equiv> [(''code'', VStr ''USD''), (''name'', VStr ''US Dollar''), (''symbol'', VStr ''$'')]"

abbreviation usd_store :: store where
  "usd_store \<equiv> empty_store\<lparr>collections := (\<lambda>_. [])(''currency'' := [(VStr ''USD'', usd_doc)])\<rparr>"

section \<open>Behaviour on each branch\<close>

lemmas deref_unfold = dereference_if_needed_def coerce_value_def resolve_spec_def

lemma deref_instance: "dereference_if_needed env (Inst e) = (Inr (Inst e), [])"
  by (simp add: dereference_if_needed_def)

lemma deref_auto:
  "auto_dereference env \<Longrightarrow> dereference_if_needed env (Raw v) = (dereference_id env v, [DerefCall v])"
  by (simp add: dereference_if_needed_def)

lemma deref_missing:
  assumes "\<not> auto_dereference env" "pk_to_python env v = Raw k" "count_id env k = Inr 0"
  shows "dereference_if_needed env (Raw v) = (Inr (Raw k), [CountCall k])"
  using assms by (simp add: dereference_if_needed_def)

lemma deref_found:
  assumes "\<not> auto_dereference env" "pk_to_python env v = Raw k"
    and "count_id env k = Inr n" "0 < n" "first_id env k = Inr e"
  shows "dereference_if_needed env (Raw v) = (Inr (Inst e), [CountCall k, FirstCall k])"
  using assms by (simp add: dereference_if_needed_def)

lemma deref_error_source:
  assumes "\<not> auto_dereference env" "fst (dereference_if_needed env value) = Inl err"
  shows "\<exists>k. count_id env k = Inl err \<or> first_id env k = Inl err"
  using assms
  by (auto simp: dereference_if_needed_def map_result_def bind_result_eq_Inl
           split: refval.splits sum.splits if_splits)

section \<open>Refinement of the contract\<close>

lemma resolve_spec_idem: "resolve_spec m (resolve_spec m v) = resolve_spec m v"
  by (simp add: resolve_spec_def split: refval.splits option.splits)

lemma env_agreesD:
  assumes "env_agrees env m"
  shows "count_id env k = Inr (if m k = None then 0 else 1)"
    and "m k = Some e \<Longrightarrow> first_id env k = Inr e"
  using assms by (auto simp: env_agrees_def split: option.splits dest: spec[of _ k])

lemma deref_refines:
  assumes "\<not> auto_dereference env" "env_agrees env m"
  shows "fst (dereference_if_needed env value) = Inr (resolve_spec m (coerce_value env value))"
proof (cases "value")
  case (Inst e)
  then show ?thesis by (simp add: deref_unfold)
next
  case (Raw v)
  show ?thesis
  proof (cases "pk_to_python env v")
    case (Inst e)
    with Raw assms(1) show ?thesis by (simp add: deref_unfold)
  next
    case (Raw k)
    with \<open>value = Raw v\<close> assms show ?thesis
      by (cases "m k") (auto simp: deref_unfold env_agreesD)
  qed
qed

section \<open>The store-backed interface\<close>

lemma store_env_agrees:
  "online st \<Longrightarrow> store_wf st \<Longrightarrow> env_agrees (store_env auto to_py c st st) (lookup st c)"
  by (simp add: env_agrees_def store_env_def qs_count_raw_id qs_first_raw_id split: option.splits)

lemma resolve_spec_coerce_idem:
  assumes "coerce_idem env"
  shows "resolve_spec m (coerce_value env (resolve_spec m (coerce_value env v))) =
         resolve_spec m (coerce_value env v)"
  using assms
  by (auto simp: resolve_spec_def coerce_value_def coerce_idem_def
           split: refval.splits option.splits)

lemma store_env_fields [simp]:
  "auto_dereference (store_env auto to_py c st0 st1) = auto"
  "pk_to_python (store_env auto to_py c st0 st1) = to_py"
  by (simp_all add: store_env_def)

section \<open>Properties of the resolver over the store\<close>

text \<open>C2: one resolution costs at most two store round trips, whatever the value,
  the flags and the store; a value that is already an instance of the related model
  is returned as it is with none.\<close>

theorem resolve_store_calls_bounded:
  "length (snd (dereference_if_needed env v)) \<le> 2 \<and>
   dereference_if_needed env (Inst e) = (Inr (Inst e), [])"
  by (simp add: dereference_if_needed_def split: refval.splits sum.splits)

text \<open>C1: without auto-dereferencing, over a reachable well-formed store, the resolver
  implements the contract of spec section 4.1: an instance is kept, a raw value is
  coerced and replaced by the stored document with that key when there is one, and
  kept otherwise.\<close>

theorem resolve_refines_contract:
  assumes "online st" "store_wf st"
  shows "fst (dereference_if_needed (store_env False to_py c st st) v) =
         Inr (resolve_spec (lookup st c) (coerce_value (store_env False to_py c st st) v))"
  using assms by (simp add: deref_refines store_env_agrees)

theorem resolve_refines_contract_witness:
  "fst (dereference_if_needed (store_env False char_pk_to_python ''currency'' usd_store usd_store)
          (Raw (VStr ''USD''))) = Inr (Inst usd_doc)"
  using resolve_refines_contract [of usd_store char_pk_to_python "''currency''" "Raw (VStr ''USD'')"]
  by (simp add: empty_store_def store_wf_def lookup_def resolve_spec_def coerce_value_def
                char_pk_to_python_def)

text \<open>C3: resolving a raw key. A key with no stored target is returned, coerced, as
  the value, with no exception, after one store round trip (resolver leniency); a key
  with a stored target resolves to the stored document after two round trips,
  \<open>count()\<close> and then \<open>first()\<close>, where spec section 4.1 allows at most one.\<close>

theorem resolve_raw_key:
  assumes "online st" "store_wf st"
  shows "dereference_if_needed (store_env False char_pk_to_python c st st) (Raw k) =
         (case lookup st c k of
            None \<Rightarrow> (Inr (Raw k), [CountCall k])
          | Some d \<Rightarrow> (Inr (Inst d), [CountCall k, FirstCall k]))"
  using assms
  by (cases "lookup st c k")
     (simp_all add: deref_missing deref_found char_pk_to_python_def store_env_def qs_count_raw_id qs_first_raw_id)

theorem resolve_raw_key_witness:
  "dereference_if_needed (store_env False char_pk_to_python ''currency'' empty_store empty_store)
     (Raw (VStr ''USD'')) = (Inr (Raw (VStr ''USD'')), [CountCall (VStr ''USD'')]) \<and>
   dereference_if_needed (store_env False char_pk_to_python ''currency'' usd_store usd_store)
     (Raw (VStr ''USD'')) = (Inr (Inst usd_doc), [CountCall (VStr ''USD''), FirstCall (VStr ''USD'')])"
  using resolve_raw_key [of empty_store "''currency''" "VStr ''USD''"]
        resolve_raw_key [of usd_store "''currency''" "VStr ''USD''"]
  by (simp_all add: empty_store_def store_wf_def lookup_def)

text \<open>C4: resolution is idempotent. On an unchanged store, resolving the result of a
  resolution again returns the same value, provided \<open>pk.to_python\<close> leaves its own
  results unchanged.\<close>

theorem resolve_idempotent:
  assumes "online st" "store_wf st" "coerce_idem (store_env False to_py c st st)"
    and "fst (dereference_if_needed (store_env False to_py c st st) v) = Inr r"
  shows "fst (dereference_if_needed (store_env False to_py c st st) r) = Inr r"
proof -
  let ?env = "store_env False to_py c st st"
  have agree: "env_agrees ?env (lookup st c)"
    using assms(1,2) by (rule store_env_agrees)
  have r: "r = resolve_spec (lookup st c) (coerce_value ?env v)"
    using assms(4) deref_refines [OF _ agree] by simp
  have "fst (dereference_if_needed ?env r) = Inr (resolve_spec (lookup st c) (coerce_value ?env r))"
    using deref_refines [OF _ agree] by simp
  also have "\<dots> = Inr r"
    using resolve_spec_coerce_idem [OF assms(3)] r by simp
  finally show ?thesis .
qed

theorem resolve_idempotent_witness:
  "fst (dereference_if_needed (store_env False char_pk_to_python ''currency'' usd_store usd_store)
          (Raw (VStr ''USD''))) = Inr (Inst usd_doc) \<and>
   fst (dereference_if_needed (store_env False char_pk_to_python ''currency'' usd_store usd_store)
          (Inst usd_doc)) = Inr (Inst usd_doc)"
proof -
  have pre: "online usd_store" "store_wf usd_store"
      "coerce_idem (store_env False char_pk_to_python ''currency'' usd_store usd_store)"
    by (simp_all add: empty_store_def store_wf_def coerce_idem_def char_pk_to_python_def)
  have first: "fst (dereference_if_needed (store_env False char_pk_to_python ''currency'' usd_store usd_store)
          (Raw (VStr ''USD''))) = Inr (Inst usd_doc)"
    by (simp add: dereference_if_needed_def store_env_def char_pk_to_python_def qs_count_def
                  qs_first_def raw_id_def empty_store_def)
  show ?thesis
    using first resolve_idempotent [OF pre first] by simp
qed

text \<open>C5: over one store state the lenient path raises nothing but a connection
  failure: a missing reference is never an exception.\<close>

theorem resolve_only_persistence_errors:
  assumes "store_wf st"
    and "fst (dereference_if_needed (store_env False to_py c st st) v) = Inl e"
  shows "e = PersistenceError"
proof (cases "online st")
  case True
  with assms show ?thesis
    using deref_refines [OF _ store_env_agrees [OF True assms(1)]] by simp
next
  case False
  then obtain k where "qs_count (raw_id st c k) = Inl e \<or> qs_first (raw_id st c k) = Inl e"
    using deref_error_source [of "store_env False to_py c st st" v e] assms(2)
    by (auto simp: store_env_def)
  with False show ?thesis
    by (auto simp: raw_id_offline qs_count_def qs_first_def)
qed

theorem resolve_only_persistence_errors_witness:
  "store_wf (empty_store\<lparr>online := False\<rparr>) \<and>
   fst (dereference_if_needed
          (store_env False char_pk_to_python ''currency'' (empty_store\<lparr>online := False\<rparr>)
             (empty_store\<lparr>online := False\<rparr>)) (Raw (VStr ''USD''))) = Inl PersistenceError"
proof -
  let ?st = "empty_store\<lparr>online := False\<rparr>"
  have wf: "store_wf ?st" by (simp add: store_wf_def empty_store_def)
  have r: "fst (dereference_if_needed (store_env False char_pk_to_python ''currency'' ?st ?st)
             (Raw (VStr ''USD''))) = Inl PersistenceError"
    by (simp add: dereference_if_needed_def store_env_def char_pk_to_python_def qs_count_def
                  raw_id_def empty_store_def)
  show ?thesis using wf r resolve_only_persistence_errors [OF wf r] by simp
qed

text \<open>C6: the two round trips are not atomic. If the target is deleted between
  \<open>count()\<close> and \<open>first()\<close>, the resolver raises \<open>DoesNotExist\<close>, although
  spec section 4.1 says a missing reference is never an error.\<close>

theorem resolve_interleaved_delete_raises:
  assumes "online st0" "store_wf st0" "lookup st0 c k = Some d"
    and "remove c k st0 = Inr st1"
  shows "fst (dereference_if_needed (store_env False char_pk_to_python c st0 st1) (Raw k)) =
         Inl DoesNotExist"
proof -
  have wf1: "store_wf st1" using assms(2,4) by (rule remove_wf)
  have on1: "online st1" using assms(4) by (rule remove_online [THEN conjunct1])
  have gone: "lookup st1 c k = None" using assms(4) by (simp add: lookup_remove)
  show ?thesis
    using assms(1-3) wf1 on1 gone
    by (simp add: dereference_if_needed_def store_env_def char_pk_to_python_def
                  qs_count_raw_id qs_first_raw_id)
qed

theorem resolve_interleaved_delete_raises_witness:
  "remove ''currency'' (VStr ''USD'') usd_store = Inr empty_store \<and>
   fst (dereference_if_needed (store_env False char_pk_to_python ''currency'' usd_store empty_store)
          (Raw (VStr ''USD''))) = Inl DoesNotExist"
proof -
  have rm: "remove ''currency'' (VStr ''USD'') usd_store = Inr empty_store"
    by (simp add: remove_def empty_store_def fun_upd_idem)
  have pre: "online usd_store" "store_wf usd_store" "lookup usd_store ''currency'' (VStr ''USD'') = Some usd_doc"
    by (simp_all add: empty_store_def store_wf_def lookup_def)
  show ?thesis using rm resolve_interleaved_delete_raises [OF pre rm] by simp
qed

end
