(* ===== verification/Models.thy ===== *)
theory Models
  imports Resolver
begin

text \<open>
  The entity declarations of \<open>src/src/models.py\<close> and pymodm's semantics for them.
  Each \<open>MongoModel\<close> or \<open>EmbeddedMongoModel\<close> subclass is a \<open>model_class\<close> value
  whose field list is the class body, field by field and keyword by keyword
  (\<open>fld\<close> gives pymodm's keyword defaults, record updates the keywords the code
  passes). pymodm's object construction (\<open>instantiate\<close>: unknown keyword arguments,
  defaults), validation (\<open>full_clean\<close>: required and blank checks) and
  \<open>save\<close> (primary key allocation, upsert) are defined over these tables, so that
  every service operation in theory \<open>Service\<close> runs the code's own declarations.
  Embedded documents are stored as dictionaries inside their parent, and validation
  descends into them (\<open>clean_fields\<close>, \<open>clean_value\<close>, \<open>clean_items\<close>) the way
  the validators of \<open>EmbeddedDocumentField\<close> and \<open>EmbeddedDocumentListField\<close> call
  the embedded model's \<open>full_clean()\<close>; the type validators of scalar fields are not
  checked.
\<close>

section \<open>The model classes of models.py\<close>

abbreviation timestamp_field :: "string \<Rightarrow> fdecl" where
  "timestamp_field n \<equiv>
     (fld n DateTimeField)\<lparr>fd_required := True, fd_blank := False, fd_default := DefaultUtcnow\<rparr>"

abbreviation optional :: "fdecl \<Rightarrow> fdecl" where
  "optional f \<equiv> f\<lparr>fd_required := False, fd_blank := True\<rparr>"

abbreviation mandatory :: "fdecl \<Rightarrow> fdecl" where
  "mandatory f \<equiv> f\<lparr>fd_required := True, fd_blank := False\<rparr>"

definition User_class :: model_class where
  "User_class = \<lparr>mc_name = ''User'', mc_embedded = False,
     mc_fields = [optional (fld ''email'' CharField), optional (fld ''first_name'' CharField),
                  optional (fld ''password'' CharField), optional (fld ''last_name'' CharField),
                  timestamp_field ''date_created'', timestamp_field ''last_updated''],
     mc_ignore_unknown = True,
     mc_indexes = [\<lparr>ix_keys = [''_cls'', ''email'', ''first_name'', ''last_name'', ''date_created''],
                    ix_unique = False, ix_string_fields = []\<rparr>]\<rparr>"

definition Address_class :: model_class where
  "Address_class = \<lparr>mc_name = ''Address'', mc_embedded = True,
     mc_fields = [mandatory (fld ''street'' CharField), optional (fld ''street_line_2'' CharField),
                  mandatory (fld ''state'' CharField), mandatory (fld ''country'' CharField)],
     mc_ignore_unknown = False,
     mc_indexes = []\<rparr>"

definition Person_class :: model_class where
  "Person_class = \<lparr>mc_name = ''Person'', mc_embedded = True,
     mc_fields = [mandatory (fld ''name'' CharField), mandatory (fld ''email'' CharField),
                  mandatory (fld ''phone'' CharField)],
     mc_ignore_unknown = False,
     mc_indexes = []\<rparr>"

definition Currency_class :: model_class where
  "Currency_class = \<lparr>mc_name = ''Currency'', mc_embedded = False,
     mc_fields = [(fld ''code'' CharField)\<lparr>fd_primary_key := True\<rparr>,
                  fld ''name'' CharField, fld ''symbol'' CharField,
                  timestamp_field ''date_created'', timestamp_field ''last_updated''],
     mc_ignore_unknown = False,
     mc_indexes = []\<rparr>"

definition Price_class :: model_class where
  "Price_class = \<lparr>mc_name = ''Price'', mc_embedded = True,
     mc_fields = [mandatory (fld ''value'' FloatField), optional (fld ''cost_value'' FloatField),
                  optional (fld ''selling_value'' FloatField), optional (fld ''discount_value'' FloatField),
                  mandatory (fld ''currency'' (ReferenceField ''Currency'')),
                  optional (fld ''mrsp_value'' FloatField), optional (fld ''profit_margin'' FloatField)],
     mc_ignore_unknown = True,
     mc_indexes = []\<rparr>"

definition Category_class :: model_class where
  "Category_class = \<lparr>mc_name = ''Category'', mc_embedded = False,
     mc_fields = [mandatory (fld ''code'' CharField), mandatory (fld ''name'' CharField),
                  optional (fld ''description'' CharField),
                  (fld ''instance_id'' CharField)\<lparr>fd_required := True\<rparr>,
                  optional (fld ''entity_id'' CharField),
                  (fld ''visible'' BooleanField)\<lparr>fd_blank := True, fd_default := DefaultValue (VBool True)\<rparr>,
                  (fld ''eligible'' BooleanField)\<lparr>fd_blank := True, fd_default := DefaultValue (VBool True)\<rparr>,
                  optional (fld ''relevance'' IntegerField),
                  (optional (fld ''commission'' FloatField))\<lparr>fd_default := NoDefault\<rparr>,
                  timestamp_field ''date_created'', timestamp_field ''last_updated''],
     mc_ignore_unknown = False,
     mc_indexes = []\<rparr>"

definition SubCategory_class :: model_class where
  "SubCategory_class = \<lparr>mc_name = ''SubCategory'', mc_embedded = False,
     mc_fields = [mandatory (fld ''code'' CharField), mandatory (fld ''name'' CharField),
                  fld ''description'' CharField,
                  mandatory (fld ''category'' (ReferenceField ''Category'')),
                  (fld ''instance_id'' CharField)\<lparr>fd_required := True\<rparr>,
                  optional (fld ''entity_id'' CharField), optional (fld ''category_code'' CharField),
                  (fld ''visible'' BooleanField)\<lparr>fd_blank := True, fd_default := DefaultValue (VBool True)\<rparr>,
                  (fld ''eligible'' BooleanField)\<lparr>fd_blank := True, fd_default := DefaultValue (VBool True)\<rparr>,
                  timestamp_field ''date_created'', timestamp_field ''last_updated''],
     mc_ignore_unknown = False,
     mc_indexes = []\<rparr>"

definition Country_class :: model_class where
  "Country_class = \<lparr>mc_name = ''Country'', mc_embedded = False,
     mc_fields = [(fld ''code'' CharField)\<lparr>fd_primary_key := True\<rparr>,
                  mandatory (fld ''name'' CharField), optional (fld ''slug'' CharField),
                  (fld ''phone_code'' BooleanField)\<lparr>fd_default := DefaultValue (VBool False)\<rparr>,
                  (fld ''enabled'' BooleanField)\<lparr>fd_default := DefaultValue (VBool False)\<rparr>,
                  (fld ''requires_post_code'' BooleanField)\<lparr>fd_default := DefaultValue (VBool False)\<rparr>,
                  timestamp_field ''date_created'', timestamp_field ''last_updated''],
     mc_ignore_unknown = False,
     mc_indexes = []\<rparr>"

definition Location_class :: model_class where
  "Location_class = \<lparr>mc_name = ''Location'', mc_embedded = False,
     mc_fields = [fld ''first_name'' CharField, fld ''last_name'' CharField, fld ''name'' CharField,
                  mandatory (fld ''phone'' CharField), optional (fld ''email'' CharField),
                  optional (fld ''city'' CharField), optional (fld ''state'' CharField),
                  optional (fld ''domain'' CharField),
                  optional (fld ''country'' (ReferenceField ''Country'')),
                  optional (fld ''street'' CharField), optional (fld ''street_line_2'' CharField),
                  optional (fld ''post_code'' CharField),
                  optional (fld ''lat'' FloatField), optional (fld ''lng'' FloatField),
                  (fld ''default'' BooleanField)\<lparr>fd_blank := True, fd_default := DefaultValue (VBool False)\<rparr>,
                  optional (fld ''user_id'' CharField),
                  mandatory (fld ''user'' (PymodmReferenceField ''User'')),
                  timestamp_field ''date_created'', timestamp_field ''last_updated''],
     mc_ignore_unknown = True,
     mc_indexes = [\<lparr>ix_keys = [''domain'', ''email'', ''instance_id'', ''phone'', ''date_created''],
                    ix_unique = False, ix_string_fields = []\<rparr>,
                  \<lparr>ix_keys = [''domain'', ''instance_id''], ix_unique = True,
                    ix_string_fields = [''domain'']\<rparr>]\<rparr>"

definition ProductStat_class :: model_class where
  "ProductStat_class = \<lparr>mc_name = ''ProductStat'', mc_embedded = True,
     mc_fields = [optional (fld ''units_sold'' IntegerField), optional (fld ''total_amount'' FloatField),
                  optional (fld ''likes'' IntegerField), optional (fld ''views'' IntegerField),
                  timestamp_field ''first_sale_date'', timestamp_field ''last_sale_date''],
     mc_ignore_unknown = False,
     mc_indexes = []\<rparr>"

definition EmbeddedAttribute_class :: model_class where
  "EmbeddedAttribute_class = \<lparr>mc_name = ''EmbeddedAttribute'', mc_embedded = True,
     mc_fields = [mandatory (fld ''name'' CharField), optional (fld ''code'' CharField),
                  mandatory (fld ''category'' (ReferenceField ''Category'')),
                  optional (fld ''sub_category'' (ReferenceField ''SubCategory'')),
                  optional (fld ''values'' ListField), mandatory (fld ''instance_id'' CharField),
                  timestamp_field ''date_created'', timestamp_field ''last_updated''],
     mc_ignore_unknown = True,
     mc_indexes = []\<rparr>"

definition ProductVariant_class :: model_class where
  "ProductVariant_class = \<lparr>mc_name = ''ProductVariant'', mc_embedded = True,
     mc_fields = [fld ''id'' CharField, optional (fld ''name'' CharField), optional (fld ''sku'' CharField),
                  (fld ''prices'' (EmbeddedDocumentListField ''Price''))\<lparr>fd_required := False\<rparr>,
                  mandatory (fld ''quantity'' IntegerField), optional (fld ''attributes'' ListField),
                  optional (fld ''available'' BooleanField),
                  optional (fld ''default_currency'' (ReferenceField ''Currency''))],
     mc_ignore_unknown = True,
     mc_indexes = []\<rparr>"

definition Product_class :: model_class where
  "Product_class = \<lparr>mc_name = ''Product'', mc_embedded = False,
     mc_fields = [mandatory (fld ''name'' CharField), optional (fld ''sku'' CharField),
                  optional (fld ''code'' CharField), optional (fld ''description'' CharField),
                  optional (fld ''caption'' CharField),
                  optional (fld ''category'' (ReferenceField ''Category'')),
                  optional (fld ''sub_category'' (ReferenceField ''SubCategory'')),
                  optional (fld ''discount_price'' (EmbeddedDocumentField ''Price'')),
                  optional (fld ''images'' ListField),
                  optional (fld ''price'' (EmbeddedDocumentField ''Price'')),
                  optional (fld ''location'' (ReferenceField ''Location'')),
                  (mandatory (fld ''quantity'' IntegerField))\<lparr>fd_default := DefaultValue (VInt 1)\<rparr>,
                  (fld ''unlimited_stock'' BooleanField)\<lparr>fd_blank := True, fd_default := DefaultValue (VBool False)\<rparr>,
                  mandatory (fld ''user'' (PymodmReferenceField ''User'')),
                  (optional (fld ''tags'' ListField))\<lparr>fd_default := DefaultValue (VList [])\<rparr>,
                  optional (fld ''attributes'' (EmbeddedDocumentListField ''EmbeddedAttribute'')),
                  optional (fld ''variants'' (EmbeddedDocumentListField ''ProductVariant'')),
                  optional (fld ''options'' ListField),
                  optional (fld ''stats'' (EmbeddedDocumentField ''ProductStat'')),
                  (fld ''allow_modification'' BooleanField)\<lparr>fd_blank := True\<rparr>,
                  (fld ''visible'' BooleanField)\<lparr>fd_blank := True, fd_default := DefaultValue (VBool True)\<rparr>,
                  (fld ''has_variations'' BooleanField)\<lparr>fd_blank := True, fd_default := DefaultValue (VBool False)\<rparr>,
                  optional (fld ''supplier'' DictField),
                  timestamp_field ''date_created'', timestamp_field ''last_updated''],
     mc_ignore_unknown = False,
     mc_indexes = []\<rparr>"

section \<open>pymodm: construction, validation and save\<close>

text \<open>The attributes an instance may carry: the declared fields, and the implicit
  \<open>_id\<close> of a top-level model without a declared primary key.\<close>

definition attr_names :: "model_class \<Rightarrow> string list" where
  "attr_names cls =
     field_names cls @
     (if mc_embedded cls \<or> find fd_primary_key (mc_fields cls) \<noteq> None then [] else [''_id''])"

text \<open>\<open>Model(**kwargs)\<close>: an unknown keyword raises \<open>ValueError\<close> unless the class
  sets \<open>ignore_unknown_fields\<close>, in which case it is dropped.\<close>

fun keep_known :: "model_class \<Rightarrow> doc \<Rightarrow> doc result" where
  "keep_known cls [] = Inr []"
| "keep_known cls ((a, v) # kw) =
     (if a \<in> set (attr_names cls) then map_result (\<lambda>d. (a, v) # d) (keep_known cls kw)
      else if mc_ignore_unknown cls then keep_known cls kw
      else Inl (ValueError (''Unrecognized field name '' @ a)))"

definition default_value :: "int \<Rightarrow> fdefault \<Rightarrow> pyval option" where
  "default_value now dflt = (case dflt of
                               NoDefault \<Rightarrow> None
                             | DefaultValue v \<Rightarrow> Some v
                             | DefaultUtcnow \<Rightarrow> Some (VTime now))"

text \<open>Defaults of the fields not given, \<open>datetime.utcnow\<close> read at construction.\<close>

definition with_defaults :: "model_class \<Rightarrow> int \<Rightarrow> doc \<Rightarrow> doc" where
  "with_defaults cls now d =
     d @ concat (map (\<lambda>f. if map_of d (fd_name f) = None
                          then (case default_value now (fd_default f) of
                                  None \<Rightarrow> [] | Some v \<Rightarrow> [(fd_name f, v)])
                          else []) (mc_fields cls))"

definition instantiate :: "model_class \<Rightarrow> int \<Rightarrow> doc \<Rightarrow> doc result" where
  "instantiate cls now kw = map_result (with_defaults cls now) (keep_known cls kw)"

text \<open>\<open>MongoBaseField.validate\<close> and the required check of \<open>clean_fields\<close>: an unset
  required field, or a set blank value in a field that does not allow blanks, is a
  validation error.\<close>

definition clean_field :: "doc \<Rightarrow> fdecl \<Rightarrow> string option" where
  "clean_field d f =
     (case map_of d (fd_name f) of
        None \<Rightarrow> if fd_required f then Some (fd_name f @ '': field is required.'') else None
      | Some v \<Rightarrow> if is_blank v \<and> \<not> fd_blank f then Some (fd_name f @ '': must not be blank'') else None)"

text \<open>The validator \<open>EmbeddedDocumentField\<close> and \<open>EmbeddedDocumentListField\<close> add to
  a field: the value must be an instance of the related model (a stored dictionary is
  turned into one by \<open>to_python\<close>), and that instance's own \<open>full_clean()\<close> runs, so
  validation descends into embedded documents at every depth; a list field checks
  every element. The related model is the class the code passes, found by name.
  Other field types add no validator that the model checks.\<close>

definition embedded_class :: "string \<Rightarrow> model_class option" where
  "embedded_class n = find (\<lambda>c. mc_name c = n)
     [Address_class, Person_class, Price_class, ProductStat_class, EmbeddedAttribute_class, ProductVariant_class]"

text \<open>\<open>MongoModel.clean_fields\<close>, field by field in declaration order: an unset
  required field or a disallowed blank is reported as above; otherwise a set value
  other than \<open>None\<close> goes through the field's validators, whose messages are
  reported under the field's name.\<close>

function clean_fields :: "fdecl list \<Rightarrow> doc \<Rightarrow> string list"
  and clean_value :: "ftype \<Rightarrow> pyval \<Rightarrow> string list"
  and clean_items :: "string \<Rightarrow> pyval list \<Rightarrow> string list" where
  "clean_fields [] d = []"
| "clean_fields (f # fs) d =
     (case clean_field d f of
        Some m \<Rightarrow> [m]
      | None \<Rightarrow> (case map_of d (fd_name f) of
                  Some v \<Rightarrow> if v = VNone then [] else map (\<lambda>m. fd_name f @ ''.'' @ m) (clean_value (fd_type f) v)
                | None \<Rightarrow> [])) @ clean_fields fs d"
| "clean_value (EmbeddedDocumentField c) v =
     (case v of
        VDict d \<Rightarrow> (case embedded_class c of Some cls \<Rightarrow> clean_fields (mc_fields cls) d | None \<Rightarrow> [])
      | _ \<Rightarrow> [''value must be an instance of '' @ c])"
| "clean_value (EmbeddedDocumentListField c) v =
     (case v of VList vs \<Rightarrow> clean_items c vs | _ \<Rightarrow> [''value must be a list''])"
| "clean_value (CharField) v = []"
| "clean_value (DateTimeField) v = []"
| "clean_value (FloatField) v = []"
| "clean_value (IntegerField) v = []"
| "clean_value (BooleanField) v = []"
| "clean_value (ListField) v = []"
| "clean_value (DictField) v = []"
| "clean_value (ReferenceField c) v = []"
| "clean_value (PymodmReferenceField c) v = []"
| "clean_items c [] = []"
| "clean_items c (v # vs) = clean_value (EmbeddedDocumentField c) v @ clean_items c vs"
  by pat_completeness auto

termination
  by (relation "measures [\<lambda>x. case x of Inl (fs, d) \<Rightarrow> size (VDict d) | Inr (Inl (t, v)) \<Rightarrow> size v + 1
                                          | Inr (Inr (c, vs)) \<Rightarrow> size (VList vs),
                          \<lambda>x. case x of Inl (fs, d) \<Rightarrow> length fs | Inr _ \<Rightarrow> 0]")
     (auto dest: map_of_size)

definition full_clean :: "model_class \<Rightarrow> doc \<Rightarrow> doc result" where
  "full_clean cls d =
     (let errs = clean_fields (mc_fields cls) d
      in if errs = [] then Inr d else Inl (ValidationError (concat errs)))"

text \<open>Fields whose type carries the embedded-document validator, and the classes
  whose primary key (an allocated ObjectId when unset) is not such a field.\<close>

definition embedded_type :: "ftype \<Rightarrow> bool" where
  "embedded_type t = (case t of EmbeddedDocumentField c \<Rightarrow> True | EmbeddedDocumentListField c \<Rightarrow> True | _ \<Rightarrow> False)"

definition pk_plain :: "model_class \<Rightarrow> bool" where
  "pk_plain cls = list_all (\<lambda>f. fd_name f = pk_name cls \<longrightarrow> \<not> embedded_type (fd_type f)) (mc_fields cls)"

definition pk_of :: "model_class \<Rightarrow> doc \<Rightarrow> pyval" where
  "pk_of cls d = (case map_of d (pk_name cls) of Some k \<Rightarrow> k | None \<Rightarrow> VNone)"

text \<open>\<open>save()\<close>: validate, then upsert under the primary key; a model saved without
  one gets a fresh ObjectId from the server.\<close>

definition save :: "model_class \<Rightarrow> doc \<Rightarrow> store \<Rightarrow> (doc \<times> store) result" where
  "save cls d st =
     bind_result (full_clean cls d) (\<lambda>d.
       case map_of d (pk_name cls) of
         Some k \<Rightarrow> map_result (\<lambda>st'. (d, st')) (insert_indexed (mc_indexes cls) (mc_name cls) k d st)
       | None \<Rightarrow>
           (let k = VObjectId (next_oid st); d' = d @ [(pk_name cls, k)]
            in map_result (\<lambda>st'. (d', st'))
                 (insert_indexed (mc_indexes cls) (mc_name cls) k d' (st\<lparr>next_oid := Suc (next_oid st)\<rparr>))))"

text \<open>Python attribute access on an instance: an unset field reads as \<open>None\<close>.\<close>

definition attr :: "doc \<Rightarrow> string \<Rightarrow> pyval" where
  "attr d a = (case map_of d a of Some v \<Rightarrow> v | None \<Rightarrow> VNone)"

text \<open>Every document of a class's collection carries only attributes the class
  declares.\<close>

definition coll_declared :: "model_class \<Rightarrow> store \<Rightarrow> bool" where
  "coll_declared cls st \<longleftrightarrow>
     list_all (\<lambda>(k, d). set (keys_of d) \<subseteq> set (attr_names cls)) (collections st (mc_name cls))"

section \<open>Methods of the model classes\<close>

text \<open>\<open>Category.sub_categories\<close> and the two \<open>product_count\<close> properties: a query
  on another collection, by the filter the code writes.\<close>

definition Category_sub_categories :: "store \<Rightarrow> doc \<Rightarrow> doc list result" where
  "Category_sub_categories st self =
     raw_filter st ''SubCategory'' [(''category'', pk_of Category_class self)]"

definition Category_product_count :: "store \<Rightarrow> doc \<Rightarrow> nat result" where
  "Category_product_count st self =
     qs_count (raw_filter st ''Product''
                 [(''category_code'', attr self ''code''), (''instance_id'', attr self ''instance_id'')])"

definition Location_product_count :: "store \<Rightarrow> doc \<Rightarrow> nat result" where
  "Location_product_count st self =
     qs_count (raw_filter st ''Product'' [(''location'', pk_of Location_class self)])"

text \<open>\<open>str()\<close> of the values a \<open>CharField\<close> holds (a string or \<open>None\<close>); any other
  value prints as an opaque object.\<close>

fun py_str :: "pyval \<Rightarrow> string" where
  "py_str VNone = ''None''"
| "py_str (VStr s) = s"
| "py_str (VBool b) = (if b then ''True'' else ''False'')"
| "py_str _ = ''<object>''"

text \<open>The right operand of \<open>ProductVariant.__eq__\<close>: another variant, or a plain
  value. \<open>hash\<close> is Python's (salted, per process) string hash.\<close>

datatype eq_operand = VariantOperand doc | ValueOperand pyval

definition ProductVariant_hash :: "(pyval \<Rightarrow> int) \<Rightarrow> doc \<Rightarrow> int" where
  "ProductVariant_hash hash self = hash (attr self ''sku'')"

definition ProductVariant_eq :: "(pyval \<Rightarrow> int) \<Rightarrow> doc \<Rightarrow> eq_operand \<Rightarrow> pyval" where
  "ProductVariant_eq hash self other =
     (case other of
        VariantOperand v \<Rightarrow> VBool (hash (attr self ''sku'') = ProductVariant_hash hash v)
      | ValueOperand (VStr s) \<Rightarrow> VBool (py_str (attr self ''sku'') = s)
      | ValueOperand (VBytes b) \<Rightarrow> VBool False
      | ValueOperand _ \<Rightarrow> VNone)"

definition ProductVariant_pk :: "doc \<Rightarrow> pyval" where
  "ProductVariant_pk self = attr self ''id''"

text \<open>Reading a \<open>ReferenceField\<close> attribute: an unset or \<open>None\<close> value reads as
  \<open>None\<close>; any other goes through the resolver \<open>res\<close> (theory \<open>Resolver\<close>).
  \<open>.code\<close> is an \<open>AttributeError\<close> on \<open>None\<close> and on an unresolved raw key.\<close>

definition ref_attr ::
  "(pyval \<Rightarrow> (doc, pyval) refval result) \<Rightarrow> doc \<Rightarrow> string \<Rightarrow> (doc, pyval) refval option result" where
  "ref_attr res d a = (case map_of d a of
                         None \<Rightarrow> Inr None
                       | Some VNone \<Rightarrow> Inr None
                       | Some v \<Rightarrow> map_result Some (res v))"

definition code_of :: "(doc, pyval) refval option \<Rightarrow> pyval result" where
  "code_of r = (case r of Some (Inst d) \<Rightarrow> Inr (attr d ''code'') | _ \<Rightarrow> Inl (AttributeError ''code''))"

text \<open>\<open>self.prices\<close>: the embedded Price documents (an unset list field reads as
  the empty list).\<close>

definition prices_of :: "doc \<Rightarrow> doc list" where
  "prices_of self = (case attr self ''prices'' of VList ps \<Rightarrow> [d. VDict d \<leftarrow> ps] | _ \<Rightarrow> [])"

text \<open>The \<open>for\<close> loop of \<open>ProductVariant.price\<close>: \<open>price.currency.code\<close> is read
  before \<open>default_currency.code\<close>, as Python evaluates \<open>==\<close>.\<close>

definition currency_code :: "(pyval \<Rightarrow> (doc, pyval) refval result) \<Rightarrow> doc \<Rightarrow> pyval result" where
  "currency_code res price = bind_result (ref_attr res price ''currency'') code_of"

fun price_loop ::
  "(pyval \<Rightarrow> (doc, pyval) refval result) \<Rightarrow> (doc, pyval) refval option \<Rightarrow> doc list \<Rightarrow> doc option result" where
  "price_loop res dc [] = Inr None"
| "price_loop res dc (p # ps) =
     bind_result (currency_code res p) (\<lambda>pc.
       bind_result (code_of dc) (\<lambda>dcc.
         if pc = dcc then Inr (Some p) else price_loop res dc ps))"

text \<open>\<open>ProductVariant.price\<close>; when no price matches it ends in
  \<open>return self.price\<close>, a call of itself on the same object. The first argument is
  the remaining Python call depth (\<open>sys.getrecursionlimit()\<close>): exhausting it raises
  \<open>RecursionError\<close>.\<close>

fun ProductVariant_price :: "nat \<Rightarrow> (pyval \<Rightarrow> (doc, pyval) refval result) \<Rightarrow> doc \<Rightarrow> doc result" where
  "ProductVariant_price 0 res self = Inl RecursionError"
| "ProductVariant_price (Suc depth) res self =
     bind_result (ref_attr res self ''default_currency'') (\<lambda>default_currency.
       bind_result (price_loop res default_currency (prices_of self)) (\<lambda>found.
         case found of
           Some price \<Rightarrow> Inr price
         | None \<Rightarrow> ProductVariant_price depth res self))"

text \<open>Example data for the witnesses: a shoe Product that references Category 1.\<close>

abbreviation shoe_doc :: doc where
  "shoe_doc \<equiv> [(''name'', VStr ''shoe''), (''user'', VObjectId 0), (''category'', VObjectId 1),
                (''_id'', VObjectId 2)]"

abbreviation shoes_category :: doc where
  "shoes_category \<equiv> [(''code'', VStr ''shoes''), (''instance_id'', VStr ''i1''), (''_id'', VObjectId 1)]"

abbreviation shoes_category_saved :: doc where
  "shoes_category_saved \<equiv> shoes_category @ [(''name'', VStr ''Shoes''), (''date_created'', VTime 100),
                                            (''last_updated'', VTime 100)]"

abbreviation shop_store :: store where
  "shop_store \<equiv> empty_store\<lparr>collections := (\<lambda>_. [])(''Product'' := [(VObjectId 2, shoe_doc)],
                                                 ''Category'' := [(VObjectId 1, shoes_category)]),
                            next_oid := 3\<rparr>"

abbreviation shoe_new :: doc where
  "shoe_new \<equiv> [(''name'', VStr ''shoe''), (''user'', VObjectId 0), (''quantity'', VInt 1),
     (''unlimited_stock'', VBool False), (''tags'', VList []), (''visible'', VBool True),
     (''has_variations'', VBool False), (''date_created'', VTime 100), (''last_updated'', VTime 100)]"

text \<open>A variant priced in US dollars, read through the resolver over \<open>usd_store\<close>.\<close>

abbreviation usd_price :: doc where
  "usd_price \<equiv> [(''value'', VFloat 10), (''currency'', VStr ''USD'')]"

abbreviation usd_variant :: doc where
  "usd_variant \<equiv> [(''sku'', VStr ''sku-001''), (''quantity'', VInt 3),
                   (''prices'', VList [VDict usd_price]), (''default_currency'', VStr ''USD'')]"

abbreviation usd_res :: "pyval \<Rightarrow> (doc, pyval) refval result" where
  "usd_res v \<equiv> fst (dereference_if_needed (store_env False char_pk_to_python ''currency'' usd_store usd_store) (Raw v))"

text \<open>Two Locations of the same shop domain, and a store holding the first.\<close>

abbreviation shop_location :: "string \<Rightarrow> doc" where
  "shop_location ph \<equiv> [(''phone'', VStr ph), (''domain'', VStr ''shop.example''), (''user'', VObjectId 0),
                        (''default'', VBool False), (''date_created'', VTime 100), (''last_updated'', VTime 100)]"

abbreviation location_store :: store where
  "location_store \<equiv> empty_store\<lparr>collections := (\<lambda>_. [])(''Location'' :=
     [(VObjectId 0, shop_location ''555-0100'' @ [(''_id'', VObjectId 0)])]), next_oid := 1\<rparr>"

text \<open>A ProductVariant whose only price has a value but no currency (\<open>Price.currency\<close>
  is required).\<close>

abbreviation unpriced_variant :: doc where
  "unpriced_variant \<equiv> [(''quantity'', VInt 1), (''prices'', VList [VDict [(''value'', VFloat 10)]])]"

section \<open>Construction, validation and save\<close>

lemma class_names [simp]:
  "mc_name User_class = ''User''" "mc_name Currency_class = ''Currency''"
  "mc_name Category_class = ''Category''" "mc_name SubCategory_class = ''SubCategory''"
  "mc_name Country_class = ''Country''" "mc_name Location_class = ''Location''"
  "mc_name Product_class = ''Product''"
  "\<not> mc_embedded User_class" "\<not> mc_embedded Currency_class" "\<not> mc_embedded Product_class"
  by (simp_all add: User_class_def Currency_class_def Category_class_def SubCategory_class_def
                    Country_class_def Location_class_def Product_class_def)

text \<open>Every top-level class but Location declares no unique index.\<close>

lemma no_unique_index [simp]:
  "list_all (\<lambda>ix. \<not> ix_unique ix) (mc_indexes User_class)"
  "list_all (\<lambda>ix. \<not> ix_unique ix) (mc_indexes Currency_class)"
  "list_all (\<lambda>ix. \<not> ix_unique ix) (mc_indexes Category_class)"
  "list_all (\<lambda>ix. \<not> ix_unique ix) (mc_indexes SubCategory_class)"
  "list_all (\<lambda>ix. \<not> ix_unique ix) (mc_indexes Country_class)"
  "list_all (\<lambda>ix. \<not> ix_unique ix) (mc_indexes Product_class)"
  by (simp_all add: User_class_def Currency_class_def Category_class_def SubCategory_class_def
                    Country_class_def Product_class_def)

lemma keep_known_names:
  "keep_known cls kw = Inr d \<Longrightarrow> set (keys_of d) \<subseteq> set (attr_names cls)"
  by (induction cls kw arbitrary: d rule: keep_known.induct)
     (force simp: map_result_def bind_result_eq_Inr split: if_splits)+

lemma with_defaults_names:
  "set (keys_of (with_defaults cls now d)) \<subseteq> set (keys_of d) \<union> set (field_names cls)"
  by (auto simp: with_defaults_def field_names_def split: if_splits option.splits)

lemma field_names_attr: "set (field_names cls) \<subseteq> set (attr_names cls)"
  by (simp add: attr_names_def)

lemma instantiate_names:
  assumes "instantiate cls now kw = Inr d"
  shows "set (keys_of d) \<subseteq> set (attr_names cls)"
proof -
  obtain d0 where d0: "keep_known cls kw = Inr d0" and d: "d = with_defaults cls now d0"
    using assms by (auto simp: instantiate_def map_result_def bind_result_eq_Inr)
  have "set (keys_of d) \<subseteq> set (keys_of d0) \<union> set (field_names cls)"
    unfolding d by (rule with_defaults_names)
  with keep_known_names [OF d0] field_names_attr show ?thesis
    by blast
qed

lemma clean_fields_field_error:
  "f \<in> set fs \<Longrightarrow> clean_field d f \<noteq> None \<Longrightarrow> clean_fields fs d \<noteq> []"
  by (induction fs) (auto split: option.splits)

lemma clean_fields_value_error:
  "f \<in> set fs \<Longrightarrow> map_of d (fd_name f) = Some v \<Longrightarrow> v \<noteq> VNone \<Longrightarrow> clean_value (fd_type f) v \<noteq> [] \<Longrightarrow>
   clean_fields fs d \<noteq> []"
  by (induction fs) (auto split: option.splits)

lemma full_clean_Inr: "full_clean cls d = Inr d' \<Longrightarrow> d' = d"
  by (simp add: full_clean_def Let_def split: if_splits)

lemma full_clean_required:
  assumes "f \<in> set (mc_fields cls)" "fd_required f" "map_of d (fd_name f) = None"
  shows "\<exists>msg. full_clean cls d = Inl (ValidationError msg)"
proof -
  have "clean_field d f \<noteq> None" using assms(2,3) by (simp add: clean_field_def)
  then have "clean_fields (mc_fields cls) d \<noteq> []"
    by (rule clean_fields_field_error [OF assms(1)])
  then show ?thesis by (simp add: full_clean_def Let_def)
qed

lemma pk_name_attr:
  assumes "\<not> mc_embedded cls"
  shows "pk_name cls \<in> set (attr_names cls)"
proof (cases "find fd_primary_key (mc_fields cls)")
  case None
  with assms show ?thesis
    by (simp add: pk_name_def attr_names_def)
next
  case (Some f)
  then have "f \<in> set (mc_fields cls)"
    by (auto simp: find_Some_iff)
  with Some show ?thesis
    by (simp add: pk_name_def attr_names_def field_names_def)
qed

lemma save_cases:
  assumes "save cls d st = Inr (d', st')"
  obtains k where "full_clean cls d = Inr d" "map_of d' (pk_name cls) = Some k"
    "set (keys_of d') \<subseteq> insert (pk_name cls) (set (keys_of d))"
    "d' = d \<or> (map_of d (pk_name cls) = None \<and> d' = d @ [(pk_name cls, k)])"
    "upsert (mc_name cls) k d' st = Inr st' \<or>
     upsert (mc_name cls) k d' (st\<lparr>next_oid := Suc (next_oid st)\<rparr>) = Inr st'"
    "insert_indexed (mc_indexes cls) (mc_name cls) k d' st = Inr st' \<or>
     insert_indexed (mc_indexes cls) (mc_name cls) k d' (st\<lparr>next_oid := Suc (next_oid st)\<rparr>) = Inr st'"
proof -
  have fc: "full_clean cls d = Inr d"
    using assms by (cases "full_clean cls d") (auto simp: save_def dest: full_clean_Inr)
  show thesis
  proof (cases "map_of d (pk_name cls)")
    case (Some k)
    with assms fc have "d' = d" "insert_indexed (mc_indexes cls) (mc_name cls) k d st = Inr st'"
      by (auto simp: save_def map_result_def bind_result_eq_Inr)
    with that [of k] Some fc show thesis by (auto dest: insert_indexed_Inr)
  next
    case None
    let ?k = "VObjectId (next_oid st)"
    from assms fc None have d': "d' = d @ [(pk_name cls, ?k)]"
      and up: "insert_indexed (mc_indexes cls) (mc_name cls) ?k d' (st\<lparr>next_oid := Suc (next_oid st)\<rparr>) = Inr st'"
      by (auto simp: save_def Let_def map_result_def bind_result_eq_Inr)
    have "map_of d' (pk_name cls) = Some ?k"
      using None by (simp add: d' map_add_def)
    with that [of ?k] fc up None show thesis by (auto simp: d' dest: insert_indexed_Inr)
  qed
qed

lemma save_other_collections:
  "save cls d st = Inr (d', st') \<Longrightarrow> c \<noteq> mc_name cls \<Longrightarrow> collections st' c = collections st c"
  by (erule save_cases) (auto simp: upsert_def split: if_splits)

lemma save_online: "save cls d st = Inr (d', st') \<Longrightarrow> online st' \<and> online st"
  by (erule save_cases) (auto simp: upsert_def split: if_splits)

lemma save_wf: "store_wf st \<Longrightarrow> save cls d st = Inr (d', st') \<Longrightarrow> store_wf st'"
  by (erule save_cases) (auto simp: upsert_def store_wf_def distinct_keys_update split: if_splits)

lemma save_lookup:
  "save cls d st = Inr (d', st') \<Longrightarrow> lookup st' (mc_name cls) (pk_of cls d') = Some d'"
  by (erule save_cases) (auto simp: upsert_def lookup_def pk_of_def update_conv' split: if_splits)

lemma save_keeps_attrs:
  assumes "save cls d st = Inr (d', st')" "map_of d a = Some v"
  shows "map_of d' a = Some v"
  using assms(1)
proof (rule save_cases)
  fix k
  assume "d' = d \<or> (map_of d (pk_name cls) = None \<and> d' = d @ [(pk_name cls, k)])"
  with assms(2) show ?thesis by (auto simp: map_add_def)
qed

lemma save_lookup_all:
  "save cls d st = Inr (d', st') \<Longrightarrow>
   lookup st' c k = (if c = mc_name cls \<and> k = pk_of cls d' then Some d' else lookup st c k)"
  by (erule save_cases) (auto simp: upsert_def lookup_def pk_of_def update_conv' split: if_splits)

lemma save_collection:
  "save cls d st = Inr (d', st') \<Longrightarrow>
   collections st' (mc_name cls) = AList.update (pk_of cls d') d' (collections st (mc_name cls))"
  by (erule save_cases) (auto simp: upsert_def pk_of_def split: if_splits)

lemma save_keeps_indexes:
  assumes "indexes_ok (mc_indexes cls) (collections st (mc_name cls))" "save cls d st = Inr (d', st')"
  shows "indexes_ok (mc_indexes cls) (collections st' (mc_name cls))"
  using assms(2)
proof (rule save_cases)
  fix k
  assume "insert_indexed (mc_indexes cls) (mc_name cls) k d' st = Inr st' \<or>
          insert_indexed (mc_indexes cls) (mc_name cls) k d' (st\<lparr>next_oid := Suc (next_oid st)\<rparr>) = Inr st'"
  then show ?thesis
  proof
    assume "insert_indexed (mc_indexes cls) (mc_name cls) k d' st = Inr st'"
    then show ?thesis by (rule insert_indexed_ok [OF assms(1)])
  next
    assume i: "insert_indexed (mc_indexes cls) (mc_name cls) k d' (st\<lparr>next_oid := Suc (next_oid st)\<rparr>) = Inr st'"
    have "indexes_ok (mc_indexes cls) (collections (st\<lparr>next_oid := Suc (next_oid st)\<rparr>) (mc_name cls))"
      using assms(1) by simp
    then show ?thesis using i by (rule insert_indexed_ok)
  qed
qed

text \<open>Location's unique index on \<open>(domain, instance_id)\<close> covers a document whose
  \<open>domain\<close> is a string; \<open>instance_id\<close> is not a Location attribute, so it is
  \<open>null\<close> in every stored Location and the index key is the domain alone.\<close>

lemma Location_indexes:
  "mc_indexes Location_class =
     [\<lparr>ix_keys = [''domain'', ''email'', ''instance_id'', ''phone'', ''date_created''],
       ix_unique = False, ix_string_fields = []\<rparr>,
      \<lparr>ix_keys = [''domain'', ''instance_id''], ix_unique = True, ix_string_fields = [''domain'']\<rparr>]"
  by (simp add: Location_class_def)

lemma Location_index_clash:
  assumes "map_of x ''domain'' = Some (VStr dm)" "map_of x ''instance_id'' = None"
    and "(k', d') \<in> set coll" "k' \<noteq> k" "map_of d' ''domain'' = Some (VStr dm)"
    and "set (keys_of d') \<subseteq> set (attr_names Location_class)"
  shows "index_conflict (mc_indexes Location_class) coll k x"
proof -
  have "''instance_id'' \<notin> set (attr_names Location_class)"
    by (simp add: attr_names_def field_names_def Location_class_def fld_def)
  then have "map_of d' ''instance_id'' = None"
    using assms(6) by (auto simp: map_of_eq_None_iff)
  then show ?thesis using assms(1-5)
    by (auto simp: index_conflict_iff Location_indexes ix_covers_def ix_key_def intro!: bexI [of _ "(k', d')"])
qed

lemma clean_value_plain: "\<not> embedded_type t \<Longrightarrow> clean_value t v = []"
  by (cases t) (simp_all add: embedded_type_def)

text \<open>Adding an attribute that was unset, with a value that is not blank, to a
  document that validates keeps it valid, unless a field of that name is embedded.\<close>

lemma clean_fields_append:
  assumes "clean_fields fs d = []" "map_of d a = None" "\<not> is_blank v"
    and "\<forall>f \<in> set fs. fd_name f = a \<longrightarrow> \<not> embedded_type (fd_type f)"
  shows "clean_fields fs (d @ [(a, v)]) = []"
  using assms
proof (induction fs)
  case (Cons f fs)
  have "v \<noteq> VNone" using Cons.prems(3) by auto
  with Cons show ?case
    by (cases "fd_name f = a")
       (auto simp: clean_field_def map_add_def clean_value_plain split: option.splits if_splits)
qed simp

lemma save_validated:
  assumes "save cls d st = Inr (d', st')" "pk_plain cls"
  shows "full_clean cls d' = Inr d'"
proof -
  have fc: "full_clean cls d = Inr d"
    using assms(1) by (cases "full_clean cls d") (auto simp: save_def dest: full_clean_Inr)
  show ?thesis
  proof (cases "map_of d (pk_name cls)")
    case (Some k)
    with assms(1) fc have "d' = d" by (auto simp: save_def map_result_def bind_result_eq_Inr)
    with fc show ?thesis by simp
  next
    case None
    with assms(1) fc have d': "d' = d @ [(pk_name cls, VObjectId (next_oid st))]"
      by (auto simp: save_def Let_def map_result_def bind_result_eq_Inr)
    have cf: "clean_fields (mc_fields cls) d = []" using fc by (simp add: full_clean_def Let_def split: if_splits)
    have "clean_fields (mc_fields cls) d' = []"
      using clean_fields_append [OF cf None] assms(2) d' by (simp add: pk_plain_def list_all_iff)
    then show ?thesis by (simp add: full_clean_def)
  qed
qed

lemma save_keeps_valid:
  assumes "\<forall>(k, e) \<in> set (collections st (mc_name cls)). full_clean cls e = Inr e"
    and "save cls d st = Inr (d', st')" "pk_plain cls"
  shows "\<forall>(k, e) \<in> set (collections st' (mc_name cls)). full_clean cls e = Inr e"
  using assms save_validated [OF assms(2,3)] by (auto simp: save_collection dest: set_update_member)

section \<open>The loop of ProductVariant.price\<close>

text \<open>When every price's currency resolves and the default currency has a code, the
  loop is \<open>find\<close>: the first price whose currency code equals the default's.\<close>

lemma price_loop_find:
  assumes "code_of dc = Inr dcc" "\<forall>p \<in> set ps. \<exists>c. currency_code res p = Inr c"
  shows "price_loop res dc ps = Inr (find (\<lambda>p. currency_code res p = Inr dcc) ps)"
  using assms(2)
proof (induction ps)
  case Nil
  then show ?case by simp
next
  case (Cons p ps)
  then obtain c where "currency_code res p = Inr c" by auto
  with Cons assms(1) show ?case by auto
qed

section \<open>Properties of the model classes\<close>

text \<open>C7: \<open>Category.product_count\<close> filters Products on \<open>category_code\<close> and
  \<open>instance_id\<close>, attributes that \<open>Product\<close> does not declare. On a store whose
  Product documents carry only declared attributes (what \<open>save\<close> keeps, C8) those
  attributes are missing from every Product, and MongoDB matches a missing attribute
  only against \<open>None\<close>: a Category whose \<open>code\<close> and \<open>instance_id\<close> are both unset or
  \<open>None\<close> counts every Product, and any other Category counts none. A Category that
  validates has a \<open>code\<close> (it is required), so its count is always 0.\<close>

theorem Category_product_count_exact:
  assumes "online st" "coll_declared Product_class st"
  shows "Category_product_count st self =
           Inr (if attr self ''code'' = VNone \<and> attr self ''instance_id'' = VNone
                then length (collections st ''Product'') else 0) \<and>
         (full_clean Category_class self = Inr self \<longrightarrow> Category_product_count st self = Inr 0)"
proof -
  let ?flt = "[(''category_code'', attr self ''code''), (''instance_id'', attr self ''instance_id'')]"
  have undeclared: "''category_code'' \<notin> set (attr_names Product_class)"
                   "''instance_id'' \<notin> set (attr_names Product_class)"
    by (simp_all add: attr_names_def Product_class_def field_names_def fld_def)
  have m: "matches ?flt d \<longleftrightarrow> attr self ''code'' = VNone \<and> attr self ''instance_id'' = VNone"
    if "(k, d) \<in> set (collections st ''Product'')" for k d
  proof -
    have "set (keys_of d) \<subseteq> set (attr_names Product_class)"
      using assms(2) that by (fastforce simp: coll_declared_def list_all_iff)
    with undeclared have "map_of d ''category_code'' = None" "map_of d ''instance_id'' = None"
      by (auto simp: map_of_eq_None_iff)
    then show ?thesis by (auto simp: matches_def field_matches_def)
  qed
  have gen: "\<forall>(k, d) \<in> set xs. P d = c \<Longrightarrow> [d. (k, d) \<leftarrow> xs, P d] = (if c then map snd xs else [])"
    for xs :: collection and P c
    by (induction xs) auto
  have "[d. (k, d) \<leftarrow> collections st ''Product'', matches ?flt d] =
             (if attr self ''code'' = VNone \<and> attr self ''instance_id'' = VNone
              then map snd (collections st ''Product'') else [])"
    by (rule gen) (use m in blast)
  then have count: "Category_product_count st self =
           Inr (if attr self ''code'' = VNone \<and> attr self ''instance_id'' = VNone
                then length (collections st ''Product'') else 0)"
    using assms(1) by (simp add: Category_product_count_def raw_filter_def qs_count_def)
  have "attr self ''code'' \<noteq> VNone" if "full_clean Category_class self = Inr self"
  proof -
    have code: "mandatory (fld ''code'' CharField) \<in> set (mc_fields Category_class)"
      by (simp add: Category_class_def)
    have "map_of self ''code'' \<noteq> None"
    proof
      assume "map_of self ''code'' = None"
      then obtain msg where "full_clean Category_class self = Inl (ValidationError msg)"
        using full_clean_required [OF code] by (auto simp: fld_def)
      with that show False by simp
    qed
    moreover have "map_of self ''code'' \<noteq> Some VNone"
    proof
      assume "map_of self ''code'' = Some VNone"
      then have "clean_field self (mandatory (fld ''code'' CharField)) \<noteq> None"
        by (simp add: clean_field_def fld_def)
      then have "clean_fields (mc_fields Category_class) self \<noteq> []"
        by (rule clean_fields_field_error [OF code])
      with that show False by (simp add: full_clean_def Let_def)
    qed
    ultimately show ?thesis by (auto simp: attr_def split: option.splits)
  qed
  with count show ?thesis by auto
qed

theorem Category_product_count_exact_witness:
  "Category_product_count shop_store [] = Inr 1 \<and>
   full_clean Category_class shoes_category_saved = Inr shoes_category_saved \<and>
   Category_product_count shop_store shoes_category_saved = Inr 0"
proof -
  have decl: "coll_declared Product_class shop_store"
    by (simp add: coll_declared_def attr_names_def Product_class_def field_names_def fld_def)
  have on: "online shop_store" by (simp add: empty_store_def)
  have fc: "full_clean Category_class shoes_category_saved = Inr shoes_category_saved" by code_simp
  show ?thesis
    using Category_product_count_exact [OF on decl, of "[]"]
          Category_product_count_exact [OF on decl, of shoes_category_saved] fc
    by (simp add: attr_def)
qed

text \<open>C8: \<open>save\<close> of an instance built by pymodm's constructor keeps the class's
  collection free of undeclared attributes, the invariant C7 relies on.\<close>

theorem save_keeps_declared:
  assumes "instantiate cls now kw = Inr d" "\<not> mc_embedded cls"
    and "coll_declared cls st" "save cls d st = Inr (d', st')"
  shows "coll_declared cls st'"
proof -
  have "set (keys_of d') \<subseteq> insert (pk_name cls) (set (keys_of d))"
    using assms(4) by (rule save_cases) simp
  then have d': "set (keys_of d') \<subseteq> set (attr_names cls)"
    using instantiate_names [OF assms(1)] pk_name_attr [OF assms(2)] by blast
  have old: "list_all (\<lambda>(k, d). set (keys_of d) \<subseteq> set (attr_names cls)) (collections st (mc_name cls))"
    using assms(3) by (simp add: coll_declared_def)
  have "list_all (\<lambda>(k, d). set (keys_of d) \<subseteq> set (attr_names cls))
          (AList.update (pk_of cls d') d' (collections st (mc_name cls)))"
    using old d' by (simp add: list_all_update)
  then show ?thesis
    using save_collection [OF assms(4)] by (simp add: coll_declared_def)
qed

theorem save_keeps_declared_witness:
  "instantiate Product_class 100 [(''name'', VStr ''shoe''), (''user'', VObjectId 0)] = Inr shoe_new \<and>
   save Product_class shoe_new empty_store =
     Inr (shoe_new @ [(''_id'', VObjectId 0)],
          empty_store\<lparr>collections := (\<lambda>_. [])(''Product'' := [(VObjectId 0, shoe_new @ [(''_id'', VObjectId 0)])]),
                      next_oid := 1\<rparr>) \<and>
   coll_declared Product_class
     (empty_store\<lparr>collections := (\<lambda>_. [])(''Product'' := [(VObjectId 0, shoe_new @ [(''_id'', VObjectId 0)])]),
                  next_oid := 1\<rparr>)"
proof -
  have inst: "instantiate Product_class 100 [(''name'', VStr ''shoe''), (''user'', VObjectId 0)] = Inr shoe_new"
    by code_simp
  have fc: "full_clean Product_class shoe_new = Inr shoe_new" by code_simp
  have pk: "pk_name Product_class = ''_id''" by code_simp
  have sv: "save Product_class shoe_new empty_store =
     Inr (shoe_new @ [(''_id'', VObjectId 0)],
          empty_store\<lparr>collections := (\<lambda>_. [])(''Product'' := [(VObjectId 0, shoe_new @ [(''_id'', VObjectId 0)])]),
                      next_oid := 1\<rparr>)"
    by (simp add: save_def fc pk upsert_def empty_store_def Let_def)
  have decl: "coll_declared Product_class empty_store"
    by (simp add: coll_declared_def empty_store_def)
  show ?thesis
    using inst sv save_keeps_declared [OF inst _ decl sv] by simp
qed

text \<open>C9: at most one Location per domain. Saving a Location whose \<open>domain\<close> is a
  string, into a store that already holds another Location with that domain, raises
  \<open>DuplicateKeyError\<close>: the unique index on \<open>(domain, instance_id)\<close> sees
  \<open>(domain, null)\<close> twice, since \<open>instance_id\<close> is never stored.\<close>

theorem Location_save_duplicate_domain:
  assumes "online st" "full_clean Location_class d = Inr d" "set (keys_of d) \<subseteq> set (attr_names Location_class)"
    and "map_of d ''domain'' = Some (VStr dm)" "coll_declared Location_class st"
    and "(k', d') \<in> set (collections st ''Location'')" "map_of d' ''domain'' = Some (VStr dm)"
    and "map_of d ''_id'' \<noteq> Some k'" "VObjectId (next_oid st) \<noteq> k'"
  shows "save Location_class d st = Inl DuplicateKeyError"
proof -
  have pk: "pk_name Location_class = ''_id''" by code_simp
  have no_iid: "''instance_id'' \<notin> set (attr_names Location_class)"
    by (simp add: attr_names_def field_names_def Location_class_def fld_def)
  then have x: "map_of d ''instance_id'' = None"
    using assms(3) by (auto simp: map_of_eq_None_iff)
  have d'k: "set (keys_of d') \<subseteq> set (attr_names Location_class)"
  proof -
    have "\<forall>kd \<in> set (collections st ''Location''). (\<lambda>(k, d). set (keys_of d) \<subseteq> set (attr_names Location_class)) kd"
      using assms(5) by (simp add: coll_declared_def list_all_iff)
    from bspec [OF this assms(6)] show ?thesis by simp
  qed
  show ?thesis
  proof (cases "map_of d ''_id''")
    case None
    let ?k = "VObjectId (next_oid st)"
    have "index_conflict (mc_indexes Location_class) (collections st ''Location'') ?k (d @ [(''_id'', ?k)])"
      by (rule Location_index_clash [OF _ _ assms(6) _ assms(7) d'k])
         (use assms(4,9) x in \<open>auto simp: map_add_def\<close>)
    then have "insert_indexed (mc_indexes Location_class) ''Location'' ?k (d @ [(''_id'', ?k)])
                 (st\<lparr>next_oid := Suc (next_oid st)\<rparr>) = Inl DuplicateKeyError"
      using assms(1) by (simp add: insert_indexed_def)
    then show ?thesis using None assms(2) pk by (simp add: save_def Let_def)
  next
    case (Some k)
    have "index_conflict (mc_indexes Location_class) (collections st ''Location'') k d"
      by (rule Location_index_clash [OF assms(4) x assms(6) _ assms(7) d'k]) (use assms(8) Some in auto)
    then have "insert_indexed (mc_indexes Location_class) ''Location'' k d st = Inl DuplicateKeyError"
      using assms(1) by (simp add: insert_indexed_def)
    then show ?thesis using Some assms(2) pk by (simp add: save_def)
  qed
qed


theorem Location_save_duplicate_domain_witness:
  "save Location_class (shop_location ''555-0199'') location_store = Inl DuplicateKeyError"
proof -
  have fc: "full_clean Location_class (shop_location ''555-0199'') = Inr (shop_location ''555-0199'')"
    by code_simp
  have keys: "set (keys_of (shop_location ''555-0199'')) \<subseteq> set (attr_names Location_class)"
    by code_simp
  have decl: "coll_declared Location_class location_store"
    by (simp add: coll_declared_def empty_store_def) code_simp
  have dom: "map_of (shop_location ''555-0100'' @ [(''_id'', VObjectId 0)]) ''domain'' = Some (VStr ''shop.example'')"
    by code_simp
  show ?thesis
    by (rule Location_save_duplicate_domain [OF _ fc keys _ decl _ dom])
       (auto simp: empty_store_def)
qed

text \<open>C10: validation descends into embedded documents. A model whose
  \<open>EmbeddedDocumentField\<close> holds a document, or whose \<open>EmbeddedDocumentListField\<close>
  holds a list with a document, that fails its own class's validation cannot be
  saved: \<open>save()\<close> raises \<open>ValidationError\<close>, at any depth of nesting.\<close>

theorem save_rejects_invalid_embedded:
  assumes "f \<in> set (mc_fields cls)" "embedded_class c = Some ecls" "clean_fields (mc_fields ecls) p \<noteq> []"
    and "(fd_type f = EmbeddedDocumentField c \<and> map_of d (fd_name f) = Some (VDict p)) \<or>
         (fd_type f = EmbeddedDocumentListField c \<and> map_of d (fd_name f) = Some (VList vs) \<and> VDict p \<in> set vs)"
  shows "\<exists>msg. save cls d st = Inl (ValidationError msg)"
proof -
  have items: "VDict p \<in> set vs \<Longrightarrow> clean_items c vs \<noteq> []" for vs
    using assms(2,3) by (induction vs) auto
  obtain v where v: "map_of d (fd_name f) = Some v" "v \<noteq> VNone" "clean_value (fd_type f) v \<noteq> []"
    using assms(4)
  proof (elim disjE conjE)
    assume "fd_type f = EmbeddedDocumentField c" "map_of d (fd_name f) = Some (VDict p)"
    then show thesis using that [of "VDict p"] assms(2,3) by simp
  next
    assume "fd_type f = EmbeddedDocumentListField c" "map_of d (fd_name f) = Some (VList vs)" "VDict p \<in> set vs"
    then show thesis using that [of "VList vs"] items by simp
  qed
  have "clean_fields (mc_fields cls) d \<noteq> []"
  proof (cases "clean_field d f")
    case None
    then show ?thesis using clean_fields_value_error [OF assms(1) v] by simp
  next
    case (Some m)
    then show ?thesis using clean_fields_field_error [OF assms(1)] by simp
  qed
  then show ?thesis by (simp add: save_def full_clean_def Let_def)
qed

theorem save_rejects_invalid_embedded_witness:
  "\<exists>msg. save Product_class (shoe_new @ [(''variants'', VList [VDict unpriced_variant])]) empty_store =
          Inl (ValidationError msg)"
proof -
  have f: "(fld ''variants'' (EmbeddedDocumentListField ''ProductVariant''))\<lparr>fd_required := False, fd_blank := True\<rparr>
             \<in> set (mc_fields Product_class)"
    by (simp add: Product_class_def)
  have c: "embedded_class ''ProductVariant'' = Some ProductVariant_class"
    by (simp add: embedded_class_def Address_class_def Person_class_def Price_class_def ProductStat_class_def
                  EmbeddedAttribute_class_def ProductVariant_class_def)
  have e: "clean_fields (mc_fields ProductVariant_class) unpriced_variant \<noteq> []" by code_simp
  let ?f = "(fld ''variants'' (EmbeddedDocumentListField ''ProductVariant''))\<lparr>fd_required := False, fd_blank := True\<rparr>"
  let ?d = "shoe_new @ [(''variants'', VList [VDict unpriced_variant])]"
  have m: "(fd_type ?f = EmbeddedDocumentField ''ProductVariant'' \<and> map_of ?d (fd_name ?f) = Some (VDict unpriced_variant)) \<or>
           (fd_type ?f = EmbeddedDocumentListField ''ProductVariant'' \<and>
            map_of ?d (fd_name ?f) = Some (VList [VDict unpriced_variant]) \<and> VDict unpriced_variant \<in> set [VDict unpriced_variant])"
    by (simp add: fld_def)
  show ?thesis
    using save_rejects_invalid_embedded [OF f c e m, of empty_store] .
qed

text \<open>C11: \<open>ProductVariant.price\<close> never returns when no price is in the default
  currency (and when the variant has no prices at all): \<open>return self.price\<close> calls
  itself on the same object until the interpreter's recursion limit, whatever that
  limit is, and raises \<open>RecursionError\<close>.\<close>

theorem ProductVariant_price_no_match_recursion_error:
  assumes "ref_attr res self ''default_currency'' = Inr dc"
    and "price_loop res dc (prices_of self) = Inr None"
  shows "ProductVariant_price depth res self = Inl RecursionError"
  using assms by (induction depth) simp_all

theorem ProductVariant_price_no_match_recursion_error_witness:
  "ProductVariant_price 1000 (\<lambda>v. Inr (Raw v)) [(''quantity'', VInt 1), (''prices'', VList [])] =
   Inl RecursionError"
proof -
  have a: "ref_attr (\<lambda>v. Inr (Raw v)) [(''quantity'', VInt 1), (''prices'', VList [])] ''default_currency'' = Inr None"
    by (simp add: ref_attr_def)
  have b: "price_loop (\<lambda>v. Inr (Raw v)) None (prices_of [(''quantity'', VInt 1), (''prices'', VList [])]) = Inr None"
    by (simp add: prices_of_def attr_def)
  show ?thesis by (rule ProductVariant_price_no_match_recursion_error [OF a b])
qed

text \<open>C12: when the default currency and every price's currency resolve,
  \<open>ProductVariant.price\<close> (its loop and its self-call at any recursion limit) is
  the reference definition \<open>find\<close>: the first price whose currency code is the
  default currency's, and \<open>RecursionError\<close> when there is none.\<close>

theorem ProductVariant_price_equiv_find:
  assumes "0 < depth" "ref_attr res self ''default_currency'' = Inr dc" "code_of dc = Inr dcc"
    and "\<forall>p \<in> set (prices_of self). \<exists>c. currency_code res p = Inr c"
  shows "ProductVariant_price depth res self =
           (case find (\<lambda>p. currency_code res p = Inr dcc) (prices_of self) of
              Some price \<Rightarrow> Inr price
            | None \<Rightarrow> Inl RecursionError)"
  using assms
proof (induction depth)
  case 0 then show ?case by simp
next
  case (Suc n)
  show ?case
  proof (cases "find (\<lambda>p. currency_code res p = Inr dcc) (prices_of self)")
    case None
    then have "ProductVariant_price (Suc n) res self = ProductVariant_price n res self"
      using Suc.prems(2-4) by (simp add: price_loop_find)
    moreover have "ProductVariant_price n res self = Inl RecursionError"
      using None Suc.IH Suc.prems(2-4) by (cases n) simp_all
    ultimately show ?thesis using None by simp
  next
    case (Some price)
    then show ?thesis using Suc.prems(2-4) by (simp add: price_loop_find)
  qed
qed

theorem ProductVariant_price_equiv_find_witness:
  "ProductVariant_price 1000 (\<lambda>v. usd_res v) usd_variant = Inr usd_price"
proof -
  have res: "usd_res (VStr ''USD'') = Inr (Inst usd_doc)"
    by (simp add: dereference_if_needed_def store_env_def char_pk_to_python_def qs_count_def
                  qs_first_def raw_id_def empty_store_def)
  have dc: "ref_attr (\<lambda>v. usd_res v) usd_variant ''default_currency'' = Inr (Some (Inst usd_doc))"
    using res by (simp add: ref_attr_def)
  have code: "code_of (Some (Inst usd_doc)) = Inr (VStr ''USD'')"
    by (simp add: code_of_def attr_def)
  have cc: "currency_code (\<lambda>v. usd_res v) usd_price = Inr (VStr ''USD'')"
    using res by (simp add: currency_code_def ref_attr_def code_of_def attr_def)
  have ps: "prices_of usd_variant = [usd_price]"
    by (simp add: prices_of_def attr_def)
  have all: "\<forall>p \<in> set (prices_of usd_variant). \<exists>c. currency_code (\<lambda>v. usd_res v) p = Inr c"
    using cc ps by simp
  have fnd: "find (\<lambda>p. currency_code (\<lambda>v. usd_res v) p = Inr (VStr ''USD'')) (prices_of usd_variant) = Some usd_price"
    using cc ps by simp
  show ?thesis
    using ProductVariant_price_equiv_find [OF _ dc code all, of 1000] fnd by simp
qed

text \<open>C13: \<open>ProductVariant.__eq__\<close> compares \<open>str(self.sku)\<close> with a string
  operand and hashes with a variant operand, so a variant without a sku equals the
  string \<open>"None"\<close>, and any two variants without a sku are equal.\<close>

theorem ProductVariant_eq_missing_sku:
  assumes "map_of self ''sku'' = None" "map_of other ''sku'' = None"
  shows "ProductVariant_eq hash self (ValueOperand (VStr ''None'')) = VBool True \<and>
         ProductVariant_eq hash self (VariantOperand other) = VBool True"
  using assms by (simp add: ProductVariant_eq_def ProductVariant_hash_def attr_def)

theorem ProductVariant_eq_missing_sku_witness:
  "ProductVariant_eq (\<lambda>_. 0) [(''quantity'', VInt 1)] (ValueOperand (VStr ''None'')) = VBool True \<and>
   ProductVariant_eq (\<lambda>_. 0) [(''quantity'', VInt 1)] (VariantOperand [(''quantity'', VInt 2)]) = VBool True"
  using ProductVariant_eq_missing_sku [of "[(''quantity'', VInt 1)]" "[(''quantity'', VInt 2)]" "\<lambda>_. 0"]
  by simp

end
