(* ===== verification/Service.thy ===== *)
theory Service
  imports Models
begin

text \<open>
  The CRUD Service Factory and its one use in the repository. \<open>ServiceFactory\<close>
  lives in \<open>src/base/service.py\<close>, which is not part of the repository: its
  operations are modelled from spec section 4.2 over the pymodm semantics of theory
  \<open>Models\<close>. \<open>src/src/services/product.py\<close> is modelled from the code:
  \<open>BaseProductService = ServiceFactory.create_service(Product)\<close> and
  \<open>ProductService.register\<close>, which calls \<open>cls.create(**kwargs)\<close>.
  The state is a \<open>world\<close>: the store and the clock that \<open>datetime.utcnow()\<close>
  reads. \<open>svc_step\<close> is the step relation of one service: a successful create,
  update or delete, the clock advancing, or the server going down or coming back;
  \<open>svc_reachable\<close> the worlds reachable from an empty store. For concurrency,
  \<open>update\<close> is also a read phase followed by a write phase (\<open>update_write\<close>), and
  \<open>interleaved_updates\<close> orders two clients' phases read, read, write, write.
\<close>

record world =
  db :: store
  clock :: int

section \<open>The generic operations\<close>

text \<open>Stamping a timestamp field the class declares with the current instant.\<close>

definition stamp :: "string \<Rightarrow> model_class \<Rightarrow> int \<Rightarrow> doc \<Rightarrow> doc" where
  "stamp a cls now d = (if a \<in> set (field_names cls) then AList.update a (VTime now) d else d)"

definition service_create :: "model_class \<Rightarrow> doc \<Rightarrow> world \<Rightarrow> (doc \<times> world) result" where
  "service_create cls kwargs w =
     bind_result (instantiate cls (clock w) kwargs) (\<lambda>d.
       map_result (\<lambda>(d', st). (d', w\<lparr>db := st\<rparr>))
         (save cls (stamp ''last_updated'' cls (clock w) (stamp ''date_created'' cls (clock w) d)) (db w)))"

definition service_read :: "model_class \<Rightarrow> pyval \<Rightarrow> world \<Rightarrow> doc result" where
  "service_read cls k w =
     bind_result (raw_id (db w) (mc_name cls) k) (\<lambda>ds.
       case ds of [] \<Rightarrow> Inl NotFoundError | d # _ \<Rightarrow> Inr d)"

text \<open>Merging partial fields onto the stored entity, in the order given.\<close>

definition merge :: "doc \<Rightarrow> doc \<Rightarrow> doc" where
  "merge d partial = foldl (\<lambda>acc (a, v). AList.update a v acc) d partial"

definition service_update :: "model_class \<Rightarrow> pyval \<Rightarrow> doc \<Rightarrow> world \<Rightarrow> (doc \<times> world) result" where
  "service_update cls k partial w =
     bind_result (service_read cls k w) (\<lambda>d.
       bind_result (keep_known cls partial) (\<lambda>p.
         map_result (\<lambda>(d', st). (d', w\<lparr>db := st\<rparr>))
           (save cls (stamp ''last_updated'' cls (clock w) (merge d p)) (db w))))"

definition service_delete :: "model_class \<Rightarrow> pyval \<Rightarrow> world \<Rightarrow> world result" where
  "service_delete cls k w =
     bind_result (service_read cls k w) (\<lambda>_.
       map_result (\<lambda>st. w\<lparr>db := st\<rparr>) (remove (mc_name cls) k (db w)))"

definition service_list :: "model_class \<Rightarrow> doc \<Rightarrow> world \<Rightarrow> doc list result" where
  "service_list cls flt w = raw_filter (db w) (mc_name cls) flt"

section \<open>Concurrent updates\<close>

text \<open>\<open>update\<close> is a read followed by a write, with no version check between them
  (spec section 5: last write wins). \<open>update_write\<close> is its second phase: merge the
  known partial fields onto the entity the first phase read, stamp
  \<open>last_updated\<close> and save. \<open>interleaved_updates\<close> runs two clients' updates of
  the same key in the order read A, read B, write A, write B: each request is one
  worker, and the store orders their round trips.\<close>

definition update_write :: "model_class \<Rightarrow> doc \<Rightarrow> doc \<Rightarrow> world \<Rightarrow> (doc \<times> world) result" where
  "update_write cls d partial w =
     bind_result (keep_known cls partial) (\<lambda>p.
       map_result (\<lambda>(d', st). (d', w\<lparr>db := st\<rparr>))
         (save cls (stamp ''last_updated'' cls (clock w) (merge d p)) (db w)))"

definition interleaved_updates ::
  "model_class \<Rightarrow> pyval \<Rightarrow> doc \<Rightarrow> doc \<Rightarrow> world \<Rightarrow> (doc \<times> doc \<times> world) result" where
  "interleaved_updates cls k pA pB w =
     bind_result (service_read cls k w) (\<lambda>dA.
       bind_result (service_read cls k w) (\<lambda>dB.
         bind_result (update_write cls dA pA w) (\<lambda>(rA, w1).
           map_result (\<lambda>(rB, w2). (rA, rB, w2)) (update_write cls dB pB w1))))"

section \<open>The factory and the product service\<close>

record service =
  svc_class :: model_class
  svc_create :: "doc \<Rightarrow> world \<Rightarrow> (doc \<times> world) result"
  svc_read :: "pyval \<Rightarrow> world \<Rightarrow> doc result"
  svc_update :: "pyval \<Rightarrow> doc \<Rightarrow> world \<Rightarrow> (doc \<times> world) result"
  svc_delete :: "pyval \<Rightarrow> world \<Rightarrow> world result"
  svc_list :: "doc \<Rightarrow> world \<Rightarrow> doc list result"

definition create_service :: "model_class \<Rightarrow> service" where
  "create_service cls =
     \<lparr>svc_class = cls, svc_create = service_create cls, svc_read = service_read cls,
      svc_update = service_update cls, svc_delete = service_delete cls,
      svc_list = service_list cls\<rparr>"

definition BaseProductService :: service where
  "BaseProductService = create_service Product_class"

definition ProductService_register :: "doc \<Rightarrow> world \<Rightarrow> (doc \<times> world) result" where
  "ProductService_register kwargs = svc_create BaseProductService kwargs"

section \<open>Steps and reachable worlds\<close>

inductive svc_step :: "model_class \<Rightarrow> world \<Rightarrow> world \<Rightarrow> bool" for cls where
  create: "service_create cls f w = Inr (d, w') \<Longrightarrow> svc_step cls w w'"
| update: "service_update cls k p w = Inr (d, w') \<Longrightarrow> svc_step cls w w'"
| delete: "service_delete cls k w = Inr w' \<Longrightarrow> svc_step cls w w'"
| tick: "clock w \<le> t \<Longrightarrow> svc_step cls w (w\<lparr>clock := t\<rparr>)"
| link: "svc_step cls w (w\<lparr>db := (db w)\<lparr>online := b\<rparr>\<rparr>)"

inductive svc_reachable :: "model_class \<Rightarrow> world \<Rightarrow> bool" for cls where
  init: "svc_reachable cls \<lparr>db = empty_store, clock = t\<rparr>"
| step: "svc_reachable cls w \<Longrightarrow> svc_step cls w w' \<Longrightarrow> svc_reachable cls w'"

text \<open>The invariant of one class's collection: distinct keys, each document stored
  under its own primary key, only declared attributes, and a \<open>last_updated\<close>
  stamp that is not in the future.\<close>

definition stamped_at :: "int \<Rightarrow> doc \<Rightarrow> bool" where
  "stamped_at now d = (case map_of d ''last_updated'' of Some (VTime t) \<Rightarrow> t \<le> now | _ \<Rightarrow> False)"

definition doc_ok :: "model_class \<Rightarrow> int \<Rightarrow> pyval \<times> doc \<Rightarrow> bool" where
  "doc_ok cls now kd =
     (map_of (snd kd) (pk_name cls) = Some (fst kd) \<and>
      set (keys_of (snd kd)) \<subseteq> set (attr_names cls) \<and> stamped_at now (snd kd))"

definition svc_inv :: "model_class \<Rightarrow> world \<Rightarrow> bool" where
  "svc_inv cls w \<longleftrightarrow>
     store_wf (db w) \<and> list_all (doc_ok cls (clock w)) (collections (db w) (mc_name cls))"

text \<open>The classes the service is used with: top-level, with a \<open>last_updated\<close> field.\<close>

definition timestamped :: "model_class \<Rightarrow> bool" where
  "timestamped cls \<longleftrightarrow> \<not> mc_embedded cls \<and> ''last_updated'' \<in> set (field_names cls)"

text \<open>The abstract view of a service: the map from keys to entities that spec
  section 4.2 describes.\<close>

definition svc_abs :: "model_class \<Rightarrow> world \<Rightarrow> pyval \<rightharpoonup> doc" where
  "svc_abs cls w = lookup (db w) (mc_name cls)"

text \<open>Example worlds for the witnesses: the empty store at time 100, and the store
  after \<open>register(name="shoe", user=ObjectId 0)\<close>.\<close>

abbreviation world0 :: world where
  "world0 \<equiv> \<lparr>db = empty_store, clock = 100\<rparr>"

abbreviation location_world :: world where
  "location_world \<equiv> \<lparr>db = location_store, clock = 100\<rparr>"

abbreviation shoe_saved :: doc where
  "shoe_saved \<equiv> shoe_new @ [(''_id'', VObjectId 0)]"

abbreviation world1 :: world where
  "world1 \<equiv> \<lparr>db = empty_store\<lparr>collections := (\<lambda>_. [])(''Product'' := [(VObjectId 0, shoe_saved)]),
                               next_oid := 1\<rparr>, clock = 100\<rparr>"

abbreviation boot_saved :: doc where
  "boot_saved \<equiv> [(''name'', VStr ''boot''), (''user'', VObjectId 0), (''quantity'', VInt 1),
     (''unlimited_stock'', VBool False), (''tags'', VList []), (''visible'', VBool True),
     (''has_variations'', VBool False), (''date_created'', VTime 100), (''last_updated'', VTime 100),
     (''_id'', VObjectId 0)]"

abbreviation world2 :: world where
  "world2 \<equiv> \<lparr>db = empty_store\<lparr>collections := (\<lambda>_. [])(''Product'' := [(VObjectId 0, boot_saved)]),
                               next_oid := 1\<rparr>, clock = 100\<rparr>"

abbreviation world3 :: world where
  "world3 \<equiv> \<lparr>db = empty_store\<lparr>collections := (\<lambda>_. [])(''Product'' := []), next_oid := 1\<rparr>,
             clock = 100\<rparr>"

text \<open>Two clients updating the shoe of \<open>world1\<close>: A renames it to boot, B sets its
  sku. Interleaved, B's write stores the shoe with the sku (\<open>world4\<close>); one after
  the other, the boot with the sku (\<open>world5\<close>).\<close>

abbreviation sku_update :: doc where
  "sku_update \<equiv> [(''sku'', VStr ''SHOE-1'')]"

abbreviation world4 :: world where
  "world4 \<equiv> \<lparr>db = empty_store\<lparr>collections := (\<lambda>_. [])(''Product'' := [(VObjectId 0, shoe_saved @ sku_update)]),
                               next_oid := 1\<rparr>, clock = 100\<rparr>"

abbreviation world5 :: world where
  "world5 \<equiv> \<lparr>db = empty_store\<lparr>collections := (\<lambda>_. [])(''Product'' := [(VObjectId 0, boot_saved @ sku_update)]),
                               next_oid := 1\<rparr>, clock = 100\<rparr>"

section \<open>Shapes of the operations\<close>

lemma service_read_lookup:
  "online (db w) \<Longrightarrow> store_wf (db w) \<Longrightarrow>
   service_read cls k w = (case lookup (db w) (mc_name cls) k of None \<Rightarrow> Inl NotFoundError | Some d \<Rightarrow> Inr d)"
  by (simp add: service_read_def raw_id_lookup split: option.splits)

lemma service_read_Inr:
  assumes "service_read cls k w = Inr d" "store_wf (db w)"
  shows "online (db w) \<and> lookup (db w) (mc_name cls) k = Some d"
proof (cases "online (db w)")
  case True
  with assms show ?thesis by (simp add: service_read_lookup split: option.splits)
next
  case False
  with assms show ?thesis by (simp add: service_read_def raw_id_offline)
qed

lemma service_create_cases:
  assumes "service_create cls kw w = Inr (d, w')"
  obtains d0 where "instantiate cls (clock w) kw = Inr d0"
    "save cls (stamp ''last_updated'' cls (clock w) (stamp ''date_created'' cls (clock w) d0)) (db w) = Inr (d, db w')"
    "clock w' = clock w"
  using assms by (auto simp: service_create_def map_result_def bind_result_eq_Inr)

lemma service_update_cases:
  assumes "service_update cls k partial w = Inr (d, w')"
  obtains d0 p where "service_read cls k w = Inr d0" "keep_known cls partial = Inr p"
    "save cls (stamp ''last_updated'' cls (clock w) (merge d0 p)) (db w) = Inr (d, db w')"
    "clock w' = clock w"
  using assms by (auto simp: service_update_def map_result_def bind_result_eq_Inr)

lemma service_delete_cases:
  assumes "service_delete cls k w = Inr w'"
  obtains d0 where "service_read cls k w = Inr d0" "remove (mc_name cls) k (db w) = Inr (db w')"
    "clock w' = clock w"
  using assms by (auto simp: service_delete_def map_result_def bind_result_eq_Inr)

lemma stamp_same:
  "a \<in> set (field_names cls) \<Longrightarrow> map_of (stamp a cls now d) a = Some (VTime now)"
  by (simp add: stamp_def update_conv')

lemma stamp_other: "b \<noteq> a \<Longrightarrow> map_of (stamp a cls now d) b = map_of d b"
  by (simp add: stamp_def update_conv')

lemma stamp_keys:
  "set (keys_of (stamp a cls now d)) \<subseteq> set (keys_of d) \<union> set (field_names cls)"
  by (auto simp: stamp_def dom_update)

lemma merge_keys: "set (keys_of (merge d p)) = set (keys_of d) \<union> set (keys_of p)"
proof (induction p arbitrary: d)
  case Nil
  then show ?case by (simp add: merge_def)
next
  case (Cons x p)
  then show ?case by (cases x) (auto simp: merge_def dom_update)
qed

section \<open>Functional behaviour\<close>

text \<open>C14: \<open>create\<close> followed by \<open>read\<close> of the assigned primary key returns the saved
  entity.\<close>

theorem create_then_read:
  assumes "store_wf (db w)" "service_create cls kw w = Inr (d, w')"
  shows "service_read cls (pk_of cls d) w' = Inr d"
proof -
  obtain d0 where sv: "save cls (stamp ''last_updated'' cls (clock w) (stamp ''date_created'' cls (clock w) d0)) (db w) = Inr (d, db w')"
    using assms(2) by (rule service_create_cases)
  have "online (db w')" using save_online [OF sv] by simp
  moreover have "store_wf (db w')" using save_wf [OF assms(1) sv] .
  moreover have "lookup (db w') (mc_name cls) (pk_of cls d) = Some d" using save_lookup [OF sv] .
  ultimately show ?thesis by (simp add: service_read_lookup)
qed

text \<open>C15: \<open>delete\<close> followed by \<open>read\<close> of the same key fails with
  \<open>NotFoundError\<close>.\<close>

theorem delete_then_read:
  assumes "store_wf (db w)" "service_delete cls k w = Inr w'"
  shows "service_read cls k w' = Inl NotFoundError"
proof -
  have rm: "remove (mc_name cls) k (db w) = Inr (db w')"
    using assms(2) by (rule service_delete_cases)
  have "online (db w')" using remove_online [OF rm] by simp
  moreover have "store_wf (db w')" using remove_wf [OF assms(1) rm] .
  moreover have "lookup (db w') (mc_name cls) k = None" using lookup_remove [OF rm] by simp
  ultimately show ?thesis by (simp add: service_read_lookup)
qed

lemma create_location:
  "service_create Location_class [(''phone'', VStr ''555-0100''), (''domain'', VStr ''shop.example''), (''user'', VObjectId 0)]
     world0 = Inr (shop_location ''555-0100'' @ [(''_id'', VObjectId 0)], location_world)"
proof -
  have inst: "instantiate Location_class 100 [(''phone'', VStr ''555-0100''), (''domain'', VStr ''shop.example''), (''user'', VObjectId 0)]
                = Inr (shop_location ''555-0100'')"
    by code_simp
  have st: "stamp ''last_updated'' Location_class 100 (stamp ''date_created'' Location_class 100 (shop_location ''555-0100''))
              = shop_location ''555-0100''"
    by code_simp
  have fc: "full_clean Location_class (shop_location ''555-0100'') = Inr (shop_location ''555-0100'')" by code_simp
  have pk: "pk_name Location_class = ''_id''" by code_simp
  have ins: "insert_indexed (mc_indexes Location_class) ''Location'' (VObjectId 0) (shop_location ''555-0100'' @ [(''_id'', VObjectId 0)])
               (empty_store\<lparr>next_oid := 1\<rparr>) = Inr location_store"
    by (simp add: insert_indexed_def index_conflict_def upsert_def empty_store_def list_ex_iff)
  show ?thesis
    using ins by (simp add: service_create_def inst st save_def fc pk Let_def One_nat_def empty_store_def)
qed

lemma create_shoe:
  "service_create Product_class [(''name'', VStr ''shoe''), (''user'', VObjectId 0)] world0 =
   Inr (shoe_saved, world1)"
proof -
  have inst: "instantiate Product_class 100 [(''name'', VStr ''shoe''), (''user'', VObjectId 0)] = Inr shoe_new"
    by code_simp
  have st: "stamp ''last_updated'' Product_class 100 (stamp ''date_created'' Product_class 100 shoe_new) = shoe_new"
    by code_simp
  have fc: "full_clean Product_class shoe_new = Inr shoe_new" by code_simp
  have pk: "pk_name Product_class = ''_id''" by code_simp
  show ?thesis
    by (simp add: service_create_def inst st save_def fc pk upsert_def empty_store_def Let_def)
qed

lemma update_boot:
  "service_update Product_class (VObjectId 0) [(''name'', VStr ''boot'')] world1 = Inr (boot_saved, world2)"
proof -
  have rd: "service_read Product_class (VObjectId 0) world1 = Inr shoe_saved"
    by (simp add: service_read_def raw_id_def empty_store_def)
  have kk: "keep_known Product_class [(''name'', VStr ''boot'')] = Inr [(''name'', VStr ''boot'')]"
    by code_simp
  have mg: "stamp ''last_updated'' Product_class 100 (merge shoe_saved [(''name'', VStr ''boot'')]) = boot_saved"
    by code_simp
  have fc: "full_clean Product_class boot_saved = Inr boot_saved" by code_simp
  have pk: "pk_name Product_class = ''_id''" by code_simp
  show ?thesis
    by (simp only: service_update_def rd kk bind_result_Inr world.select_convs mg)
       (simp add: save_def fc pk upsert_def empty_store_def)
qed

lemma delete_boot: "service_delete Product_class (VObjectId 0) world2 = Inr world3"
  by (simp add: service_delete_def service_read_def raw_id_def remove_def empty_store_def)

lemma pk_of_Product_id: "pk_of Product_class d = attr d ''_id''"
  by (simp add: pk_of_def attr_def pk_name_def Product_class_def fld_def)

theorem create_then_read_witness:
  "service_create Product_class [(''name'', VStr ''shoe''), (''user'', VObjectId 0)] world0 = Inr (shoe_saved, world1) \<and>
   service_read Product_class (VObjectId 0) world1 = Inr shoe_saved"
proof -
  have wf: "store_wf (db world0)" by (simp add: store_wf_def empty_store_def)
  have pk: "pk_of Product_class shoe_saved = VObjectId 0"
    by (simp add: pk_of_def pk_name_def Product_class_def fld_def)
  show ?thesis
    using create_shoe create_then_read [OF wf create_shoe] pk by simp
qed

theorem delete_then_read_witness:
  "service_delete Product_class (VObjectId 0) world1 = Inr (world1\<lparr>db := (db world1)\<lparr>collections := (\<lambda>_. [])\<rparr>\<rparr>) \<and>
   service_read Product_class (VObjectId 0) (world1\<lparr>db := (db world1)\<lparr>collections := (\<lambda>_. [])\<rparr>\<rparr>) = Inl NotFoundError"
proof -
  have wf: "store_wf (db world1)" by (simp add: store_wf_def empty_store_def)
  have del: "service_delete Product_class (VObjectId 0) world1 = Inr (world1\<lparr>db := (db world1)\<lparr>collections := (\<lambda>_. [])\<rparr>\<rparr>)"
    by (simp add: service_delete_def service_read_def raw_id_def remove_def empty_store_def fun_upd_idem)
  show ?thesis using del delete_then_read [OF wf del] by simp
qed

section \<open>The invariant of a service's collection\<close>

lemma stamped_at_iff:
  "stamped_at now d \<longleftrightarrow> (\<exists>t. map_of d ''last_updated'' = Some (VTime t) \<and> t \<le> now)"
  by (auto simp: stamped_at_def split: option.splits pyval.splits)

lemma save_stamped_now:
  assumes "timestamped cls" "save cls (stamp ''last_updated'' cls now x) st = Inr (d, st')"
  shows "map_of d ''last_updated'' = Some (VTime now)"
  using assms by (auto simp: timestamped_def stamp_same intro: save_keeps_attrs)

lemma doc_ok_mono: "t \<le> t' \<Longrightarrow> doc_ok cls t kd \<Longrightarrow> doc_ok cls t' kd"
  by (auto simp: doc_ok_def stamped_at_def split: option.splits pyval.splits)

lemma svc_inv_init: "svc_inv cls \<lparr>db = empty_store, clock = t\<rparr>"
  by (simp add: svc_inv_def empty_store_def store_wf_def)

lemma svc_inv_lookup:
  "svc_inv cls w \<Longrightarrow> lookup (db w) (mc_name cls) k = Some d \<Longrightarrow> doc_ok cls (clock w) (k, d)"
  by (auto simp: svc_inv_def lookup_def list_all_iff dest: map_of_SomeD)

text \<open>Saving a document whose attributes are declared and whose \<open>last_updated\<close>
  is stamped keeps the invariant: the shared step of create and update.\<close>

lemma save_keeps_inv:
  assumes "\<not> mc_embedded cls" "svc_inv cls w"
    and "set (keys_of x) \<subseteq> set (attr_names cls)" "stamped_at (clock w) x"
    and "save cls x (db w) = Inr (d, st')"
  shows "svc_inv cls (w\<lparr>db := st'\<rparr>)"
proof -
  obtain k where pk: "map_of d (pk_name cls) = Some k"
    and keys: "set (keys_of d) \<subseteq> insert (pk_name cls) (set (keys_of x))"
    using assms(5) by (rule save_cases) blast
  have "pk_of cls d = k" using pk by (simp add: pk_of_def)
  moreover have "stamped_at (clock w) d"
    using assms(4) save_keeps_attrs [OF assms(5)]
    by (auto simp: stamped_at_def split: option.splits pyval.splits)
  moreover have "set (keys_of d) \<subseteq> set (attr_names cls)"
    using keys assms(3) pk_name_attr [OF assms(1)] by blast
  ultimately have ok: "doc_ok cls (clock w) (pk_of cls d, d)"
    using pk by (simp add: doc_ok_def)
  have "list_all (doc_ok cls (clock w)) (collections (db w) (mc_name cls))"
    using assms(2) by (simp add: svc_inv_def)
  then have "list_all (doc_ok cls (clock w)) (collections st' (mc_name cls))"
    using ok save_collection [OF assms(5)] by (simp add: list_all_update)
  moreover have "store_wf st'"
    using assms(2,5) save_wf by (auto simp: svc_inv_def)
  ultimately show ?thesis by (simp add: svc_inv_def)
qed

lemma create_keeps_inv:
  assumes "timestamped cls" "svc_inv cls w" "service_create cls kw w = Inr (d, w')"
  shows "svc_inv cls w'"
proof -
  obtain d0 where inst: "instantiate cls (clock w) kw = Inr d0"
    and sv: "save cls (stamp ''last_updated'' cls (clock w) (stamp ''date_created'' cls (clock w) d0)) (db w) = Inr (d, db w')"
    and clk: "clock w' = clock w"
    using assms(3) by (rule service_create_cases)
  let ?x = "stamp ''last_updated'' cls (clock w) (stamp ''date_created'' cls (clock w) d0)"
  have "set (keys_of ?x) \<subseteq> set (attr_names cls)"
    using stamp_keys [of "''last_updated''" cls "clock w"] stamp_keys [of "''date_created''" cls "clock w" d0]
          instantiate_names [OF inst] field_names_attr [of cls] by blast
  moreover have "stamped_at (clock w) ?x"
    using assms(1) by (simp add: stamped_at_def timestamped_def stamp_same)
  ultimately have "svc_inv cls (w\<lparr>db := db w'\<rparr>)"
    using save_keeps_inv [OF _ assms(2) _ _ sv] assms(1) by (simp add: timestamped_def)
  then show ?thesis using clk by (simp add: svc_inv_def)
qed

lemma update_keeps_inv:
  assumes "timestamped cls" "svc_inv cls w" "service_update cls k partial w = Inr (d, w')"
  shows "svc_inv cls w'"
proof -
  obtain d0 p where rd: "service_read cls k w = Inr d0" and kk: "keep_known cls partial = Inr p"
    and sv: "save cls (stamp ''last_updated'' cls (clock w) (merge d0 p)) (db w) = Inr (d, db w')"
    and clk: "clock w' = clock w"
    using assms(3) by (rule service_update_cases)
  have "lookup (db w) (mc_name cls) k = Some d0"
    using service_read_Inr [OF rd] assms(2) by (simp add: svc_inv_def)
  then have "set (keys_of d0) \<subseteq> set (attr_names cls)"
    using svc_inv_lookup [OF assms(2)] by (simp add: doc_ok_def)
  then have "set (keys_of (stamp ''last_updated'' cls (clock w) (merge d0 p))) \<subseteq> set (attr_names cls)"
    using stamp_keys [of "''last_updated''" cls "clock w" "merge d0 p"] merge_keys [of d0 p]
          keep_known_names [OF kk] field_names_attr [of cls] by blast
  moreover have "stamped_at (clock w) (stamp ''last_updated'' cls (clock w) (merge d0 p))"
    using assms(1) by (simp add: stamped_at_def timestamped_def stamp_same)
  ultimately have "svc_inv cls (w\<lparr>db := db w'\<rparr>)"
    using save_keeps_inv [OF _ assms(2) _ _ sv] assms(1) by (simp add: timestamped_def)
  then show ?thesis using clk by (simp add: svc_inv_def)
qed

lemma delete_keeps_inv:
  assumes "svc_inv cls w" "service_delete cls k w = Inr w'"
  shows "svc_inv cls w'"
proof -
  have rm: "remove (mc_name cls) k (db w) = Inr (db w')" and clk: "clock w' = clock w"
    using assms(2) by (auto elim: service_delete_cases)
  have "collections (db w') (mc_name cls) = AList.delete k (collections (db w) (mc_name cls))"
    using rm by (rule remove_collection)
  with assms(1) rm clk show ?thesis
    by (auto simp: svc_inv_def list_all_delete intro: remove_wf)
qed

lemma svc_step_keeps_inv:
  assumes "svc_step cls w w'" "timestamped cls" "svc_inv cls w"
  shows "svc_inv cls w'"
  using assms
proof (induction rule: svc_step.induct)
  case (create f w d w')
  then show ?case by (blast intro: create_keeps_inv)
next
  case (update k p w d w')
  then show ?case by (blast intro: update_keeps_inv)
next
  case (delete k w w')
  then show ?case by (blast intro: delete_keeps_inv)
next
  case (tick w t)
  then show ?case
    by (auto simp: svc_inv_def list_all_iff intro: doc_ok_mono)
next
  case (link w b)
  then show ?case by (simp add: svc_inv_def store_wf_def)
qed

section \<open>Properties of the service\<close>

text \<open>C16: in every world reachable by service steps, the collection of a timestamped
  class has distinct keys, stores each entity under its own primary key, holds only
  declared attributes, and carries a \<open>last_updated\<close> stamp that is not in the future.\<close>

theorem svc_reachable_inv:
  assumes "svc_reachable cls w" "timestamped cls"
  shows "svc_inv cls w"
  using assms
proof (induction rule: svc_reachable.induct)
  case (init t)
  show ?case by (rule svc_inv_init)
next
  case (step w w')
  then show ?case by (blast intro: svc_step_keeps_inv)
qed

lemma timestamped_Product: "timestamped Product_class"
  by (simp add: timestamped_def field_names_def Product_class_def fld_def)

lemma svc_reachable_world1: "svc_reachable Product_class world1"
proof -
  have "svc_reachable Product_class world0" by (rule svc_reachable.init)
  moreover have "svc_step Product_class world0 world1"
    by (rule svc_step.create [OF create_shoe])
  ultimately show ?thesis by (rule svc_reachable.step)
qed

theorem svc_reachable_inv_witness: "svc_reachable Product_class world1 \<and> svc_inv Product_class world1"
  using svc_reachable_world1 svc_reachable_inv [OF svc_reachable_world1 timestamped_Product] by simp

text \<open>C17: in every world reachable by service steps, the class's collection
  satisfies the unique indexes the class declares: the server's index check on every
  save keeps them, and deletes cannot break them.\<close>

theorem svc_reachable_indexes:
  assumes "svc_reachable cls w"
  shows "indexes_ok (mc_indexes cls) (collections (db w) (mc_name cls))"
  using assms
proof (induction rule: svc_reachable.induct)
  case (init t)
  show ?case by (simp add: indexes_ok_def empty_store_def)
next
  case (step w w')
  from step.hyps(2) step.IH show ?case
  proof (induction rule: svc_step.induct)
    case (create f w d w')
    then show ?case by (auto elim!: service_create_cases intro: save_keeps_indexes)
  next
    case (update k p w d w')
    then show ?case by (auto elim!: service_update_cases intro: save_keeps_indexes)
  next
    case (delete k w w')
    then show ?case by (auto elim!: service_delete_cases simp: remove_collection intro: indexes_ok_delete)
  qed simp_all
qed

theorem svc_reachable_indexes_witness:
  "indexes_ok (mc_indexes Location_class) [(VObjectId 0, shop_location ''555-0100'' @ [(''_id'', VObjectId 0)])]"
proof -
  have "svc_reachable Location_class location_world"
    by (rule svc_reachable.step [OF svc_reachable.init svc_step.create [OF create_location]])
  from svc_reachable_indexes [OF this] show ?thesis by (simp add: empty_store_def)
qed

text \<open>C18: every document stored in a world reachable by service steps passes the
  class's validation, embedded documents included at every depth: create and update
  store only what \<open>save()\<close> validated, and delete removes whole documents. The
  primary key must not be an embedded field (no class of models.py declares one).\<close>

theorem svc_reachable_valid:
  assumes "svc_reachable cls w" "pk_plain cls"
  shows "\<forall>(k, d) \<in> set (collections (db w) (mc_name cls)). full_clean cls d = Inr d"
  using assms(1)
proof (induction rule: svc_reachable.induct)
  case (init t)
  show ?case by (simp add: empty_store_def)
next
  case (step w w')
  from step.hyps(2) step.IH show ?case
  proof (induction rule: svc_step.induct)
    case (create f w d w')
    then show ?case by (auto elim!: service_create_cases dest: save_keeps_valid [OF _ _ assms(2)])
  next
    case (update k p w d w')
    then show ?case by (auto elim!: service_update_cases dest: save_keeps_valid [OF _ _ assms(2)])
  next
    case (delete k w w')
    then show ?case by (auto elim!: service_delete_cases simp: remove_collection AList.delete_eq)
  qed simp_all
qed

theorem svc_reachable_valid_witness:
  "pk_plain Product_class \<and> full_clean Product_class shoe_saved = Inr shoe_saved"
proof -
  have p: "pk_plain Product_class" by code_simp
  have "\<forall>(k, d) \<in> set (collections (db world1) (mc_name Product_class)). full_clean Product_class d = Inr d"
    by (rule svc_reachable_valid [OF svc_reachable_world1 p])
  with p show ?thesis by (simp add: Product_class_def)
qed

text \<open>C19: across any service step, an entity that is present before and after under
  the same key has a \<open>last_updated\<close> that does not decrease.\<close>

theorem last_updated_monotone:
  assumes "svc_reachable cls w" "timestamped cls" "svc_step cls w w'"
    and "svc_abs cls w k = Some d" "svc_abs cls w' k = Some d'"
  shows "\<exists>t t'. map_of d ''last_updated'' = Some (VTime t) \<and>
                map_of d' ''last_updated'' = Some (VTime t') \<and> t \<le> t'"
proof -
  have inv: "svc_inv cls w" using assms(1,2) by (rule svc_reachable_inv)
  have inv': "svc_inv cls w'" using assms(3,2) inv by (rule svc_step_keeps_inv)
  have "stamped_at (clock w) d"
    using svc_inv_lookup [OF inv] assms(4) by (simp add: svc_abs_def doc_ok_def)
  then obtain t where t: "map_of d ''last_updated'' = Some (VTime t)" "t \<le> clock w"
    by (auto simp: stamped_at_iff)
  have "stamped_at (clock w') d'"
    using svc_inv_lookup [OF inv'] assms(5) by (simp add: svc_abs_def doc_ok_def)
  then obtain t' where t': "map_of d' ''last_updated'' = Some (VTime t')" "t' \<le> clock w'"
    by (auto simp: stamped_at_iff)
  have "t \<le> t'"
    using assms(3,4,5) t t'
  proof (induction rule: svc_step.induct)
    case (create f w d0 w')
    obtain d00 where sv: "save cls (stamp ''last_updated'' cls (clock w)
                              (stamp ''date_created'' cls (clock w) d00)) (db w) = Inr (d0, db w')"
      using create.hyps by (rule service_create_cases)
    show ?case
    proof (cases "k = pk_of cls d0")
      case True
      then have "d' = d0" using create.prems save_lookup_all [OF sv] by (simp add: svc_abs_def)
      then show ?thesis using create.prems save_stamped_now [OF assms(2) sv] by simp
    next
      case False
      then show ?thesis using create.prems save_lookup_all [OF sv] by (simp add: svc_abs_def)
    qed
  next
    case (update k0 p w d0 w')
    obtain x where sv: "save cls (stamp ''last_updated'' cls (clock w) x) (db w) = Inr (d0, db w')"
      using update.hyps by (rule service_update_cases)
    show ?case
    proof (cases "k = pk_of cls d0")
      case True
      then have "d' = d0" using update.prems save_lookup_all [OF sv] by (simp add: svc_abs_def)
      then show ?thesis using update.prems save_stamped_now [OF assms(2) sv] by simp
    next
      case False
      then show ?thesis using update.prems save_lookup_all [OF sv] by (simp add: svc_abs_def)
    qed
  next
    case (delete k0 w w')
    have rm: "remove (mc_name cls) k0 (db w) = Inr (db w')"
      using delete.hyps by (rule service_delete_cases)
    then show ?case using delete.prems by (simp add: svc_abs_def lookup_remove split: if_splits)
  next
    case (tick w t0)
    then show ?case by (simp add: svc_abs_def lookup_def)
  next
    case (link w b)
    then show ?case by (simp add: svc_abs_def lookup_def)
  qed
  with t t' show ?thesis by blast
qed

theorem last_updated_monotone_witness:
  "\<exists>t t'. map_of shoe_saved ''last_updated'' = Some (VTime t) \<and>
          map_of boot_saved ''last_updated'' = Some (VTime t') \<and> t \<le> t'"
proof -
  have step: "svc_step Product_class world1 world2"
    by (rule svc_step.update [OF update_boot])
  have "svc_abs Product_class world1 (VObjectId 0) = Some shoe_saved"
       "svc_abs Product_class world2 (VObjectId 0) = Some boot_saved"
    by (simp_all add: svc_abs_def lookup_def empty_store_def)
  then show ?thesis
    using last_updated_monotone [OF svc_reachable_world1 timestamped_Product step] by blast
qed

text \<open>C20: the service refines a map from keys to entities: \<open>create\<close> and
  \<open>update\<close> store the saved entity under its primary key, \<open>delete\<close> removes the
  key, and no other key changes (last write wins, no version check).\<close>

theorem service_refines_map:
  "(service_create cls kw w1 = Inr (d1, w1') \<longrightarrow>
      svc_abs cls w1' = (svc_abs cls w1)(pk_of cls d1 \<mapsto> d1)) \<and>
   (service_update cls k2 p w2 = Inr (d2, w2') \<longrightarrow>
      svc_abs cls w2' = (svc_abs cls w2)(pk_of cls d2 \<mapsto> d2)) \<and>
   (service_delete cls k3 w3 = Inr w3' \<longrightarrow>
      svc_abs cls w3' = (svc_abs cls w3)(k3 := None))"
proof (intro conjI impI)
  assume "service_create cls kw w1 = Inr (d1, w1')"
  then obtain x where "save cls x (db w1) = Inr (d1, db w1')"
    by (rule service_create_cases)
  then show "svc_abs cls w1' = (svc_abs cls w1)(pk_of cls d1 \<mapsto> d1)"
    by (simp add: svc_abs_def fun_eq_iff save_lookup_all)
next
  assume "service_update cls k2 p w2 = Inr (d2, w2')"
  then obtain x where "save cls x (db w2) = Inr (d2, db w2')"
    by (rule service_update_cases)
  then show "svc_abs cls w2' = (svc_abs cls w2)(pk_of cls d2 \<mapsto> d2)"
    by (simp add: svc_abs_def fun_eq_iff save_lookup_all)
next
  assume "service_delete cls k3 w3 = Inr w3'"
  then have "remove (mc_name cls) k3 (db w3) = Inr (db w3')"
    by (rule service_delete_cases)
  then show "svc_abs cls w3' = (svc_abs cls w3)(k3 := None)"
    by (simp add: svc_abs_def fun_eq_iff lookup_remove)
qed

theorem service_refines_map_witness:
  "svc_abs Product_class world1 = (svc_abs Product_class world0)(VObjectId 0 \<mapsto> shoe_saved) \<and>
   svc_abs Product_class world2 = (svc_abs Product_class world1)(VObjectId 0 \<mapsto> boot_saved) \<and>
   svc_abs Product_class world3 = (svc_abs Product_class world2)(VObjectId 0 := None)"
  using service_refines_map [of Product_class "[(''name'', VStr ''shoe''), (''user'', VObjectId 0)]"
          world0 shoe_saved world1 "VObjectId 0" "[(''name'', VStr ''boot'')]" world1 boot_saved world2
          "VObjectId 0" world2 world3]
        create_shoe update_boot delete_boot
  by (simp add: pk_of_Product_id attr_def)

section \<open>Concurrent updates: last write wins\<close>

lemma service_update_phases:
  "service_update cls k partial w = bind_result (service_read cls k w) (\<lambda>d. update_write cls d partial w)"
  by (simp add: service_update_def update_write_def)

lemma update_write_cases:
  assumes "update_write cls d partial w = Inr (d', w')"
  obtains p where "keep_known cls partial = Inr p"
    "save cls (stamp ''last_updated'' cls (clock w) (merge d p)) (db w) = Inr (d', db w')" "clock w' = clock w"
  using assms by (auto simp: update_write_def map_result_def bind_result_eq_Inr)

lemma keep_known_sub: "keep_known cls kw = Inr p \<Longrightarrow> set p \<subseteq> set kw"
proof (induction cls kw arbitrary: p rule: keep_known.induct)
  case (2 cls a v kw)
  then show ?case by (auto simp: map_result_def bind_result_eq_Inr split: if_splits)
qed simp

lemma merge_other: "a \<notin> set (keys_of p) \<Longrightarrow> map_of (merge d p) a = map_of d a"
proof (induction p arbitrary: d)
  case Nil then show ?case by (simp add: merge_def)
next
  case (Cons x p)
  then show ?case by (cases x) (simp add: merge_def update_conv')
qed

lemma save_attr_other: "save cls x st = Inr (d', st') \<Longrightarrow> a \<noteq> pk_name cls \<Longrightarrow> map_of d' a = map_of x a"
  by (erule save_cases) (auto simp: map_add_def split: option.splits)

text \<open>A write phase leaves every attribute the partial fields do not name as it was
  in the entity read, apart from \<open>last_updated\<close> and the primary key.\<close>

lemma update_write_other:
  assumes "update_write cls d partial w = Inr (d', w')" "a \<notin> set (keys_of partial)"
    "a \<noteq> ''last_updated''" "a \<noteq> pk_name cls"
  shows "map_of d' a = map_of d a"
proof -
  obtain p where p: "keep_known cls partial = Inr p"
    and s: "save cls (stamp ''last_updated'' cls (clock w) (merge d p)) (db w) = Inr (d', db w')"
    using assms(1) by (rule update_write_cases)
  have "a \<notin> set (keys_of p)" using image_mono [OF keep_known_sub [OF p], of fst] assms(2) by auto
  then show ?thesis
    using save_attr_other [OF s assms(4)] assms(3) by (simp add: stamp_other merge_other)
qed

lemma update_write_stored:
  "store_wf (db w) \<Longrightarrow> update_write cls d partial w = Inr (d', w') \<Longrightarrow>
   store_wf (db w') \<and> svc_abs cls w' = (svc_abs cls w)(pk_of cls d' \<mapsto> d')"
  by (erule update_write_cases) (auto simp: svc_abs_def fun_eq_iff save_lookup_all dest: save_wf)

lemma write_boot:
  "update_write Product_class shoe_saved [(''name'', VStr ''boot'')] world1 = Inr (boot_saved, world2)"
proof -
  have rd: "service_read Product_class (VObjectId 0) world1 = Inr shoe_saved"
    by (simp add: service_read_def raw_id_def empty_store_def)
  show ?thesis using update_boot by (simp only: service_update_phases rd bind_result_Inr)
qed

lemma write_sku:
  "update_write Product_class shoe_saved sku_update world2 = Inr (shoe_saved @ sku_update, world4)"
  "update_write Product_class boot_saved sku_update world2 = Inr (boot_saved @ sku_update, world5)"
proof -
  have kk: "keep_known Product_class sku_update = Inr sku_update" by code_simp
  have mg: "stamp ''last_updated'' Product_class 100 (merge shoe_saved sku_update) = shoe_saved @ sku_update"
    "stamp ''last_updated'' Product_class 100 (merge boot_saved sku_update) = boot_saved @ sku_update"
    by code_simp+
  have fc: "full_clean Product_class (shoe_saved @ sku_update) = Inr (shoe_saved @ sku_update)"
    "full_clean Product_class (boot_saved @ sku_update) = Inr (boot_saved @ sku_update)" by code_simp+
  have pk: "pk_name Product_class = ''_id''" by code_simp
  show "update_write Product_class shoe_saved sku_update world2 = Inr (shoe_saved @ sku_update, world4)"
    by (simp only: update_write_def kk bind_result_Inr world.select_convs mg save_def fc)
       (simp add: pk upsert_def empty_store_def)
  show "update_write Product_class boot_saved sku_update world2 = Inr (boot_saved @ sku_update, world5)"
    by (simp only: update_write_def kk bind_result_Inr world.select_convs mg save_def fc)
       (simp add: pk upsert_def empty_store_def)
qed

text \<open>C21: last write wins (spec section 5). When two clients update the same entity
  and both read it before either writes, the first write is returned as if it ran
  alone, and the second stores its own fields merged onto the version both read:
  every attribute it does not set (other than \<open>last_updated\<close> and the primary
  key) is back to its value before either update, so the first client's change to it
  is lost. Run one after the other, the second update keeps what the first wrote.\<close>

theorem concurrent_updates_last_write_wins:
  assumes "store_wf (db w)" "service_read cls k w = Inr d"
    and "interleaved_updates cls k pA pB w = Inr (rA, rB, w2)"
    and "service_update cls k pA w = Inr (sA, w1)" "service_update cls (pk_of cls sA) pB w1 = Inr (sB, w3)"
    and "a \<notin> set (keys_of pB)" "a \<noteq> ''last_updated''" "a \<noteq> pk_name cls"
  shows "rA = sA \<and> svc_abs cls w2 (pk_of cls rB) = Some rB \<and> map_of rB a = map_of d a \<and>
         map_of sB a = map_of sA a"
proof -
  obtain w1' where wA: "update_write cls d pA w = Inr (rA, w1')" and wB: "update_write cls d pB w1' = Inr (rB, w2)"
    using assms(2,3) by (auto simp: interleaved_updates_def map_result_def bind_result_eq_Inr)
  have sA: "update_write cls d pA w = Inr (sA, w1)"
    using assms(2,4) by (simp add: service_update_phases)
  have stA: "store_wf (db w1') \<and> svc_abs cls w1' = (svc_abs cls w)(pk_of cls rA \<mapsto> rA)"
    using update_write_stored [OF assms(1) wA] .
  have stS: "store_wf (db w1) \<and> svc_abs cls w1 = (svc_abs cls w)(pk_of cls sA \<mapsto> sA)"
    using update_write_stored [OF assms(1) sA] .
  obtain dB where rdB: "service_read cls (pk_of cls sA) w1 = Inr dB" and wB': "update_write cls dB pB w1 = Inr (sB, w3)"
    using assms(5) by (auto simp: service_update_phases bind_result_eq_Inr)
  have "dB = sA"
    using service_read_Inr [OF rdB] stS by (simp add: svc_abs_def)
  then show ?thesis
    using wA sA update_write_stored [OF conjunct1 [OF stA] wB] update_write_other [OF wB assms(6,7,8)]
          update_write_other [OF wB' assms(6,7,8)]
    by simp
qed

theorem concurrent_updates_last_write_wins_witness:
  "interleaved_updates Product_class (VObjectId 0) [(''name'', VStr ''boot'')] sku_update world1 =
     Inr (boot_saved, shoe_saved @ sku_update, world4) \<and>
   map_of (shoe_saved @ sku_update) ''name'' = Some (VStr ''shoe'') \<and>
   service_update Product_class (VObjectId 0) sku_update world2 = Inr (boot_saved @ sku_update, world5) \<and>
   map_of (boot_saved @ sku_update) ''name'' = Some (VStr ''boot'')"
proof -
  have rd: "service_read Product_class (VObjectId 0) world1 = Inr shoe_saved"
    by (simp add: service_read_def raw_id_def empty_store_def)
  have rd2: "service_read Product_class (VObjectId 0) world2 = Inr boot_saved"
    by (simp add: service_read_def raw_id_def empty_store_def)
  have il: "interleaved_updates Product_class (VObjectId 0) [(''name'', VStr ''boot'')] sku_update world1 =
     Inr (boot_saved, shoe_saved @ sku_update, world4)"
    by (simp only: interleaved_updates_def rd bind_result_Inr write_boot write_sku map_result_simps prod.case)
  have su: "service_update Product_class (VObjectId 0) sku_update world2 = Inr (boot_saved @ sku_update, world5)"
    by (simp only: service_update_phases rd2 bind_result_Inr write_sku)
  have pk: "pk_of Product_class boot_saved = VObjectId 0" "pk_name Product_class = ''_id''"
    by code_simp+
  have wf: "store_wf (db world1)" by (simp add: store_wf_def empty_store_def)
  have su': "service_update Product_class (pk_of Product_class boot_saved) sku_update world2 =
      Inr (boot_saved @ sku_update, world5)"
    using su pk(1) by simp
  show ?thesis
    using concurrent_updates_last_write_wins [OF wf rd il update_boot su', of "''name''"] il su pk(2)
    by simp
qed

section \<open>Registration of a product\<close>

lemma keep_known_all:
  "set (keys_of kw) \<subseteq> set (attr_names cls) \<Longrightarrow> keep_known cls kw = Inr kw"
  by (induction cls kw rule: keep_known.induct) auto

lemma with_defaults_absent:
  assumes "map_of d a = None" "\<forall>f \<in> set (mc_fields cls). fd_name f = a \<longrightarrow> fd_default f = NoDefault"
  shows "map_of (with_defaults cls now d) a = None"
  using assms
  by (auto simp: with_defaults_def map_of_eq_None_iff default_value_def split: option.splits)

lemma service_create_missing_required:
  assumes "f \<in> set (mc_fields cls)" "fd_required f" "fd_name f \<notin> {''date_created'', ''last_updated''}"
    and "\<forall>g \<in> set (mc_fields cls). fd_name g = fd_name f \<longrightarrow> fd_default g = NoDefault"
    and "map_of kw (fd_name f) = None" "set (keys_of kw) \<subseteq> set (attr_names cls)"
  shows "\<exists>msg. service_create cls kw w = Inl (ValidationError msg)"
proof -
  let ?d = "with_defaults cls (clock w) kw"
  let ?x = "stamp ''last_updated'' cls (clock w) (stamp ''date_created'' cls (clock w) ?d)"
  have inst: "instantiate cls (clock w) kw = Inr ?d"
    using assms(6) by (simp add: instantiate_def keep_known_all)
  have "map_of ?x (fd_name f) = None"
    using with_defaults_absent [OF assms(5,4)] assms(3) by (simp add: stamp_other)
  then obtain msg where "full_clean cls ?x = Inl (ValidationError msg)"
    using full_clean_required [OF assms(1,2)] by blast
  then show ?thesis
    using inst by (auto simp: service_create_def save_def)
qed

lemma register_is_create: "ProductService_register kw w = service_create Product_class kw w"
  by (simp add: ProductService_register_def BaseProductService_def create_service_def)

lemma create_Product_missing_name:
  assumes "map_of kw ''name'' = None" "set (keys_of kw) \<subseteq> set (attr_names Product_class)"
  shows "\<exists>msg. service_create Product_class kw w = Inl (ValidationError msg)"
proof (rule service_create_missing_required [of "mandatory (fld ''name'' CharField)"])
  show "mandatory (fld ''name'' CharField) \<in> set (mc_fields Product_class)"
    by (simp add: Product_class_def)
  show "\<forall>g \<in> set (mc_fields Product_class). fd_name g = fd_name (mandatory (fld ''name'' CharField)) \<longrightarrow>
          fd_default g = NoDefault"
    by (simp add: Product_class_def fld_def)
qed (use assms in \<open>simp_all add: fld_def\<close>)

text \<open>\<open>ProductService.register\<close> is the generic \<open>create\<close> of the Product service;
  called without a \<open>name\<close> (and with no unknown keyword) it fails with a
  \<open>ValidationError\<close> and stores nothing.\<close>

lemma register_requires_name:
  assumes "map_of kw ''name'' = None" "set (keys_of kw) \<subseteq> set (attr_names Product_class)"
  shows "\<exists>msg. ProductService_register kw w = Inl (ValidationError msg)"
  using create_Product_missing_name [OF assms] by (simp add: register_is_create)

end
