(* ===== verification/Auth.thy ===== *)
theory Auth
  imports Service
begin

text \<open>
  The Credential and Token Lifecycle (\<open>User.set_password\<close>,
  \<open>User.check_password\<close> and the \<open>User.auth_token\<close> property, \<open>src/src/models.py\<close>
  lines 98--149) and the Authentication Gate. The libraries are modelled at their
  interface: bcrypt's \<open>hashpw\<close> keeps the 29-character salt prefix of its salt
  argument (\<open>$2b$12$\<close> and 22 salt characters), appends the digest \<open>kdf\<close> of
  the first 72 bytes of the password, and \<open>checkpw\<close> rehashes with the stored
  prefix and compares; \<open>gensalt()\<close> is an input. PyJWT's \<open>encode\<close> signs the
  payload with a MAC of key and algorithm, \<open>decode\<close> checks the algorithm, the
  signature and then the expiry (\<open>exp \<le> now\<close> is expired, no leeway).
  \<open>datetime.now()\<close> is local time: the UTC instant plus the server's offset
  \<open>tz\<close>. The gate, \<open>AuthMiddleware\<close> of \<open>src/base/middleware.py\<close>, is not in
  the repository and follows spec section 4.4; its allow-list is the one
  \<open>src/app.py\<close> passes. Python strings are byte strings here (\<open>char\<close> is a
  byte), so \<open>encode("utf-8")\<close> of a \<open>str\<close> is the identity.
\<close>

section \<open>Python helpers\<close>

text \<open>Python truthiness, for \<open>if not password\<close>.\<close>

fun py_truthy :: "pyval \<Rightarrow> bool" where
  "py_truthy VNone = False"
| "py_truthy (VStr s) = (s \<noteq> [])"
| "py_truthy (VBytes b) = (b \<noteq> [])"
| "py_truthy (VInt i) = (i \<noteq> 0)"
| "py_truthy (VFloat r) = (r \<noteq> 0)"
| "py_truthy (VBool b) = b"
| "py_truthy (VList xs) = (xs \<noteq> [])"
| "py_truthy (VDict d) = (d \<noteq> [])"
| "py_truthy _ = True"

definition is_str_or_bytes :: "pyval \<Rightarrow> bool" where
  "is_str_or_bytes v = (case v of VStr _ \<Rightarrow> True | VBytes _ \<Rightarrow> True | _ \<Rightarrow> False)"

text \<open>\<open>password.encode("utf-8")\<close>: \<open>bytes\<close> has no \<open>encode\<close> method.\<close>

definition py_encode :: "pyval \<Rightarrow> string result" where
  "py_encode v = (case v of VStr s \<Rightarrow> Inr s | _ \<Rightarrow> Inl (AttributeError ''encode''))"

text \<open>\<open>str(ObjectId)\<close>: 24 lowercase hexadecimal digits.\<close>

definition hex_char :: "nat \<Rightarrow> char" where
  "hex_char d = ''0123456789abcdef'' ! d"

fun hex_digits :: "nat \<Rightarrow> nat \<Rightarrow> string" where
  "hex_digits 0 n = []"
| "hex_digits (Suc w) n = hex_digits w (n div 16) @ [hex_char (n mod 16)]"

definition oid_str :: "nat \<Rightarrow> string" where
  "oid_str n = hex_digits 24 n"

text \<open>\<open>ObjectId(s)\<close> on a hexadecimal string, the inverse the gate's consumers use
  to find the user of a token's \<open>id\<close>.\<close>

definition hex_val :: "char \<Rightarrow> nat" where
  "hex_val c = (case find (\<lambda>i. ''0123456789abcdef'' ! i = c) [0..<16] of Some i \<Rightarrow> i | None \<Rightarrow> 0)"

definition parse_hex :: "string \<Rightarrow> nat" where
  "parse_hex s = foldl (\<lambda>acc c. 16 * acc + hex_val c) 0 s"

definition id_str :: "pyval \<Rightarrow> string" where
  "id_str v = (case v of VObjectId n \<Rightarrow> oid_str n | _ \<Rightarrow> py_str v)"

section \<open>bcrypt\<close>

definition nul_free :: "string \<Rightarrow> bool" where
  "nul_free s \<longleftrightarrow> CHR 0x00 \<notin> set s"

text \<open>A salt bcrypt accepts: 29 characters of the form \<open>$2b$12$...\<close>; the C library reads
  it as a NUL-terminated string, so a salt with a NUL byte is invalid.\<close>

definition valid_salt :: "string \<Rightarrow> bool" where
  "valid_salt s \<longleftrightarrow> length s = 29 \<and> take 4 s \<in> set [''$2a$'', ''$2b$'', ''$2y$''] \<and> nul_free s"

text \<open>bcrypt 3.x \<open>hashpw\<close>: a password with a NUL byte raises \<open>ValueError\<close>; otherwise
  the key derivation \<open>kdf\<close> reads the first 72 bytes, and the result is the C string
  \<open>ffi.string(hashed)\<close>, which ends at the first NUL byte of the buffer.\<close>

definition bcrypt_hashpw :: "(string \<Rightarrow> string \<Rightarrow> string) \<Rightarrow> string \<Rightarrow> string \<Rightarrow> string result" where
  "bcrypt_hashpw kdf pw salt =
     (if \<not> nul_free pw then Inl (ValueError ''password may not contain NUL bytes'')
      else let cfg = take 29 salt in
           if valid_salt cfg then Inr (takeWhile (\<lambda>c. c \<noteq> CHR 0x00) (cfg @ kdf (take 72 pw) cfg))
           else Inl (ValueError ''Invalid salt''))"

text \<open>bcrypt 3.x \<open>checkpw\<close>: a NUL byte in the password or in the stored hash raises
  \<open>ValueError\<close>; otherwise the password is hashed with the stored hash as salt and
  the results are compared.\<close>

definition bcrypt_checkpw :: "(string \<Rightarrow> string \<Rightarrow> string) \<Rightarrow> string \<Rightarrow> string \<Rightarrow> bool result" where
  "bcrypt_checkpw kdf pw hashed =
     (if \<not> nul_free pw \<or> \<not> nul_free hashed
      then Inl (ValueError ''password and hashed_password may not contain NUL bytes'')
      else map_result (\<lambda>h. h = hashed) (bcrypt_hashpw kdf pw hashed))"

text \<open>What a hash keeps of the key derivation: its output up to the first NUL byte.\<close>

abbreviation bcrypt_digest :: "(string \<Rightarrow> string \<Rightarrow> string) \<Rightarrow> string \<Rightarrow> string \<Rightarrow> string" where
  "bcrypt_digest kdf pw cfg \<equiv> takeWhile (\<lambda>c. c \<noteq> CHR 0x00) (kdf (take 72 pw) cfg)"

section \<open>User credentials\<close>

definition password_guard :: "pyval \<Rightarrow> bool" where
  "password_guard password \<longleftrightarrow> py_truthy password \<and> is_str_or_bytes password"

definition User_set_password ::
  "(string \<Rightarrow> string \<Rightarrow> string) \<Rightarrow> string \<Rightarrow> pyval \<Rightarrow> doc \<Rightarrow> world \<Rightarrow> (doc \<times> world) result" where
  "User_set_password kdf salt password self w =
     (if \<not> password_guard password
      then Inl (ValueError ''Password must be non-empty string or bytes value'')
      else bind_result (py_encode password) (\<lambda>pw.
             bind_result (bcrypt_hashpw kdf pw salt) (\<lambda>hashed.
               let self' = AList.update ''last_updated'' (VTime (clock w))
                             (AList.update ''password'' (VStr hashed) self)
               in map_result (\<lambda>(d, st). (d, w\<lparr>db := st\<rparr>)) (save User_class self' (db w)))))"

definition User_check_password :: "(string \<Rightarrow> string \<Rightarrow> string) \<Rightarrow> pyval \<Rightarrow> doc \<Rightarrow> bool result" where
  "User_check_password kdf password self =
     (if \<not> password_guard password
      then Inl (ValueError ''Password must be non-empty string or bytes value'')
      else bind_result (py_encode password) (\<lambda>pw.
             case map_of self ''password'' of
               Some (VStr stored) \<Rightarrow> bcrypt_checkpw kdf pw stored
             | _ \<Rightarrow> Inl (AttributeError ''encode'')))"

section \<open>Tokens\<close>

record jwt_config =
  jwt_secret :: string
  jwt_algorithm :: string
  jwt_expires_in_hours :: int

record jwt_token =
  tok_alg :: string
  tok_payload :: doc
  tok_signature :: string

text \<open>\<open>jwt.encode\<close> with a MAC \<open>mac key alg payload\<close>.\<close>

definition jwt_encode :: "(string \<Rightarrow> string \<Rightarrow> doc \<Rightarrow> string) \<Rightarrow> string \<Rightarrow> string \<Rightarrow> doc \<Rightarrow> jwt_token" where
  "jwt_encode mac key alg payload =
     \<lparr>tok_alg = alg, tok_payload = payload, tok_signature = mac key alg payload\<rparr>"

text \<open>The states of a token at validation time (spec section 4.3).\<close>

datatype token_state = Valid doc | Expired | Invalid

definition jwt_decode ::
  "(string \<Rightarrow> string \<Rightarrow> doc \<Rightarrow> string) \<Rightarrow> string \<Rightarrow> string \<Rightarrow> int \<Rightarrow> jwt_token \<Rightarrow> token_state" where
  "jwt_decode mac key alg now tok =
     (if tok_alg tok \<noteq> alg \<or> tok_signature tok \<noteq> mac key alg (tok_payload tok) then Invalid
      else case map_of (tok_payload tok) ''exp'' of
             None \<Rightarrow> Valid (tok_payload tok)
           | Some (VTime expiry) \<Rightarrow> if expiry \<le> now then Expired else Valid (tok_payload tok)
           | Some _ \<Rightarrow> Invalid)"

text \<open>\<open>User.auth_token\<close> at UTC instant \<open>utc\<close> on a server whose local time is
  \<open>tz\<close> seconds ahead of UTC.\<close>

definition User_auth_token ::
  "(string \<Rightarrow> string \<Rightarrow> doc \<Rightarrow> string) \<Rightarrow> jwt_config \<Rightarrow> int \<Rightarrow> int \<Rightarrow> doc \<Rightarrow> jwt_token result" where
  "User_auth_token mac cfg utc tz self =
     (if \<not> py_truthy (pk_of User_class self)
      then Inl (ValueError ''Cannot generate token for unsaved object'')
      else
        let expires_in = (utc + tz) + 3600 * jwt_expires_in_hours cfg;
            payload = [(''first_name'', attr self ''first_name''), (''last_name'', attr self ''last_name''),
                       (''id'', VStr (id_str (pk_of User_class self))), (''exp'', VTime expires_in)]
        in Inr (jwt_encode mac (jwt_secret cfg) (jwt_algorithm cfg) payload))"

section \<open>The authentication gate\<close>

record request =
  req_path :: string
  req_token :: "jwt_token option"
  req_identity :: "doc option"

text \<open>A request either reaches the handler \<open>next\<close>, which may change the world, or
  is answered by the gate with \<open>AuthError\<close> and the world unchanged.\<close>

definition auth_gate ::
  "string list \<Rightarrow> (string \<Rightarrow> string \<Rightarrow> doc \<Rightarrow> string) \<Rightarrow> jwt_config \<Rightarrow>
   (request \<Rightarrow> world \<Rightarrow> 'r \<times> world) \<Rightarrow> request \<Rightarrow> world \<Rightarrow> ('r \<times> world) result" where
  "auth_gate ignored mac cfg next req w =
     (if req_path req \<in> set ignored then Inr (next req w)
      else case req_token req of
             None \<Rightarrow> Inl (AuthError ''missing token'')
           | Some tok \<Rightarrow>
               (case jwt_decode mac (jwt_secret cfg) (jwt_algorithm cfg) (clock w) tok of
                  Valid claims \<Rightarrow> Inr (next (req\<lparr>req_identity := Some claims\<rparr>) w)
                | Expired \<Rightarrow> Inl (AuthError ''token expired'')
                | Invalid \<Rightarrow> Inl (AuthError ''invalid token'')))"

text \<open>\<open>app.wsgi_app = AuthMiddleware(app.wsgi_app, ..., ignored_endpoints=[...])\<close>.\<close>

definition app_ignored_endpoints :: "string list" where
  "app_ignored_endpoints = [''/register'', ''/login'', ''/options'', ''/features'', ''/apartments'']"

definition app_gate ::
  "(string \<Rightarrow> string \<Rightarrow> doc \<Rightarrow> string) \<Rightarrow> jwt_config \<Rightarrow>
   (request \<Rightarrow> world \<Rightarrow> 'r \<times> world) \<Rightarrow> request \<Rightarrow> world \<Rightarrow> ('r \<times> world) result" where
  "app_gate mac cfg next req w = auth_gate app_ignored_endpoints mac cfg next req w"

text \<open>The routes of \<open>app.py\<close>: \<open>add_resource(register, '/register')\<close> and
  \<open>add_resource(login, '/login')\<close>, each path with the resource class it serves
  (the resources are in \<open>src/resources/auth.py\<close>, which is not in the repository).\<close>

definition app_routes :: "(string \<times> string) list" where
  "app_routes = [(''/register'', ''RegisterResource''), (''/login'', ''LoginResource'')]"

text \<open>Example data for the witnesses: a saved user, the salt \<open>gensalt()\<close> returned,
  and the identity digest (injective, as a collision-free hash is assumed to be).\<close>

abbreviation alice :: doc where
  "alice \<equiv> [(''email'', VStr ''alice@example.com''), (''date_created'', VTime 100),
            (''last_updated'', VTime 100), (''_id'', VObjectId 0)]"

abbreviation demo_salt :: string where
  "demo_salt \<equiv> ''$2b$12$abcdefghijklmnopqrstuv''"

abbreviation alice_with :: "string \<Rightarrow> doc" where
  "alice_with h \<equiv> alice @ [(''password'', VStr h)]"

abbreviation user_world :: "doc \<Rightarrow> world" where
  "user_world d \<equiv> world0\<lparr>db := (db world0)\<lparr>collections := (\<lambda>_. [])(''User'' := [(VObjectId 0, d)])\<rparr>\<rparr>"

abbreviation demo_mac :: "string \<Rightarrow> string \<Rightarrow> doc \<Rightarrow> string" where
  "demo_mac k a p \<equiv> k @ a @ concat (map fst p)"

abbreviation demo_cfg :: jwt_config where
  "demo_cfg \<equiv> \<lparr>jwt_secret = ''s3cret'', jwt_algorithm = ''HS256'', jwt_expires_in_hours = 1\<rparr>"

section \<open>Properties of the credentials\<close>

lemma valid_salt_length: "valid_salt s \<Longrightarrow> length s = 29"
  by (simp add: valid_salt_def)

lemma digest_nul_free: "nul_free (bcrypt_digest kdf pw cfg)"
  by (auto simp: nul_free_def dest: set_takeWhileD)

lemma nul_free_takeWhile: "nul_free x \<Longrightarrow> takeWhile (\<lambda>c. c \<noteq> CHR 0x00) x = x"
  by (auto simp: nul_free_def takeWhile_eq_all_conv)

lemma hashpw_take: "bcrypt_hashpw kdf pw (take 29 h) = bcrypt_hashpw kdf pw h"
  by (simp add: bcrypt_hashpw_def)

lemma hashpw_valid:
  assumes "valid_salt salt" "nul_free pw"
  shows "bcrypt_hashpw kdf pw salt = Inr (salt @ bcrypt_digest kdf pw salt)"
proof -
  have l: "take 29 salt = salt" using valid_salt_length [OF assms(1)] by simp
  have "takeWhile (\<lambda>c. c \<noteq> CHR 0x00) (salt @ x) = salt @ takeWhile (\<lambda>c. c \<noteq> CHR 0x00) x" for x
    by (rule takeWhile_append2) (use assms(1) in \<open>auto simp: valid_salt_def nul_free_def\<close>)
  then show ?thesis using assms by (simp add: bcrypt_hashpw_def l)
qed

lemma checkpw_hash:
  assumes "valid_salt salt" "nul_free q"
  shows "bcrypt_checkpw kdf q (salt @ bcrypt_digest kdf p salt) =
           Inr (bcrypt_digest kdf q salt = bcrypt_digest kdf p salt)"
proof -
  have "take 29 (salt @ bcrypt_digest kdf p salt) = salt"
    using valid_salt_length [OF assms(1)] by simp
  then have "bcrypt_hashpw kdf q (salt @ bcrypt_digest kdf p salt) = Inr (salt @ bcrypt_digest kdf q salt)"
    using hashpw_valid [OF assms] hashpw_take [of kdf q "salt @ bcrypt_digest kdf p salt"] by simp
  moreover have "nul_free (salt @ bcrypt_digest kdf p salt)"
    using assms(1) digest_nul_free [of kdf p salt] by (simp add: valid_salt_def nul_free_def)
  ultimately show ?thesis using assms(2) by (simp add: bcrypt_checkpw_def)
qed

lemma checkpw_nul: "\<not> nul_free q \<Longrightarrow>
   bcrypt_checkpw kdf q h = Inl (ValueError ''password and hashed_password may not contain NUL bytes'')"
  by (simp add: bcrypt_checkpw_def)

lemma set_password_cases:
  assumes "valid_salt salt" "User_set_password kdf salt password self w = Inr (self', w')"
  obtains p where "password = VStr p" "p \<noteq> []" "nul_free p"
    "map_of self' ''password'' = Some (VStr (salt @ bcrypt_digest kdf p salt))"
    "save User_class (AList.update ''last_updated'' (VTime (clock w))
        (AList.update ''password'' (VStr (salt @ bcrypt_digest kdf p salt)) self)) (db w) = Inr (self', db w')"
proof -
  have "\<exists>p. password = VStr p \<and> p \<noteq> []"
  proof (cases password)
    case (VStr p)
    with assms(2) show ?thesis
      by (auto simp: User_set_password_def password_guard_def split: if_splits)
  next
    case (VBytes b)
    with assms(2) show ?thesis
      by (auto simp: User_set_password_def password_guard_def is_str_or_bytes_def py_encode_def
               split: if_splits)
  qed (use assms(2) in \<open>auto simp: User_set_password_def password_guard_def is_str_or_bytes_def\<close>)
  then obtain p where pw: "password = VStr p" "p \<noteq> []" by blast
  have nf: "nul_free p"
  proof (rule ccontr)
    assume "\<not> nul_free p"
    then have "bcrypt_hashpw kdf p salt = Inl (ValueError ''password may not contain NUL bytes'')"
      by (simp add: bcrypt_hashpw_def)
    with assms(2) pw show False
      by (simp add: User_set_password_def password_guard_def is_str_or_bytes_def py_encode_def)
  qed
  let ?h = "salt @ bcrypt_digest kdf p salt"
  let ?self = "AList.update ''last_updated'' (VTime (clock w)) (AList.update ''password'' (VStr ?h) self)"
  have sv: "save User_class ?self (db w) = Inr (self', db w')"
    using assms pw nf
    by (auto simp: User_set_password_def password_guard_def is_str_or_bytes_def py_encode_def
                   hashpw_valid Let_def map_result_def bind_result_eq_Inr)
  have "map_of ?self ''password'' = Some (VStr ?h)" by (simp add: update_conv')
  then have "map_of self' ''password'' = Some (VStr ?h)" by (rule save_keeps_attrs [OF sv])
  with pw nf sv that show thesis by blast
qed

lemma check_password_str:
  "q \<noteq> [] \<Longrightarrow> map_of self ''password'' = Some (VStr h) \<Longrightarrow>
   User_check_password kdf (VStr q) self = bcrypt_checkpw kdf q h"
  by (simp add: User_check_password_def password_guard_def is_str_or_bytes_def py_encode_def)

text \<open>C22: after \<open>set_password(p)\<close>, \<open>check_password(p)\<close> is true.\<close>

theorem set_then_check_password:
  assumes "valid_salt salt" "User_set_password kdf salt (VStr p) self w = Inr (self', w')"
  shows "User_check_password kdf (VStr p) self' = Inr True"
proof -
  obtain p' where "VStr p = VStr p'" "p' \<noteq> []" "nul_free p'"
      "map_of self' ''password'' = Some (VStr (salt @ bcrypt_digest kdf p' salt))"
    using assms by (rule set_password_cases)
  with assms(1) show ?thesis by (simp add: check_password_str checkpw_hash)
qed

lemma nul_free_take: "nul_free p \<Longrightarrow> takeWhile (\<lambda>c. c \<noteq> CHR 0x00) (take 72 p) = take 72 p"
  by (rule nul_free_takeWhile) (auto simp: nul_free_def dest: in_set_takeD)

lemma demo_salt_valid: "valid_salt demo_salt"
  by (simp add: valid_salt_def nul_free_def)

lemma set_password_alice:
  assumes "p \<noteq> []" "nul_free p"
  shows "User_set_password (\<lambda>x s. x) demo_salt (VStr p) alice world0 =
         Inr (alice_with (demo_salt @ take 72 p), user_world (alice_with (demo_salt @ take 72 p)))"
proof -
  have h: "bcrypt_hashpw (\<lambda>x s. x) p demo_salt = Inr (demo_salt @ take 72 p)"
    using hashpw_valid [OF demo_salt_valid assms(2)] nul_free_take [OF assms(2)] by simp
  have fc: "full_clean User_class (alice_with (demo_salt @ take 72 p)) = Inr (alice_with (demo_salt @ take 72 p))"
    by (simp add: full_clean_def User_class_def fld_def clean_field_def map_filter_def)
  have pk: "pk_name User_class = ''_id''" by code_simp
  show ?thesis
    using assms
    by (simp add: User_set_password_def password_guard_def is_str_or_bytes_def py_encode_def h
                  save_def fc[simplified] pk upsert_def empty_store_def Let_def)
qed

theorem set_then_check_password_witness:
  "User_set_password (\<lambda>x s. x) demo_salt (VStr ''hunter2'') alice world0 =
     Inr (alice_with (demo_salt @ ''hunter2''), user_world (alice_with (demo_salt @ ''hunter2''))) \<and>
   User_check_password (\<lambda>x s. x) (VStr ''hunter2'') (alice_with (demo_salt @ ''hunter2'')) = Inr True"
proof -
  have set: "User_set_password (\<lambda>x s. x) demo_salt (VStr ''hunter2'') alice world0 =
     Inr (alice_with (demo_salt @ ''hunter2''), user_world (alice_with (demo_salt @ ''hunter2'')))"
    using set_password_alice [of "''hunter2''"] by (simp add: nul_free_def)
  show ?thesis using set set_then_check_password [OF demo_salt_valid set] by simp
qed

text \<open>C23: bcrypt reads only the first 72 bytes of the password and refuses NUL
  bytes. After \<open>set_password(p)\<close>, \<open>check_password(q)\<close> for a non-empty \<open>q\<close> raises
  \<open>ValueError\<close> when \<open>q\<close> contains a NUL byte; otherwise it is true for every \<open>q\<close>
  that agrees with \<open>p\<close> in the first 72 bytes, even when \<open>q \<noteq> p\<close> (spec section 8
  says it is false for every other password), and, with a key derivation that is
  collision-free on NUL-free input, true exactly for those \<open>q\<close>.\<close>

theorem check_password_first_72_bytes:
  assumes "valid_salt salt" "User_set_password kdf salt (VStr p) self w = Inr (self', w')" "q \<noteq> []"
  shows "(\<not> nul_free q \<longrightarrow> User_check_password kdf (VStr q) self' =
            Inl (ValueError ''password and hashed_password may not contain NUL bytes'')) \<and>
         (nul_free q \<and> take 72 q = take 72 p \<longrightarrow> User_check_password kdf (VStr q) self' = Inr True) \<and>
         (nul_free q \<and> (\<forall>s. inj_on (\<lambda>x. takeWhile (\<lambda>c. c \<noteq> CHR 0x00) (kdf x s)) {x. nul_free x}) \<longrightarrow>
            User_check_password kdf (VStr q) self' = Inr (take 72 q = take 72 p))"
proof -
  obtain p' where p: "VStr p = VStr p'" "nul_free p'"
      and h: "map_of self' ''password'' = Some (VStr (salt @ bcrypt_digest kdf p' salt))"
    using assms(1,2) by (rule set_password_cases)
  have chk: "nul_free q \<Longrightarrow>
      User_check_password kdf (VStr q) self' = Inr (bcrypt_digest kdf q salt = bcrypt_digest kdf p salt)"
    using h p assms(1,3) by (simp add: check_password_str checkpw_hash)
  show ?thesis
  proof (intro conjI impI)
    assume "\<not> nul_free q"
    then show "User_check_password kdf (VStr q) self' =
        Inl (ValueError ''password and hashed_password may not contain NUL bytes'')"
      using h assms(3) by (simp add: check_password_str checkpw_nul)
  next
    assume "nul_free q \<and> take 72 q = take 72 p"
    then show "User_check_password kdf (VStr q) self' = Inr True" using chk by simp
  next
    assume a: "nul_free q \<and> (\<forall>s. inj_on (\<lambda>x. takeWhile (\<lambda>c. c \<noteq> CHR 0x00) (kdf x s)) {x. nul_free x})"
    have "nul_free (take 72 q)" "nul_free (take 72 p)"
      using a p by (auto simp: nul_free_def dest: in_set_takeD)
    then have "bcrypt_digest kdf q salt = bcrypt_digest kdf p salt \<longleftrightarrow> take 72 q = take 72 p"
      using a by (auto dest: inj_onD)
    then show "User_check_password kdf (VStr q) self' = Inr (take 72 q = take 72 p)" using chk a by simp
  qed
qed

theorem check_password_first_72_bytes_witness:
  "User_check_password (\<lambda>x s. x) (VStr ''hunter3'') (alice_with (demo_salt @ ''hunter2'')) = Inr False \<and>
   User_check_password (\<lambda>x s. x) (VStr (replicate 72 CHR ''a'' @ ''2''))
     (alice_with (demo_salt @ replicate 72 CHR ''a'')) = Inr True \<and>
   User_check_password (\<lambda>x s. x) (VStr (replicate 72 CHR ''a'' @ [CHR 0x00]))
     (alice_with (demo_salt @ replicate 72 CHR ''a'')) =
     Inl (ValueError ''password and hashed_password may not contain NUL bytes'')"
proof -
  have set: "User_set_password (\<lambda>x s. x) demo_salt (VStr ''hunter2'') alice world0 =
     Inr (alice_with (demo_salt @ ''hunter2''), user_world (alice_with (demo_salt @ ''hunter2'')))"
    using set_password_alice [of "''hunter2''"] by (simp add: nul_free_def)
  have set72: "User_set_password (\<lambda>x s. x) demo_salt (VStr (replicate 72 CHR ''a'' @ ''1'')) alice world0 =
     Inr (alice_with (demo_salt @ replicate 72 CHR ''a''), user_world (alice_with (demo_salt @ replicate 72 CHR ''a'')))"
    using set_password_alice [of "replicate 72 CHR ''a'' @ ''1''"] by (simp add: nul_free_def)
  have inj: "\<forall>s. inj_on (\<lambda>x::string. takeWhile (\<lambda>c. c \<noteq> CHR 0x00) x) {x. nul_free x}"
    by (auto simp: inj_on_def nul_free_takeWhile)
  have nf: "nul_free ''hunter3''" "nul_free (replicate 72 CHR ''a'' @ ''2'')"
           "\<not> nul_free (replicate 72 CHR ''a'' @ [CHR 0x00])"
    by (simp_all add: nul_free_def)
  show ?thesis
    using check_password_first_72_bytes [OF demo_salt_valid set, of "''hunter3''"]
          check_password_first_72_bytes [OF demo_salt_valid set72, of "replicate 72 CHR ''a'' @ ''2''"]
          check_password_first_72_bytes [OF demo_salt_valid set72, of "replicate 72 CHR ''a'' @ [CHR 0x00]"]
          inj nf
    by simp
qed

text \<open>C24: the input errors of both password methods. An empty password, \<open>None\<close>
  or a non-string value fails the guard with \<open>ValueError\<close>, before any hashing or
  store access; a non-empty \<open>bytes\<close> password passes the guard (which admits
  \<open>str\<close> and \<open>bytes\<close>) and then fails with \<open>AttributeError\<close>, as
  \<open>bytes\<close> has no \<open>encode\<close>: neither method works on the \<open>bytes\<close> it
  declares it accepts. \<open>check_password\<close> on a user whose password was never set
  raises \<open>AttributeError\<close> (\<open>None.encode\<close>) instead of answering false.\<close>

theorem password_input_errors:
  assumes "b \<noteq> []" "q \<noteq> []" "map_of u ''password'' = None"
  shows "User_set_password kdf salt (VStr []) self w = Inl (ValueError ''Password must be non-empty string or bytes value'') \<and>
         User_set_password kdf salt VNone self w = Inl (ValueError ''Password must be non-empty string or bytes value'') \<and>
         User_check_password kdf VNone self = Inl (ValueError ''Password must be non-empty string or bytes value'') \<and>
         User_check_password kdf (VInt 42) self = Inl (ValueError ''Password must be non-empty string or bytes value'') \<and>
         User_set_password kdf salt (VBytes b) self w = Inl (AttributeError ''encode'') \<and>
         User_check_password kdf (VBytes b) self = Inl (AttributeError ''encode'') \<and>
         User_check_password kdf (VStr q) u = Inl (AttributeError ''encode'')"
  using assms
  by (simp add: User_set_password_def User_check_password_def password_guard_def is_str_or_bytes_def
                py_encode_def)

theorem password_input_errors_witness:
  "User_set_password (\<lambda>x s. x) demo_salt VNone alice world0 =
     Inl (ValueError ''Password must be non-empty string or bytes value'') \<and>
   User_set_password (\<lambda>x s. x) demo_salt (VBytes ''hunter2'') alice world0 = Inl (AttributeError ''encode'') \<and>
   User_check_password (\<lambda>x s. x) (VBytes ''hunter2'') alice = Inl (AttributeError ''encode'') \<and>
   User_check_password (\<lambda>x s. x) (VStr ''hunter2'') alice = Inl (AttributeError ''encode'')"
  using password_input_errors [of "''hunter2''" "''hunter2''" alice "\<lambda>x s. x" demo_salt alice world0] by simp

section \<open>Properties of tokens\<close>

lemma hex_val_char: "d < 16 \<Longrightarrow> hex_val (hex_char d) = d"
proof -
  have "list_all (\<lambda>d. hex_val (hex_char d) = d) [0..<16]" by code_simp
  then show "d < 16 \<Longrightarrow> hex_val (hex_char d) = d" by (simp add: list_all_iff)
qed

lemma parse_hex_snoc: "parse_hex (xs @ [c]) = 16 * parse_hex xs + hex_val c"
  by (simp add: parse_hex_def)

lemma parse_hex_digits: "parse_hex (hex_digits w n) = n mod 16 ^ w"
proof (induction w arbitrary: n)
  case 0
  then show ?case by (simp add: parse_hex_def)
next
  case (Suc w)
  have "n mod 16 ^ Suc w = 16 * (n div 16 mod 16 ^ w) + n mod 16"
    by (simp add: mod_mult2_eq)
  with Suc show ?case by (simp add: parse_hex_snoc hex_val_char)
qed

lemma pk_name_User: "pk_name User_class = ''_id''" by code_simp

lemma decode_encode:
  "jwt_decode mac key alg now (jwt_encode mac key alg p) =
     (case map_of p ''exp'' of
        None \<Rightarrow> Valid p
      | Some (VTime expiry) \<Rightarrow> if expiry \<le> now then Expired else Valid p
      | Some _ \<Rightarrow> Invalid)"
  unfolding jwt_decode_def jwt_encode_def jwt_token.select_convs by simp

lemma encode_payload: "tok_payload (jwt_encode mac key alg p) = p"
  by (simp add: jwt_encode_def)

lemma auth_token_Inr:
  assumes "User_auth_token mac cfg utc tz self = Inr tok"
  obtains "py_truthy (pk_of User_class self)"
    "tok = jwt_encode mac (jwt_secret cfg) (jwt_algorithm cfg)
             [(''first_name'', attr self ''first_name''), (''last_name'', attr self ''last_name''),
              (''id'', VStr (id_str (pk_of User_class self))),
              (''exp'', VTime (utc + tz + 3600 * jwt_expires_in_hours cfg))]"
  using assms by (simp add: User_auth_token_def Let_def split: if_splits)

text \<open>C25: \<open>auth_token\<close> on both branches of its guard. A user with no
  primary key gets \<open>ValueError\<close> (the spec names the error
  \<open>ValidationError\<close>); the token of a saved user decodes, before its expiry, to
  claims whose \<open>id\<close> is the 24-digit hexadecimal \<open>str(self.pk)\<close>, which
  parses back to the user's ObjectId.\<close>

theorem auth_token_branches:
  "(map_of self ''_id'' = None \<longrightarrow>
      User_auth_token mac cfg utc tz self = Inl (ValueError ''Cannot generate token for unsaved object'')) \<and>
   (map_of self ''_id'' = Some (VObjectId n) \<and> n < 16 ^ 24 \<and> now < utc + tz + 3600 * jwt_expires_in_hours cfg \<longrightarrow>
      (\<exists>tok claims. User_auth_token mac cfg utc tz self = Inr tok \<and>
         jwt_decode mac (jwt_secret cfg) (jwt_algorithm cfg) now tok = Valid claims \<and>
         map_of claims ''id'' = Some (VStr (oid_str n)) \<and> parse_hex (oid_str n) = n))"
  by (auto simp: User_auth_token_def pk_of_def pk_name_User id_str_def decode_encode oid_str_def
                 parse_hex_digits Let_def)

theorem auth_token_branches_witness:
  "User_auth_token demo_mac demo_cfg 100 0 [(''email'', VStr ''bob@example.com'')] =
     Inl (ValueError ''Cannot generate token for unsaved object'') \<and>
   (\<exists>tok claims. User_auth_token demo_mac demo_cfg 100 0 alice = Inr tok \<and>
     jwt_decode demo_mac ''s3cret'' ''HS256'' 200 tok = Valid claims \<and>
     map_of claims ''id'' = Some (VStr (oid_str 0)) \<and> parse_hex (oid_str 0) = 0)"
  using auth_token_branches [of "[(''email'', VStr ''bob@example.com'')]" demo_mac demo_cfg 100 0 0 200]
        auth_token_branches [of alice demo_mac demo_cfg 100 0 0 200]
  by simp

text \<open>C26: a token issued at UTC instant \<open>utc\<close> is valid at \<open>now\<close> exactly when
  \<open>now < utc + tz + 3600 * hours\<close> and expired afterwards: its lifetime is the
  configured duration shifted by the server's UTC offset \<open>tz\<close>, because
  \<open>datetime.now()\<close> is local time while the validator compares with UTC.\<close>

theorem issued_token_validity:
  assumes "User_auth_token mac cfg utc tz self = Inr tok"
  shows "jwt_decode mac (jwt_secret cfg) (jwt_algorithm cfg) now tok =
           (if now < utc + tz + 3600 * jwt_expires_in_hours cfg then Valid (tok_payload tok) else Expired)"
  using assms by (rule auth_token_Inr) (simp add: decode_encode encode_payload not_le)

theorem issued_token_validity_witness:
  "User_auth_token demo_mac demo_cfg 100 (- 3600) alice =
     Inr (jwt_encode demo_mac ''s3cret'' ''HS256''
        [(''first_name'', VNone), (''last_name'', VNone), (''id'', VStr (oid_str 0)), (''exp'', VTime 100)]) \<and>
   jwt_decode demo_mac ''s3cret'' ''HS256'' 100
     (jwt_encode demo_mac ''s3cret'' ''HS256''
        [(''first_name'', VNone), (''last_name'', VNone), (''id'', VStr (oid_str 0)), (''exp'', VTime 100)]) = Expired"
proof -
  have tok: "User_auth_token demo_mac demo_cfg 100 (- 3600) alice =
     Inr (jwt_encode demo_mac ''s3cret'' ''HS256''
        [(''first_name'', VNone), (''last_name'', VNone), (''id'', VStr (oid_str 0)), (''exp'', VTime 100)])"
    by (simp add: User_auth_token_def pk_of_def pk_name_User id_str_def attr_def)
  show ?thesis using tok issued_token_validity [OF tok, of 100] by (simp add: encode_payload)
qed

text \<open>C27: the gate protects none of the routes \<open>app.py\<close> registers:
  \<open>/register\<close> and \<open>/login\<close> are both on its allow-list, so a request to any
  routed path reaches its handler unchanged, with or without a token.\<close>

theorem app_routes_unprotected:
  assumes "(path, resource) \<in> set app_routes"
  shows "app_gate mac cfg next \<lparr>req_path = path, req_token = t, req_identity = idn\<rparr> w =
           Inr (next \<lparr>req_path = path, req_token = t, req_identity = idn\<rparr> w)"
  using assms by (auto simp: app_routes_def app_gate_def auth_gate_def app_ignored_endpoints_def)

theorem app_routes_unprotected_witness:
  "app_gate demo_mac demo_cfg (\<lambda>req w. (req_identity req, w))
     \<lparr>req_path = ''/register'', req_token = None, req_identity = None\<rparr> world0 = Inr (None, world0)"
  using app_routes_unprotected [of "''/register''" "''RegisterResource''" demo_mac demo_cfg
          "\<lambda>req w. (req_identity req, w)" None None world0]
  by (simp add: app_routes_def)

end
