(* ===== verification/Presentation.thy ===== *)
theory Presentation
  imports Auth
begin

text \<open>
  \<open>AppMixin.to_dict\<close> (\<open>src/src/models.py\<close>, lines 58--72). Every class of models.py
  that mixes \<open>AppMixin\<close> in is a \<open>MongoModel\<close> or an \<open>EmbeddedMongoModel\<close>, so the
  \<open>isinstance\<close> test of line 68 holds and line 69 evaluates
  \<open>self.to_custom_son\<close>. Python looks the name up on the instance (its fields) and
  then on its class and the bases: the methods the class body defines, those of
  \<open>AppMixin\<close>, and pymodm's model API. None of them defines \<open>to_custom_son\<close>
  (pymodm's serialiser is \<open>to_son\<close>), so the lookup raises \<open>AttributeError\<close>
  before anything is converted: the \<open>json.dumps\<close> pass of line 71 and the
  \<open>self.__dict__\<close> branch of line 72 are never reached. The model keeps the lookup
  explicit, so that a class that did provide \<open>to_custom_son\<close> would reach it.
\<close>

section \<open>The attributes of a model instance\<close>

text \<open>The methods \<open>AppMixin\<close> defines.\<close>

definition AppMixin_methods :: "string list" where
  "AppMixin_methods = [''to_dict'']"

text \<open>The methods and properties the class bodies of models.py define.\<close>

definition class_methods :: "string \<Rightarrow> string list" where
  "class_methods c =
     (if c = ''User'' then [''set_password'', ''check_password'', ''auth_token'']
      else if c = ''Category'' then [''sub_categories'', ''product_count'']
      else if c = ''Location'' then [''product_count'']
      else if c = ''ProductVariant'' then [''__hash__'', ''__eq__'', ''pk'', ''price'']
      else [])"

text \<open>The public API of pymodm's \<open>EmbeddedMongoModel\<close> and, for top-level models,
  \<open>MongoModel\<close>.\<close>

definition pymodm_api :: "bool \<Rightarrow> string list" where
  "pymodm_api embedded =
     [''to_son'', ''from_document'', ''clean_fields'', ''clean'', ''full_clean''] @
     (if embedded then [] else [''save'', ''delete'', ''refresh_from_db'', ''objects'', ''pk''])"

text \<open>Attribute lookup on an instance of a class: a field (set or not), or a method of
  the class, of \<open>AppMixin\<close> or of pymodm.\<close>

definition has_attribute :: "model_class \<Rightarrow> string \<Rightarrow> bool" where
  "has_attribute cls a \<longleftrightarrow>
     a \<in> set (attr_names cls) \<or> a \<in> set (class_methods (mc_name cls)) \<or> a \<in> set AppMixin_methods \<or>
     a \<in> set (pymodm_api (mc_embedded cls))"

text \<open>The classes of models.py that mix \<open>AppMixin\<close> in (all but \<open>ProductStat\<close>).\<close>

definition AppMixin_classes :: "model_class list" where
  "AppMixin_classes = [User_class, Address_class, Person_class, Currency_class, Price_class, Category_class,
                       SubCategory_class, Country_class, Location_class, EmbeddedAttribute_class,
                       ProductVariant_class, Product_class]"

section \<open>to_dict\<close>

text \<open>\<open>to_dict(exclude, do_dump)\<close> on an instance \<open>self\<close> of \<open>cls\<close>. The parameter
  \<open>son\<close> stands for \<open>self.to_custom_son(exclude=exclude).to_dict()\<close> followed by the
  optional dump, on a class that would define \<open>to_custom_son\<close>.\<close>

definition AppMixin_to_dict ::
  "(doc \<Rightarrow> string list option \<Rightarrow> bool \<Rightarrow> doc result) \<Rightarrow> model_class \<Rightarrow> doc \<Rightarrow> string list option \<Rightarrow> bool \<Rightarrow> doc result" where
  "AppMixin_to_dict son cls self exclude do_dump =
     (if has_attribute cls ''to_custom_son'' then son self exclude do_dump
      else Inl (AttributeError ''to_custom_son''))"

section \<open>Properties of to_dict\<close>

text \<open>C31: \<open>to_dict\<close> cannot return. On an instance of any class of models.py that
  mixes \<open>AppMixin\<close> in, with any \<open>exclude\<close> and \<open>do_dump\<close>, it raises
  \<open>AttributeError\<close> at \<open>self.to_custom_son\<close>: no field, no method of the class, of
  \<open>AppMixin\<close> or of pymodm has that name.\<close>

theorem to_dict_raises:
  assumes "cls \<in> set AppMixin_classes"
  shows "AppMixin_to_dict son cls self exclude do_dump = Inl (AttributeError ''to_custom_son'')"
proof -
  have "list_all (\<lambda>c. \<not> has_attribute c ''to_custom_son'') AppMixin_classes" by code_simp
  with assms show ?thesis by (auto simp: list_all_iff AppMixin_to_dict_def)
qed

theorem to_dict_raises_witness:
  "AppMixin_to_dict (\<lambda>d e b. Inr d) User_class alice None True = Inl (AttributeError ''to_custom_son'') \<and>
   AppMixin_to_dict (\<lambda>d e b. Inr d) Product_class shoe_new (Some [''tags'']) False =
     Inl (AttributeError ''to_custom_son'')"
proof -
  have "User_class \<in> set AppMixin_classes" "Product_class \<in> set AppMixin_classes"
    by (simp_all add: AppMixin_classes_def)
  then show ?thesis using to_dict_raises by blast
qed

end
