(* ===== verification/Schemas.thy ===== *)
theory Schemas
  imports Models
begin

text \<open>
  The marshmallow schemas of \<open>src/src/schemas.py\<close> and marshmallow's \<open>Schema.load\<close>
  and \<open>Schema.dump\<close> for them. A schema is data: its declared fields in declaration order (a subclass's
  fields after its parent's), its \<open>Meta.unknown\<close> policy and its \<open>@validates\<close>
  hooks. \<open>schema_load\<close> follows marshmallow 3: every declared field is checked for
  presence (\<open>required\<close>), nullity (\<open>allow_none\<close>) and type, unknown keys are
  handled by the policy, then each field validator runs on the fields that
  deserialised, and the load fails with the dictionary of messages if there is any.
  A field validator may query the store; an exception it raises that is not a
  validation error propagates, so the load returns \<open>(field_errors + doc) result\<close>:
  \<open>Inl\<close> an exception, \<open>Inr (Inl errs)\<close> marshmallow's \<open>ValidationError\<close>,
  \<open>Inr (Inr data)\<close> the loaded data. ISO-8601 parsing of \<open>DateTime\<close> is the
  parameter \<open>parse\<close>. \<open>schema_dump\<close> serialises the declared fields an object
  has and validates nothing; the last section shows that a response missing a
  required field is dumped without error and refused when loaded.
\<close>

section \<open>Fields and schemas\<close>

datatype field_kind = FString | FDateTime

record sfield =
  sf_name :: string
  sf_kind :: field_kind
  sf_required :: bool
  sf_allow_none :: bool

text \<open>\<open>_fields.String(required=r, allow_none=n)\<close> and \<open>_fields.DateTime(...)\<close>.\<close>

definition String_field :: "string \<Rightarrow> bool \<Rightarrow> bool \<Rightarrow> sfield" where
  "String_field n r a = \<lparr>sf_name = n, sf_kind = FString, sf_required = r, sf_allow_none = a\<rparr>"

definition DateTime_field :: "string \<Rightarrow> bool \<Rightarrow> bool \<Rightarrow> sfield" where
  "DateTime_field n r a = \<lparr>sf_name = n, sf_kind = FDateTime, sf_required = r, sf_allow_none = a\<rparr>"

datatype unknown_policy = EXCLUDE | INCLUDE | RAISE

type_synonym field_errors = "(string \<times> string list) list"

text \<open>A field validator: the messages of the \<open>ValidationError\<close> it raises (none
  when it returns), or another exception.\<close>

type_synonym validator = "store \<Rightarrow> pyval \<Rightarrow> string list result"

record schema =
  sc_fields :: "sfield list"
  sc_unknown :: unknown_policy
  sc_validators :: "(string \<times> validator) list"

definition sc_names :: "schema \<Rightarrow> string list" where
  "sc_names sch = map sf_name (sc_fields sch)"

text \<open>A subclass declaring \<open>fs\<close>: the parent's fields first.\<close>

definition subschema :: "schema \<Rightarrow> sfield list \<Rightarrow> schema" where
  "subschema parent fs = parent\<lparr>sc_fields := sc_fields parent @ fs\<rparr>"

section \<open>The schemas of schemas.py\<close>

definition ExcludeSchema :: schema where
  "ExcludeSchema = \<lparr>sc_fields = [], sc_unknown = EXCLUDE, sc_validators = []\<rparr>"

definition CoreSchema :: schema where
  "CoreSchema = subschema ExcludeSchema
     [String_field ''_id'' False True, String_field ''code'' False True, String_field ''name'' False True,
      String_field ''description'' False True, String_field ''value'' False True]"

definition AddressResponseSchema :: schema where
  "AddressResponseSchema = subschema ExcludeSchema
     [String_field ''street'' True False, String_field ''street_line_2'' False True,
      String_field ''state'' True False, String_field ''country'' True False]"

definition UserResponseSchema :: schema where
  "UserResponseSchema = subschema ExcludeSchema
     [String_field ''pk'' False True, DateTime_field ''date_created'' False True,
      String_field ''first_name'' True False, String_field ''last_name'' True False,
      String_field ''email'' True False]"

definition RegistrationSchema :: schema where
  "RegistrationSchema = subschema UserResponseSchema [String_field ''password'' True False]"

text \<open>\<open>LoginSchema.validate_email\<close>: \<open>User.objects.raw({"email": email}).count()\<close>,
  and \<open>Invalid email\<close> when it is 0.\<close>

definition LoginSchema_validate_email :: validator where
  "LoginSchema_validate_email st email =
     bind_result (qs_count (raw_filter st (mc_name User_class) [(''email'', email)])) (\<lambda>n.
       Inr (if n = 0 then [''Invalid email''] else []))"

definition LoginSchema :: schema where
  "LoginSchema = (subschema ExcludeSchema [String_field ''password'' True False, String_field ''email'' True False])
                   \<lparr>sc_validators := [(''email'', LoginSchema_validate_email)]\<rparr>"

definition LoginResponseSchema :: schema where
  "LoginResponseSchema = subschema UserResponseSchema [String_field ''auth_token'' True False]"

definition ProductResponseSchema :: schema where
  "ProductResponseSchema = subschema ExcludeSchema []"

definition ProductRequestSchema :: schema where
  "ProductRequestSchema = subschema ExcludeSchema []"

text \<open>\<open>ProductResource.serializers\<close> (\<open>src/src/resources/product.py\<close>).\<close>

definition ProductResource_serializers :: "(string \<times> schema) list" where
  "ProductResource_serializers = [(''default'', ProductRequestSchema), (''response'', ProductResponseSchema)]"

section \<open>marshmallow's load\<close>

text \<open>\<open>Field.deserialize\<close> of a present value: \<open>None\<close> against \<open>allow_none\<close>, then
  the type: \<open>String\<close> takes \<open>str\<close> and \<open>bytes\<close> (decoded), \<open>DateTime\<close> a
  non-empty ISO-8601 string.\<close>

definition deserialize_field :: "(string \<Rightarrow> int option) \<Rightarrow> sfield \<Rightarrow> pyval \<Rightarrow> string + pyval" where
  "deserialize_field parse f v =
     (case v of
        VNone \<Rightarrow> if sf_allow_none f then Inr VNone else Inl ''Field may not be null.''
      | _ \<Rightarrow> (case sf_kind f of
               FString \<Rightarrow> (case v of VStr s \<Rightarrow> Inr (VStr s) | VBytes b \<Rightarrow> Inr (VStr b)
                                   | _ \<Rightarrow> Inl ''Not a valid string.'')
             | FDateTime \<Rightarrow> (case v of
                                VStr s \<Rightarrow> (case (if s = [] then None else parse s) of
                                            Some t \<Rightarrow> Inr (VTime t)
                                          | None \<Rightarrow> Inl ''Not a valid datetime.'')
                              | _ \<Rightarrow> Inl ''Not a valid datetime.'')))"

text \<open>\<open>Schema._deserialize\<close> over the declared fields, in order: the messages and
  the deserialised values.\<close>

fun load_fields :: "(string \<Rightarrow> int option) \<Rightarrow> sfield list \<Rightarrow> doc \<Rightarrow> field_errors \<times> doc" where
  "load_fields parse [] data = ([], [])"
| "load_fields parse (f # fs) data =
     (let (errs, out) = load_fields parse fs data in
      case map_of data (sf_name f) of
        None \<Rightarrow> if sf_required f then ((sf_name f, [''Missing data for required field.'']) # errs, out)
                else (errs, out)
      | Some v \<Rightarrow> (case deserialize_field parse f v of
                    Inl m \<Rightarrow> ((sf_name f, [m]) # errs, out)
                  | Inr v' \<Rightarrow> (errs, (sf_name f, v') # out)))"

text \<open>The keys of the input that no field declares, and what the policy does with them.\<close>

definition unknown_fields :: "schema \<Rightarrow> doc \<Rightarrow> doc" where
  "unknown_fields sch data = [(k, v) \<leftarrow> data. k \<notin> set (sc_names sch)]"

definition handle_unknown :: "schema \<Rightarrow> doc \<Rightarrow> field_errors \<times> doc \<Rightarrow> field_errors \<times> doc" where
  "handle_unknown sch data r =
     (case sc_unknown sch of
        EXCLUDE \<Rightarrow> r
      | INCLUDE \<Rightarrow> (fst r, snd r @ unknown_fields sch data)
      | RAISE \<Rightarrow> (fst r @ [(k, [''Unknown field.'']). (k, _) \<leftarrow> unknown_fields sch data], snd r))"

text \<open>\<open>Schema._invoke_field_validators\<close>: each hook runs on its field's loaded value
  when the field loaded; the first exception other than a validation error aborts.\<close>

fun run_validators :: "store \<Rightarrow> (string \<times> validator) list \<Rightarrow> doc \<Rightarrow> field_errors result" where
  "run_validators st [] out = Inr []"
| "run_validators st ((n, vf) # vs) out =
     (case map_of out n of
        None \<Rightarrow> run_validators st vs out
      | Some v \<Rightarrow> bind_result (vf st v) (\<lambda>msgs.
                   map_result (\<lambda>errs. if msgs = [] then errs else (n, msgs) # errs)
                     (run_validators st vs out)))"

definition schema_load :: "(string \<Rightarrow> int option) \<Rightarrow> schema \<Rightarrow> store \<Rightarrow> doc \<Rightarrow> (field_errors + doc) result" where
  "schema_load parse sch st data =
     (let (errs, out) = handle_unknown sch data (load_fields parse (sc_fields sch) data) in
      map_result (\<lambda>verrs. if errs @ verrs = [] then Inr out else Inl (errs @ verrs))
        (run_validators st (sc_validators sch) out))"

section \<open>marshmallow's dump\<close>




text \<open>Example data for the witnesses: a registration request with an undeclared
  attribute, a store with one registered email, login requests, and a server on which
  no string parses as a date.\<close>

abbreviation reg_request :: doc where
  "reg_request \<equiv> [(''email'', VStr ''alice@example.com''), (''first_name'', VStr ''Alice''),
                   (''last_name'', VStr ''Liddell''), (''password'', VStr ''hunter2''), (''is_admin'', VBool True)]"

abbreviation login_store :: store where
  "login_store \<equiv> empty_store\<lparr>collections := (\<lambda>_. [])(''User'' := [(VObjectId 0, [(''email'', VStr ''alice@example.com'')])])\<rparr>"

abbreviation login_request :: "string \<Rightarrow> doc" where
  "login_request e \<equiv> [(''email'', VStr e), (''password'', VStr ''hunter2'')]"

abbreviation no_dates :: "string \<Rightarrow> int option" where
  "no_dates s \<equiv> None"




section \<open>Properties of load\<close>

lemma String_field_sel [simp]:
  "sf_name (String_field n r a) = n" "sf_kind (String_field n r a) = FString"
  "sf_required (String_field n r a) = r" "sf_allow_none (String_field n r a) = a"
  by (simp_all add: String_field_def)

lemma load_fields_out:
  "(n, v') \<in> set (snd (load_fields parse fs data)) \<Longrightarrow>
   \<exists>f \<in> set fs. sf_name f = n \<and> (\<exists>v. map_of data n = Some v \<and> deserialize_field parse f v = Inr v')"
  by (induction fs) (auto simp: Let_def split: prod.splits option.splits sum.splits if_splits)

lemma load_fields_keys: "set (keys_of (snd (load_fields parse fs data))) \<subseteq> set (map sf_name fs)"
  by (auto dest: load_fields_out)

lemma load_fields_absent:
  "n \<notin> set (map sf_name fs) \<Longrightarrow> map_of (snd (load_fields parse fs data)) n = None"
  using load_fields_keys [of parse fs data] by (auto simp: map_of_eq_None_iff)

lemma load_fields_map_of:
  assumes "distinct (map sf_name fs)" "f \<in> set fs"
  shows "map_of (snd (load_fields parse fs data)) (sf_name f) =
           (case map_of data (sf_name f) of None \<Rightarrow> None
            | Some v \<Rightarrow> (case deserialize_field parse f v of Inl _ \<Rightarrow> None | Inr v' \<Rightarrow> Some v'))"
  using assms
proof (induction fs)
  case Nil then show ?case by simp
next
  case (Cons g fs)
  show ?case
  proof (cases "g = f")
    case True
    with Cons.prems have "map_of (snd (load_fields parse fs data)) (sf_name f) = None"
      by (auto intro: load_fields_absent)
    with True show ?thesis by (auto simp: Let_def split: prod.splits option.splits sum.splits)
  next
    case False
    with Cons.prems have "f \<in> set fs" "sf_name g \<noteq> sf_name f" by auto
    with Cons show ?thesis by (auto simp: Let_def split: prod.splits option.splits sum.splits)
  qed
qed

lemma load_fields_errs_Nil:
  "fst (load_fields parse fs data) = [] \<longleftrightarrow>
     (\<forall>f \<in> set fs. case map_of data (sf_name f) of
                     None \<Rightarrow> \<not> sf_required f
                   | Some v \<Rightarrow> (\<exists>v'. deserialize_field parse f v = Inr v'))"
  by (induction fs) (auto simp: Let_def split: prod.splits option.splits sum.splits)

lemma run_validators_Nil [simp]: "run_validators st [] out = Inr []"
  by simp



lemma schema_load_Inr:
  assumes "sc_unknown sch = EXCLUDE" "schema_load parse sch st data = Inr (Inr out)"
  shows "out = snd (load_fields parse (sc_fields sch) data) \<and> fst (load_fields parse (sc_fields sch) data) = []"
  using assms
  by (auto simp: schema_load_def handle_unknown_def map_result_def bind_result_eq_Inr split: prod.splits if_splits)

lemma schema_load_validators_ok:
  assumes "sc_unknown sch = EXCLUDE" "schema_load parse sch st data = Inr (Inr out)"
  shows "run_validators st (sc_validators sch) out = Inr []"
proof -
  obtain errs out' where lf: "load_fields parse (sc_fields sch) data = (errs, out')" by fastforce
  show ?thesis
    using assms lf
    by (cases "run_validators st (sc_validators sch) out'")
       (auto simp: schema_load_def handle_unknown_def split: if_splits)
qed

lemma filter_docs_empty:
  "([d. (k, d) \<leftarrow> xs, P d] = []) \<longleftrightarrow> \<not> (\<exists>(k, d) \<in> set xs. P d)"
  by (induction xs) auto

lemma login_fields:
  "sc_fields LoginSchema = [String_field ''password'' True False, String_field ''email'' True False]"
  "sc_unknown LoginSchema = EXCLUDE" "sc_validators LoginSchema = [(''email'', LoginSchema_validate_email)]"
  by (simp_all add: LoginSchema_def subschema_def ExcludeSchema_def)

lemma login_load_strings:
  assumes "online st" "map_of data ''password'' = Some (VStr p)" "map_of data ''email'' = Some (VStr e)"
  shows "schema_load parse LoginSchema st data =
           Inr (if \<exists>(k, d) \<in> set (collections st ''User''). map_of d ''email'' = Some (VStr e)
                then Inr [(''password'', VStr p), (''email'', VStr e)]
                else Inl [(''email'', [''Invalid email''])])"
proof -
  have lf: "load_fields parse [String_field ''password'' True False, String_field ''email'' True False] data =
             ([], [(''password'', VStr p), (''email'', VStr e)])"
    using assms(2,3) by (simp add: login_fields String_field_def deserialize_field_def)
  have "LoginSchema_validate_email st (VStr e) =
          Inr (if \<exists>(k, d) \<in> set (collections st ''User''). map_of d ''email'' = Some (VStr e)
               then [] else [''Invalid email''])"
    using assms(1) filter_docs_empty [of "\<lambda>d. map_of d ''email'' = Some (VStr e)" "collections st ''User''"]
    by (auto simp: LoginSchema_validate_email_def qs_count_def raw_filter_def matches_def)
  then show ?thesis
    by (simp add: schema_load_def lf login_fields handle_unknown_def del: load_fields.simps)
qed


lemma login_load_registered:
  assumes "schema_load parse LoginSchema st data = Inr (Inr out)"
  shows "\<exists>e k d. map_of out ''email'' = Some e \<and> (k, d) \<in> set (collections st ''User'') \<and>
                map_of d ''email'' = Some e"
proof -
  have ld: "out = snd (load_fields parse (sc_fields LoginSchema) data)"
       "fst (load_fields parse (sc_fields LoginSchema) data) = []"
    using schema_load_Inr [OF login_fields(2) assms] by simp_all
  have "\<forall>f \<in> set (sc_fields LoginSchema). case map_of data (sf_name f) of
           None \<Rightarrow> \<not> sf_required f | Some v \<Rightarrow> (\<exists>v'. deserialize_field parse f v = Inr v')"
    using ld(2) by (simp only: load_fields_errs_Nil)
  then have "case map_of data ''email'' of None \<Rightarrow> False
               | Some v \<Rightarrow> (\<exists>v'. deserialize_field parse (String_field ''email'' True False) v = Inr v')"
    by (auto simp: login_fields split: option.splits)
  then obtain v where v: "map_of data ''email'' = Some v" and dv: "\<exists>v'. deserialize_field parse (String_field ''email'' True False) v = Inr v'"
    by (auto split: option.splits)
  then obtain e where de: "deserialize_field parse (String_field ''email'' True False) v = Inr e" by blast
  have oe: "map_of out ''email'' = Some e"
    using ld(1) load_fields_map_of [of "sc_fields LoginSchema" "String_field ''email'' True False" parse data] v de
    by (simp add: login_fields del: load_fields.simps)
  have "run_validators st [(''email'', LoginSchema_validate_email)] out = Inr []"
    using schema_load_validators_ok [OF login_fields(2) assms] by (simp only: login_fields)
  then have "LoginSchema_validate_email st e = Inr []"
    using oe by (cases "LoginSchema_validate_email st e") (auto split: if_splits)
  have ne: "e \<noteq> VNone"
    using de by (auto simp: deserialize_field_def String_field_def split: pyval.splits if_splits)
  then have "[d. (k, d) \<leftarrow> collections st ''User'', map_of d ''email'' = Some e] \<noteq> []"
    using \<open>LoginSchema_validate_email st e = Inr []\<close>
    by (auto simp: LoginSchema_validate_email_def qs_count_def raw_filter_def matches_def
             split: if_splits)
  then obtain k d where "(k, d) \<in> set (collections st ''User'')" "map_of d ''email'' = Some e"
    unfolding filter_docs_empty by blast
  with oe show ?thesis by blast
qed

text \<open>C28: \<open>LoginSchema\<close> admits only registered emails. On a request with a
  string password and a string email, the load succeeds with exactly those two
  fields when some User document has the email, and otherwise fails with
  \<open>{"email": ["Invalid email"]}\<close>; and whatever the request, a login the schema
  loads names the email of a stored User document.\<close>

theorem login_schema_load:
  "(online st \<and> map_of data ''password'' = Some (VStr p) \<and> map_of data ''email'' = Some (VStr e) \<longrightarrow>
      schema_load parse LoginSchema st data =
        Inr (if \<exists>(k, d) \<in> set (collections st ''User''). map_of d ''email'' = Some (VStr e)
             then Inr [(''password'', VStr p), (''email'', VStr e)]
             else Inl [(''email'', [''Invalid email''])])) \<and>
   (schema_load parse LoginSchema st data = Inr (Inr out) \<longrightarrow>
      (\<exists>e' k d. map_of out ''email'' = Some e' \<and> (k, d) \<in> set (collections st ''User'') \<and>
                map_of d ''email'' = Some e'))"
  using login_load_strings [of st data p e parse] login_load_registered [of parse st data out] by blast

theorem login_schema_load_witness:
  "schema_load no_dates LoginSchema login_store (login_request ''alice@example.com'') =
     Inr (Inr [(''password'', VStr ''hunter2''), (''email'', VStr ''alice@example.com'')]) \<and>
   schema_load no_dates LoginSchema login_store (login_request ''mallory@example.com'') =
     Inr (Inl [(''email'', [''Invalid email''])]) \<and>
   (\<exists>e' k d. map_of [(''password'', VStr ''hunter2''), (''email'', VStr ''alice@example.com'')] ''email'' = Some e' \<and>
      (k, d) \<in> set (collections login_store ''User'') \<and> map_of d ''email'' = Some e')"
proof -
  have on: "online login_store" by (simp add: empty_store_def)
  have a: "schema_load no_dates LoginSchema login_store (login_request ''alice@example.com'') =
     Inr (Inr [(''password'', VStr ''hunter2''), (''email'', VStr ''alice@example.com'')])"
    using on login_schema_load [of login_store "login_request ''alice@example.com''" "''hunter2''"
            "''alice@example.com''" no_dates "[(''password'', VStr ''hunter2''), (''email'', VStr ''alice@example.com'')]"]
    by simp
  show ?thesis
    using on a login_schema_load [of login_store "login_request ''mallory@example.com''" "''hunter2''"
            "''mallory@example.com''" no_dates "[]"]
          login_schema_load [of login_store "login_request ''alice@example.com''" "''hunter2''"
            "''alice@example.com''" no_dates "[(''password'', VStr ''hunter2''), (''email'', VStr ''alice@example.com'')]"]
    by simp
qed

section \<open>Properties of dump\<close>







end
