(* ===== verification/Spec2Isabelle.thy ===== *)
theory Spec2Isabelle
  imports Presentation Schemas
begin

text \<open>
  \<^bold>\<open>A verification development for the e-commerce API.\<close>

  \<^medskip>\<^noindent>\<^bold>\<open>The program.\<close> The repository is a Flask/pymodm back end. Its core
  is \<open>src/src/models.py\<close>: a \<open>ReferenceField\<close> subclass whose
  \<open>dereference_if_needed\<close> resolves stored references leniently, and the entity
  classes (User, Address, Person, Currency, Price, Category, SubCategory, Country,
  Location, ProductStat, EmbeddedAttribute, ProductVariant, Product) with their
  methods; \<open>User\<close> carries the password and token methods.
  \<open>src/src/services/product.py\<close> builds the product service with
  \<open>ServiceFactory.create_service(Product)\<close>, and \<open>src/app.py\<close> wraps the
  application in \<open>AuthMiddleware\<close> with an allow-list. The factory
  (\<open>src/base/service.py\<close>) and the middleware (\<open>src/base/middleware.py\<close>) are
  imported but not part of the repository. A request passes the gate, reaches a
  handler, which calls a service operation, which saves or queries documents
  through pymodm and, where a field is a reference, through the resolver.

  \<^medskip>\<^noindent>\<^bold>\<open>The theories.\<close>
  \<^item> \<open>Prelude\<close>: exceptions as the datatype \<open>error\<close> and the result type
    \<open>error + 'a\<close> with \<open>bind_result\<close> (Python's propagation), and the
    association-list lemmas the components share (collections \<open>result_simps\<close>,
    \<open>alist_simps\<close>).
  \<^item> \<open>Store\<close>: Python values \<open>pyval\<close>, documents as association lists, the
    MongoDB store (\<open>record store\<close>: collections keyed by \<open>_id\<close>, reachability, the
    ObjectId counter), the query shapes \<open>raw({"_id": k})\<close> and \<open>raw(filter)\<close>
    with \<open>count()\<close> and \<open>first()\<close>, \<open>upsert\<close> and \<open>remove\<close>, the unique
    indexes of \<open>Meta.indexes\<close> checked on every write (\<open>insert_indexed\<close>), and
    pymodm's field declarations as the record \<open>fdecl\<close>.
  \<^item> \<open>Resolver\<close>: \<open>ReferenceField.dereference_if_needed\<close> (models.py 27--55)
    over the interface record \<open>ref_env\<close>, returning its result and the store calls
    it made; the contract \<open>resolve_spec\<close> of spec section 4.1 and the refinement
    relation \<open>env_agrees\<close>; \<open>store_env\<close>, the interface over two store snapshots
    (the \<open>count()\<close> and \<open>first()\<close> round trips may see different states).
  \<^item> \<open>Models\<close>: every class of models.py as a \<open>model_class\<close> table, field by
    field; pymodm's construction (\<open>instantiate\<close>), validation (\<open>full_clean\<close>
    over \<open>clean_fields\<close>, descending into embedded documents through
    \<open>clean_value\<close> and \<open>clean_items\<close>) and \<open>save\<close>; the methods \<open>Category.sub_categories\<close>,
    \<open>Category.product_count\<close>, \<open>Location.product_count\<close>,
    \<open>ProductVariant.__hash__\<close>, \<open>__eq__\<close>, \<open>pk\<close> and \<open>price\<close>.
  \<^item> \<open>Service\<close>: the generic create/read/update/delete/list of the factory
    (from spec section 4.2) on a \<open>world\<close> (store and clock), the product
    service of services/product.py, the step relation \<open>svc_step\<close> and the
    reachable worlds \<open>svc_reachable\<close>, the invariant \<open>svc_inv\<close> and the
    abstraction \<open>svc_abs\<close> to a map from keys to entities; \<open>update\<close> split into
    its read phase and its write phase \<open>update_write\<close>, and
    \<open>interleaved_updates\<close>, two clients' updates of one entity with both reads
    before both writes (spec section 5).
  \<^item> \<open>Auth\<close>: \<open>User.set_password\<close>, \<open>User.check_password\<close> and
    \<open>User.auth_token\<close> (models.py 98--149) over bcrypt and PyJWT at their
    interface (a key-derivation function \<open>kdf\<close> and a MAC \<open>mac\<close> as
    parameters), the token states \<open>Valid\<close>, \<open>Expired\<close>, \<open>Invalid\<close>, the
    gate \<open>auth_gate\<close> (spec section 4.4) and its instance \<open>app_gate\<close> with the
    allow-list and the routes of app.py.
  \<^item> \<open>Schemas\<close>: the marshmallow schemas of \<open>src/src/schemas.py\<close> as data
    (declared fields in order, \<open>Meta.unknown\<close>, \<open>@validates\<close> hooks),
    marshmallow 3's \<open>Schema.load\<close> over them, \<open>LoginSchema.validate_email\<close>
    querying the store, marshmallow 3's \<open>Schema.dump\<close> (\<open>schema_dump\<close>, which
    serialises without validating), and \<open>ProductResource.serializers\<close> of
    \<open>src/src/resources/product.py\<close>.
  \<^item> \<open>Presentation\<close>: \<open>AppMixin.to_dict\<close> (models.py 58--72) with Python's
    attribute lookup (\<open>has_attribute\<close>: the declared fields, the methods of the
    class body, of \<open>AppMixin\<close> and of pymodm's model API), which decides whether
    \<open>self.to_custom_son\<close> exists.
  \<^item> This theory: the product resource, which joins the schemas and the service.

  \<^medskip>\<^noindent>\<^bold>\<open>What is proved.\<close> One theorem per claim, each after a
  text block naming it.
  \<^item> Resolver (C1--C6): it refines its contract over a well-formed store; one
    resolution costs at most two round trips and none for an instance; a raw key
    is returned without an exception when its target is missing and costs two
    round trips when it is present; resolution is idempotent; over one state the
    only exception is a connection failure; a delete between the round trips
    makes it raise \<open>DoesNotExist\<close>.
  \<^item> Models (C7--C13): the exact result of \<open>Category.product_count\<close> (every
    stored Product when the category's \<open>code\<close> and \<open>instance_id\<close> are null,
    since MongoDB's null matches a missing attribute, and 0 otherwise, in
    particular for every category that validates); \<open>save\<close> keeps collections
    free of undeclared attributes; a second Location with the same string domain
    raises \<open>DuplicateKeyError\<close> (its unique index covers an attribute that is
    never stored); an invalid embedded document, at any depth, makes \<open>save\<close>
    raise \<open>ValidationError\<close>; \<open>ProductVariant.price\<close> recurses to
    \<open>RecursionError\<close> when no price matches, and is equivalent to the reference
    definition \<open>find\<close> when the currencies resolve; \<open>__eq__\<close> equates variants
    without a sku.
  \<^item> Service (C14--C21): create/read and delete/read round trips; the
    invariant of every reachable world, by rule induction, that every reachable
    collection satisfies its unique indexes, and that every stored document
    validates, embedded ones included; monotone \<open>last_updated\<close>; refinement of
    a key-to-entity map; and last write wins: two interleaved updates lose the
    first one's change, which the same updates in sequence keep.
  \<^item> Credentials and tokens (C22--C26): a set password checks; another
    password checks exactly when it agrees in the first 72 bytes, and a password
    with a NUL byte raises \<open>ValueError\<close> (bcrypt 3); the input errors,
    including \<open>bytes\<close> passwords and unset passwords; both branches of
    \<open>auth_token\<close> with the \<open>id\<close> round trip through hexadecimal; and the exact
    validity window of an issued token (shifted by the server's UTC offset).
  \<^item> Gate (C27): every route \<open>app.py\<close> registers is on its allow-list.
  \<^item> Schemas (C28, C29): the login schema's outcome, which only admits
    registered emails; and \<open>UserResponseSchema.dump\<close> of a user without an
    email returns a dictionary that the same schema's \<open>load\<close> rejects, since
    marshmallow 3 does not validate on dump.
  \<^item> C30: the product resource's request schema loads every body to the empty
    dictionary, on which product registration fails (\<open>name\<close> is required).
  \<^item> Presentation (C31): \<open>to_dict\<close> raises \<open>AttributeError\<close> on an instance of
    every class that mixes \<open>AppMixin\<close> in, whatever its arguments.

  \<^medskip>\<^noindent>\<^bold>\<open>Fuel.\<close> \<open>ProductVariant.price\<close> calls itself; its model
  takes the interpreter's remaining recursion depth as its first argument and
  raises \<open>RecursionError\<close> at 0. The theorems quantify over every depth, so
  they hold for CPython's default limit of 1000 and for any other: the recursion
  never ends when no price matches (C11), and equals \<open>find\<close> at every depth
  (C12). Validation recurses into embedded documents read with \<open>map_of\<close>, so
  \<open>clean_fields\<close>, \<open>clean_value\<close> and \<open>clean_items\<close> are a \<open>function\<close> whose
  termination is proved by the \<open>size\<close> of the value being validated (a stored value
  is smaller than the document holding it, \<open>map_of_size\<close>). Every other operation
  is total and structurally recursive.

  \<^medskip>\<^noindent>\<^bold>\<open>Not modelled.\<close> Flask routing and the resource
  classes outside the repository (\<open>BaseResource\<close>, the auth resources,
  \<open>UserService\<close>); ISO-8601 printing and parsing and \<open>str()\<close>, which are
  parameters; the \<open>self.__dict__\<close> branch and the \<open>json\<close> pass of \<open>to_dict\<close>,
  which no call reaches (C31); pymodm's \<open>_cls\<close> attribute, which \<open>save\<close> adds to
  documents of classes that allow inheritance and which no query of the
  repository reads; MongoDB's matching of a scalar against the elements of an
  array attribute, since every filter of the repository compares scalar
  attributes;
  write concerns (\<open>WriteConcern(j=True)\<close> asks for journaling, which does not
  change any result) and connection pooling; validation of field types beyond
  blankness and embedded documents (pymodm's scalar type validators and
  \<open>to_python\<close> conversions, library internals no repository code calls); the
  cryptography of bcrypt and of the JWT signature, which are parameters; the byte encoding of tokens. The
  store is a single process's view: concurrency appears where a theorem names
  two states (C6) or runs two clients' operations in an explicit order (C21).
\<close>

text \<open>C30: the product resource cannot create a product. Its request schema
  \<open>ProductRequestSchema\<close> declares no field and excludes unknown ones, so every
  request body loads to the empty dictionary, and \<open>ProductService.register\<close> of
  the empty dictionary fails with a \<open>ValidationError\<close> (\<open>name\<close> is required).\<close>

theorem product_request_cannot_register:
  "schema_load parse (snd (ProductResource_serializers ! 0)) st data = Inr (Inr []) \<and>
   (\<exists>msg. ProductService_register [] w = Inl (ValidationError msg))"
proof
  show "schema_load parse (snd (ProductResource_serializers ! 0)) st data = Inr (Inr [])"
    by (simp add: ProductResource_serializers_def ProductRequestSchema_def subschema_def ExcludeSchema_def
                  schema_load_def handle_unknown_def)
  show "\<exists>msg. ProductService_register [] w = Inl (ValidationError msg)"
    using register_requires_name [of "[]"] by simp
qed

end
